(* ===== verification/Go_Prelude.thy ===== *)
theory Go_Prelude
  imports Main
begin

text \<open>
  Shared vocabulary of the development.  The Go code of the plugin is a chain of
  calls each of which either returns a value or an \<open>error\<close> and may touch the
  outside world (the HTTP server, the file system, standard output).  We model such
  a call as a function from a world \<open>'w\<close> to a result of type \<open>'e + 'a\<close>
  (\<open>Inl\<close> the Go error, \<open>Inr\<close> the value) together with the new world: an
  \<open>('e, 'w, 'a) act\<close>.  The combinators below are the Go idiom
  \<^verbatim>\<open>x, err := f(); if err != nil { return err }\<close> written once.
  The collection \<open>act_simps\<close> holds the rewrite rules that run an
  \<open>act\<close> on a known world; component proofs use it with \<open>simp add:\<close>.
\<close>

named_theorems act_simps "rules that evaluate the act combinators"

type_synonym ('e, 'w, 'a) act = "'w \<Rightarrow> ('e + 'a) \<times> 'w"

definition returnE :: "'a \<Rightarrow> ('e, 'w, 'a) act" where
  "returnE a w = (Inr a, w)"

definition throwE :: "'e \<Rightarrow> ('e, 'w, 'a) act" where
  "throwE e w = (Inl e, w)"

definition liftE :: "'e + 'a \<Rightarrow> ('e, 'w, 'a) act" where
  "liftE r w = (r, w)"

definition modifyE :: "('w \<Rightarrow> 'w) \<Rightarrow> ('e, 'w, unit) act" where
  "modifyE f w = (Inr (), f w)"

definition bindE :: "('e, 'w, 'a) act \<Rightarrow> ('a \<Rightarrow> ('e, 'w, 'b) act) \<Rightarrow> ('e, 'w, 'b) act" where
  "bindE m f w = (case m w of (Inl e, w') \<Rightarrow> (Inl e, w') | (Inr a, w') \<Rightarrow> f a w')"

text \<open>
  \<open>handleE m h\<close> runs \<open>m\<close> and, when it fails with \<open>e\<close>, continues with
  \<open>h e\<close> in the world \<open>m\<close> left behind (an \<^verbatim>\<open>if err != nil { ... }\<close> block).
\<close>

definition handleE :: "('e, 'w, 'a) act \<Rightarrow> ('e \<Rightarrow> ('e, 'w, 'a) act) \<Rightarrow> ('e, 'w, 'a) act" where
  "handleE m h w = (case m w of (Inl e, w') \<Rightarrow> h e w' | (Inr a, w') \<Rightarrow> (Inr a, w'))"

subsection \<open>Running the combinators\<close>

lemma returnE_run [act_simps, simp]: "returnE a w = (Inr a, w)"
  by (simp add: returnE_def)

lemma throwE_run [act_simps, simp]: "throwE e w = (Inl e, w)"
  by (simp add: throwE_def)

lemma liftE_run [act_simps, simp]: "liftE r w = (r, w)"
  by (simp add: liftE_def)

lemma modifyE_run [act_simps, simp]: "modifyE f w = (Inr (), f w)"
  by (simp add: modifyE_def)

lemma bindE_Inr [act_simps]: "m w = (Inr a, w') \<Longrightarrow> bindE m f w = f a w'"
  by (simp add: bindE_def)

lemma bindE_Inl [act_simps]: "m w = (Inl e, w') \<Longrightarrow> bindE m f w = (Inl e, w')"
  by (simp add: bindE_def)

lemma handleE_Inr [act_simps]: "m w = (Inr a, w') \<Longrightarrow> handleE m h w = (Inr a, w')"
  by (simp add: handleE_def)

lemma handleE_Inl [act_simps]: "m w = (Inl e, w') \<Longrightarrow> handleE m h w = h e w'"
  by (simp add: handleE_def)

lemma bindE_returnE [simp]: "bindE (returnE a) f = f a"
  by (simp add: bindE_def fun_eq_iff)

lemma bindE_throwE [simp]: "bindE (throwE e) f = throwE e"
  by (simp add: bindE_def fun_eq_iff)

lemma bindE_liftE_Inr [simp]: "bindE (liftE (Inr a)) f = f a"
  by (simp add: bindE_def fun_eq_iff)

lemma bindE_liftE_Inl [simp]: "bindE (liftE (Inl e)) f = throwE e"
  by (simp add: bindE_def fun_eq_iff)

lemma bindE_modifyE [simp]: "bindE (modifyE g) f w = f () (g w)"
  by (simp add: bindE_def)

lemma bindE_assoc: "bindE (bindE m f) g = bindE m (\<lambda>a. bindE (f a) g)"
  by (simp add: bindE_def fun_eq_iff split: prod.splits sum.splits)

lemma bindE_split:
  "P (bindE m f w) \<longleftrightarrow>
     (\<forall>e w'. m w = (Inl e, w') \<longrightarrow> P (Inl e, w')) \<and>
     (\<forall>a w'. m w = (Inr a, w') \<longrightarrow> P (f a w'))"
  by (cases "m w" rule: prod.exhaust) (auto simp: bindE_def split: sum.splits)

lemma handleE_split:
  "P (handleE m h w) \<longleftrightarrow>
     (\<forall>e w'. m w = (Inl e, w') \<longrightarrow> P (h e w')) \<and>
     (\<forall>a w'. m w = (Inr a, w') \<longrightarrow> P (Inr a, w'))"
  by (cases "m w" rule: prod.exhaust) (auto simp: handleE_def split: sum.splits)

text \<open>
  Frame reasoning: a property of the world that every step keeps is kept by the
  composition.  \<open>keeps Q m\<close> says that \<open>m\<close> keeps the world property \<open>Q\<close>.
\<close>

definition keeps :: "('w \<Rightarrow> bool) \<Rightarrow> ('e, 'w, 'a) act \<Rightarrow> bool" where
  "keeps Q m \<longleftrightarrow> (\<forall>w. Q w \<longrightarrow> Q (snd (m w)))"

lemma keeps_returnE [intro]: "keeps Q (returnE a)"
  by (simp add: keeps_def)

lemma keeps_throwE [intro]: "keeps Q (throwE e)"
  by (simp add: keeps_def)

lemma keeps_liftE [intro]: "keeps Q (liftE r)"
  by (simp add: keeps_def)

lemma keeps_bindE [intro]: "keeps Q m \<Longrightarrow> (\<And>a. keeps Q (f a)) \<Longrightarrow> keeps Q (bindE m f)"
  by (auto simp: keeps_def bindE_def split: prod.splits sum.splits)

lemma keeps_handleE [intro]: "keeps Q m \<Longrightarrow> (\<And>e. keeps Q (h e)) \<Longrightarrow> keeps Q (handleE m h)"
  by (auto simp: keeps_def handleE_def split: prod.splits sum.splits)

lemma keeps_if [intro]: "keeps Q m1 \<Longrightarrow> keeps Q m2 \<Longrightarrow> keeps Q (if b then m1 else m2)"
  by simp

lemma keepsD: "keeps Q m \<Longrightarrow> Q w \<Longrightarrow> m w = (r, w') \<Longrightarrow> Q w'"
  by (metis keeps_def snd_conv)

text \<open>A composition fails (its result is an \<open>Inl\<close>) when every continuation fails.\<close>

lemma bindE_isl: "(\<And>a w. isl (fst (f a w))) \<Longrightarrow> isl (fst (bindE m f w))"
  by (auto simp: bindE_def split: prod.splits sum.splits)

subsection \<open>Lists\<close>

text \<open>
  First element satisfying a predicate, the shape of Go's
  \<^verbatim>\<open>for _, x := range xs { if p(x) { return x } }\<close>.  \<open>List.find\<close> is that
  function; we only add the facts the components share.
\<close>

lemma find_Some_set: "List.find P xs = Some x \<Longrightarrow> x \<in> set xs \<and> P x"
  by (induction xs) (auto split: if_splits)

lemma find_append_first [simp]:
  "List.find P (ys @ zs) = (case List.find P ys of None \<Rightarrow> List.find P zs | Some y \<Rightarrow> Some y)"
  by (induction ys) auto

lemma distinct_map_eq:
  "distinct (map f xs) \<Longrightarrow> x \<in> set xs \<Longrightarrow> y \<in> set xs \<Longrightarrow> f x = f y \<Longrightarrow> x = y"
  by (metis distinct_map inj_onD)

end
