(* ===== verification/Go_Strings.thy ===== *)
theory Go_Strings
  imports Go_Prelude
begin

text \<open>
  The string functions of Go's standard library that the plugin calls, on Go strings
  (byte sequences, here \<open>string = char list\<close> with 8-bit \<open>char\<close>s):
  \<^item> \<^verbatim>\<open>strings.SplitN(v, "=", 2)\<close> (plugin.go, environment entries) as
    \<open>strings_splitn2\<close>, through \<open>strings_cut\<close> (the first occurrence of the
    separator);
  \<^item> \<^verbatim>\<open>strings.Join(cfg, "\n")\<close> (plugin.go, stack configuration) as
    \<open>strings_join\<close>, and \<^verbatim>\<open>strings.Split\<close> as its inverse \<open>strings_split\<close>;
  \<^item> \<^verbatim>\<open>fmt.Sprintf("%d", id)\<close> (portainer.go, request URLs) as \<open>go_itoa\<close>, with
    the reading function \<open>parse_int\<close> a server applies to the path segment;
  \<^item> ASCII case folding \<open>equal_fold\<close>, which \<^verbatim>\<open>encoding/json\<close> uses to match
    object keys to struct fields.
  The main facts: \<open>strings_splitn2\<close> cuts at the first separator and only there;
  \<open>strings_split\<close> inverts \<open>strings_join\<close> on separator-free parts; and
  \<open>parse_int (go_itoa n) = Some n\<close>.
\<close>

subsection \<open>Cutting at the first separator\<close>

fun strings_cut :: "char \<Rightarrow> string \<Rightarrow> (string \<times> string) option" where
  "strings_cut c [] = None"
| "strings_cut c (x # xs) =
     (if x = c then Some ([], xs)
      else map_option (\<lambda>(a, b). (x # a, b)) (strings_cut c xs))"

text \<open>
  \<^verbatim>\<open>strings.SplitN(s, sep, 2)\<close> for a one-byte separator: the whole string when
  the separator does not occur, else the parts before and after its first occurrence.
\<close>

definition strings_splitn2 :: "char \<Rightarrow> string \<Rightarrow> string list" where
  "strings_splitn2 c s = (case strings_cut c s of None \<Rightarrow> [s] | Some (a, b) \<Rightarrow> [a, b])"

lemma strings_cut_None [simp]: "strings_cut c s = None \<longleftrightarrow> c \<notin> set s"
  by (induction s) auto

lemma strings_cut_no_sep [simp]: "c \<notin> set s \<Longrightarrow> strings_cut c s = None"
  by simp

lemma strings_cut_Some:
  "strings_cut c s = Some (a, b) \<longleftrightarrow> s = a @ c # b \<and> c \<notin> set a"
proof (induction s arbitrary: a)
  case Nil
  then show ?case by simp
next
  case (Cons x xs)
  then show ?case
    by (cases a) (auto split: if_splits)
qed

lemma strings_cut_length: "strings_cut c s = Some (a, b) \<Longrightarrow> length b < length s"
  by (simp add: strings_cut_Some)

lemma strings_splitn2_no_sep [simp]: "c \<notin> set s \<Longrightarrow> strings_splitn2 c s = [s]"
  by (simp add: strings_splitn2_def)

lemma strings_splitn2_first_sep [simp]:
  "c \<notin> set a \<Longrightarrow> strings_splitn2 c (a @ c # b) = [a, b]"
proof -
  assume "c \<notin> set a"
  then have "strings_cut c (a @ c # b) = Some (a, b)" by (simp add: strings_cut_Some)
  then show ?thesis by (simp add: strings_splitn2_def)
qed

lemma strings_splitn2_length: "length (strings_splitn2 c s) = (if c \<in> set s then 2 else 1)"
  by (auto simp: strings_splitn2_def strings_cut_Some split: option.splits)

subsection \<open>Join and split\<close>

fun strings_join :: "string list \<Rightarrow> string \<Rightarrow> string" where
  "strings_join [] sep = []"
| "strings_join [x] sep = x"
| "strings_join (x # y # zs) sep = x @ sep @ strings_join (y # zs) sep"

function (domintros) strings_split :: "char \<Rightarrow> string \<Rightarrow> string list" where
  "strings_split c s = (case strings_cut c s of None \<Rightarrow> [s] | Some (a, b) \<Rightarrow> a # strings_split c b)"
  by pat_completeness auto
termination
  by (relation "measure (\<lambda>(c, s). length s)") (auto dest: strings_cut_length)

declare strings_split.simps [simp del]

lemma strings_split_no_sep [simp]: "c \<notin> set s \<Longrightarrow> strings_split c s = [s]"
  by (simp add: strings_split.simps)

lemma strings_split_not_Nil [simp]: "strings_split c s \<noteq> []"
  by (simp add: strings_split.simps split: option.splits prod.splits)

lemma strings_split_sep [simp]:
  "c \<notin> set a \<Longrightarrow> strings_split c (a @ c # b) = a # strings_split c b"
proof -
  assume "c \<notin> set a"
  then have "strings_cut c (a @ c # b) = Some (a, b)" by (simp add: strings_cut_Some)
  then show ?thesis by (simp add: strings_split.simps)
qed

lemma strings_split_join:
  "xs \<noteq> [] \<Longrightarrow> (\<forall>x\<in>set xs. c \<notin> set x) \<Longrightarrow> strings_split c (strings_join xs [c]) = xs"
  by (induction xs "[c]" rule: strings_join.induct) simp_all

lemma strings_join_split: "strings_join (strings_split c s) [c] = s"
proof (induction c s rule: strings_split.induct)
  case (1 c s)
  show ?case
  proof (cases "strings_cut c s")
    case None
    then show ?thesis by (simp add: strings_split.simps)
  next
    case (Some p)
    then obtain a b where ab: "strings_cut c s = Some (a, b)" by (cases p) auto
    then have IH: "strings_join (strings_split c b) [c] = b" using "1" by simp
    have "strings_split c b \<noteq> []"
      by (subst strings_split.simps) (simp split: option.splits prod.splits)
    then obtain y ys where "strings_split c b = y # ys" by (cases "strings_split c b") auto
    with ab IH show ?thesis
      by (simp add: strings_split.simps [of c s] strings_cut_Some)
  qed
qed

text \<open>The split terminates on every input (from its domain rules, by induction
  on the length), with one piece more than there are separators.\<close>

lemma strings_split_terminates: "strings_split_dom (c, s)"
proof (induction "length s" arbitrary: s rule: less_induct)
  case less
  show ?case
  proof (rule strings_split.domintros)
    fix a b assume "strings_cut c s = Some (a, b)"
    then have "length b < length s" by (rule strings_cut_length)
    then show "strings_split_dom (c, b)" by (rule less)
  qed
qed

lemma strings_split_length: "length (strings_split c s) = count_list s c + 1"
proof (induction c s rule: strings_split.induct)
  case (1 c s)
  show ?case
  proof (cases "strings_cut c s")
    case None
    then have "c \<notin> set s" by simp
    with None show ?thesis by (simp add: strings_split.simps count_list_0_iff)
  next
    case (Some p)
    then obtain a b where ab: "strings_cut c s = Some (a, b)" by (cases p) auto
    with "1" have "length (strings_split c b) = count_list b c + 1" by simp
    with ab show ?thesis by (simp add: strings_split.simps [of c s] strings_cut_Some count_list_0_iff)
  qed
qed

subsection \<open>Decimal printing, \<^verbatim>\<open>%d\<close>\<close>

definition digit_char :: "nat \<Rightarrow> char" where
  "digit_char d = char_of (48 + d)"

definition is_dec_digit :: "char \<Rightarrow> bool" where
  "is_dec_digit ch \<longleftrightarrow> (48::nat) \<le> of_char ch \<and> of_char ch \<le> (57::nat)"

definition digit_val :: "char \<Rightarrow> nat" where
  "digit_val ch = of_char ch - 48"

fun nat_digits :: "nat \<Rightarrow> string" where
  "nat_digits n = (if n < 10 then [digit_char n] else nat_digits (n div 10) @ [digit_char (n mod 10)])"

declare nat_digits.simps [simp del]

definition go_itoa :: "int \<Rightarrow> string" where
  "go_itoa i = (if i < 0 then CHR ''-'' # nat_digits (nat (- i)) else nat_digits (nat i))"

definition dec_value :: "string \<Rightarrow> nat" where
  "dec_value s = foldl (\<lambda>a ch. 10 * a + digit_val ch) 0 s"

definition parse_nat :: "string \<Rightarrow> nat option" where
  "parse_nat s = (if s \<noteq> [] \<and> list_all is_dec_digit s then Some (dec_value s) else None)"

definition parse_int :: "string \<Rightarrow> int option" where
  "parse_int s = (case s of
      ch # r \<Rightarrow> if ch = CHR ''-'' then map_option (\<lambda>n. - int n) (parse_nat r)
                else map_option int (parse_nat s)
    | [] \<Rightarrow> None)"

lemma digit_char_digit [simp]: "d < 10 \<Longrightarrow> is_dec_digit (digit_char d)"
  by (simp add: digit_char_def is_dec_digit_def)

lemma digit_val_digit_char [simp]: "d < 10 \<Longrightarrow> digit_val (digit_char d) = d"
  by (simp add: digit_char_def digit_val_def)

text \<open>The digits as literals, so that \<open>simp\<close> prints a concrete number.\<close>

lemma digit_char_literals [simp]:
  "digit_char 0 = CHR ''0''" "digit_char 1 = CHR ''1''" "digit_char 2 = CHR ''2''"
  "digit_char 3 = CHR ''3''" "digit_char 4 = CHR ''4''" "digit_char 5 = CHR ''5''"
  "digit_char 6 = CHR ''6''" "digit_char 7 = CHR ''7''" "digit_char 8 = CHR ''8''"
  "digit_char 9 = CHR ''9''"
  by (simp_all add: digit_char_def; code_simp)+

lemma dec_value_snoc [simp]: "dec_value (s @ [ch]) = 10 * dec_value s + digit_val ch"
  by (simp add: dec_value_def)

lemma nat_digits_digits: "list_all is_dec_digit (nat_digits n) \<and> nat_digits n \<noteq> []"
proof (induction n rule: nat_digits.induct)
  case (1 n)
  then show ?case by (simp add: nat_digits.simps [of n])
qed

lemma dec_value_nat_digits [simp]: "dec_value (nat_digits n) = n"
proof (induction n rule: nat_digits.induct)
  case (1 n)
  show ?case
  proof (cases "n < 10")
    case True
    then show ?thesis by (subst nat_digits.simps) (simp add: dec_value_def)
  next
    case False
    with "1" show ?thesis by (subst nat_digits.simps) simp
  qed
qed

lemma parse_nat_digits [simp]: "parse_nat (nat_digits n) = Some n"
  using nat_digits_digits [of n] by (simp add: parse_nat_def)

lemma nat_digits_hd: "hd (nat_digits n) \<noteq> CHR ''-''"
proof -
  have "is_dec_digit (hd (nat_digits n))"
    using nat_digits_digits [of n] by (cases "nat_digits n") auto
  then show ?thesis by (auto simp: is_dec_digit_def)
qed

lemma parse_int_go_itoa: "parse_int (go_itoa i) = Some i"
proof (cases "i < 0")
  case True
  then show ?thesis by (simp add: go_itoa_def parse_int_def)
next
  case False
  obtain ch r where "nat_digits (nat i) = ch # r"
    using nat_digits_digits [of "nat i"] by (cases "nat_digits (nat i)") auto
  moreover have "ch \<noteq> CHR ''-''"
    using nat_digits_hd [of "nat i"] calculation by simp
  ultimately show ?thesis
    using False parse_nat_digits [of "nat i"] by (simp add: go_itoa_def parse_int_def)
qed

lemma go_itoa_inj: "go_itoa i = go_itoa j \<longleftrightarrow> i = j"
  by (metis option.inject parse_int_go_itoa)

text \<open>A printed integer has no \<^verbatim>\<open>?\<close>, so it ends at the query of a URL.\<close>

lemma go_itoa_chars: "ch \<in> set (go_itoa i) \<Longrightarrow> ch = CHR ''-'' \<or> is_dec_digit ch"
  using nat_digits_digits [of "nat (- i)"] nat_digits_digits [of "nat i"]
  by (auto simp: go_itoa_def list_all_iff split: if_splits)

lemma go_itoa_no_query [simp]: "CHR ''?'' \<notin> set (go_itoa i)"
  using go_itoa_chars [of "CHR ''?''" i] by (auto simp: is_dec_digit_def)

lemma go_itoa_no_slash [simp]: "CHR ''/'' \<notin> set (go_itoa i)"
  using go_itoa_chars [of "CHR ''/''" i] by (auto simp: is_dec_digit_def)

subsection \<open>ASCII case folding\<close>

definition ascii_lower :: "char \<Rightarrow> char" where
  "ascii_lower ch = (if (65::nat) \<le> of_char ch \<and> of_char ch \<le> (90::nat) then char_of (of_char ch + (32::nat)) else ch)"

definition equal_fold :: "string \<Rightarrow> string \<Rightarrow> bool" where
  "equal_fold s t \<longleftrightarrow> map ascii_lower s = map ascii_lower t"

lemma equal_fold_refl [simp]: "equal_fold s s"
  by (simp add: equal_fold_def)

lemma equal_fold_sym: "equal_fold s t = equal_fold t s"
  by (auto simp: equal_fold_def)

end
