(* ===== verification/Go_Json.thy ===== *)
theory Go_Json
  imports Go_Strings
begin

text \<open>
  The part of Go's \<^verbatim>\<open>encoding/json\<close> the client relies on, above the byte level:
  a JSON document is a value of \<open>json\<close> (objects keep their members in order and
  may repeat keys, as the wire format allows).  A number literal is \<open>JNum n\<close> when it
  is an integer literal and \<open>JFloat\<close> (its text) when it has a fraction or exponent.

  \<^verbatim>\<open>json.Unmarshal(data, &v)\<close> decodes \<^emph>\<open>into\<close> the current value of \<open>v\<close>; every
  decoder below therefore has the shape \<open>'a \<Rightarrow> json \<Rightarrow> 'a option\<close> (current value,
  document, new value or a decoding error):
  \<^item> \<open>null\<close> leaves a string, number, bool or struct unchanged and sets a pointer or a
    slice to nil;
  \<^item> an object member is stored in the struct field whose name equals the key, or else
    whose name equals it up to ASCII case (\<open>find_field\<close>); unknown keys are ignored;
    members are processed in order, so a later duplicate overwrites an earlier one;
  \<^item> a value of the wrong JSON type, or an integer outside Go's 64-bit \<^verbatim>\<open>int\<close>, makes
    \<^verbatim>\<open>Unmarshal\<close> return an error (Go records the first such error and keeps
    going, but the client discards the value whenever the error is set, so stopping at
    once is observably the same);
  \<^item> a slice element is decoded into the element already at that index, or into a fresh
    zero value past the end; the result has as many elements as the array.
  Not modelled: the byte syntax of JSON (a document that does not parse is the
  response body \<open>Body_Malformed\<close> of the HTTP model), Unicode case folding beyond
  ASCII, and the spare capacity of a slice reused by a repeated key.
\<close>

datatype json =
    JNull
  | JBool bool
  | JNum int
  | JFloat string
  | JStr string
  | JArr "json list"
  | JObj "(string \<times> json) list"

subsection \<open>Go's \<^verbatim>\<open>int\<close>\<close>

definition go_int_min :: int where "go_int_min = - (2 ^ 63)"
definition go_int_max :: int where "go_int_max = 2 ^ 63 - 1"

definition in_go_int :: "int \<Rightarrow> bool" where
  "in_go_int n \<longleftrightarrow> go_int_min \<le> n \<and> n \<le> go_int_max"

lemma in_go_int_0 [simp]: "in_go_int 0"
  by (simp add: in_go_int_def go_int_min_def go_int_max_def)

subsection \<open>Decoders for scalars, pointers and slices\<close>

fun dec_string :: "string \<Rightarrow> json \<Rightarrow> string option" where
  "dec_string cur JNull = Some cur"
| "dec_string cur (JStr s) = Some s"
| "dec_string cur _ = None"

fun dec_int :: "int \<Rightarrow> json \<Rightarrow> int option" where
  "dec_int cur JNull = Some cur"
| "dec_int cur (JNum n) = (if in_go_int n then Some n else None)"
| "dec_int cur _ = None"

fun dec_bool :: "bool \<Rightarrow> json \<Rightarrow> bool option" where
  "dec_bool cur JNull = Some cur"
| "dec_bool cur (JBool b) = Some b"
| "dec_bool cur _ = None"

text \<open>A pointer \<open>*T\<close> is \<open>'a option\<close>; decoding a non-null value into a nil pointer
  allocates the zero value \<open>z\<close> first.\<close>

fun dec_ptr :: "('a \<Rightarrow> json \<Rightarrow> 'a option) \<Rightarrow> 'a \<Rightarrow> 'a option \<Rightarrow> json \<Rightarrow> 'a option option" where
  "dec_ptr d z cur JNull = Some None"
| "dec_ptr d z cur v = map_option Some (d (case cur of None \<Rightarrow> z | Some x \<Rightarrow> x) v)"

fun dec_elems :: "('a \<Rightarrow> json \<Rightarrow> 'a option) \<Rightarrow> 'a \<Rightarrow> 'a list \<Rightarrow> json list \<Rightarrow> 'a list option" where
  "dec_elems d z cur [] = Some []"
| "dec_elems d z cur (v # vs) =
     (case d (case cur of [] \<Rightarrow> z | c # _ \<Rightarrow> c) v of
        None \<Rightarrow> None
      | Some x \<Rightarrow> map_option (Cons x) (dec_elems d z (tl cur) vs))"

fun dec_slice :: "('a \<Rightarrow> json \<Rightarrow> 'a option) \<Rightarrow> 'a \<Rightarrow> 'a list \<Rightarrow> json \<Rightarrow> 'a list option" where
  "dec_slice d z cur JNull = Some []"
| "dec_slice d z cur (JArr vs) = dec_elems d z cur vs"
| "dec_slice d z cur _ = None"

subsection \<open>Structs\<close>

text \<open>
  A struct type is described by its field table: for each field its JSON name (the
  \<^verbatim>\<open>json:"..."\<close> tag, or the Go field name when there is none) and the decoder that
  stores a member into that field.
\<close>

type_synonym 'r field = "string \<times> ('r \<Rightarrow> json \<Rightarrow> 'r option)"

definition field :: "('r \<Rightarrow> 'a) \<Rightarrow> ('a \<Rightarrow> 'r \<Rightarrow> 'r) \<Rightarrow> ('a \<Rightarrow> json \<Rightarrow> 'a option) \<Rightarrow> 'r \<Rightarrow> json \<Rightarrow> 'r option" where
  "field get put d r v = map_option (\<lambda>x. put x r) (d (get r) v)"

definition find_field :: "'r field list \<Rightarrow> string \<Rightarrow> ('r \<Rightarrow> json \<Rightarrow> 'r option) option" where
  "find_field fs k =
     (case List.find (\<lambda>(n, _). n = k) fs of
        Some (_, d) \<Rightarrow> Some d
      | None \<Rightarrow> map_option snd (List.find (\<lambda>(n, _). equal_fold n k) fs))"

fun dec_members :: "'r field list \<Rightarrow> 'r \<Rightarrow> (string \<times> json) list \<Rightarrow> 'r option" where
  "dec_members fs r [] = Some r"
| "dec_members fs r ((k, v) # ms) =
     (case find_field fs k of
        None \<Rightarrow> dec_members fs r ms
      | Some d \<Rightarrow> (case d r v of None \<Rightarrow> None | Some r' \<Rightarrow> dec_members fs r' ms))"

fun dec_struct :: "'r field list \<Rightarrow> 'r \<Rightarrow> json \<Rightarrow> 'r option" where
  "dec_struct fs r JNull = Some r"
| "dec_struct fs r (JObj ms) = dec_members fs r ms"
| "dec_struct fs r _ = None"

subsection \<open>Encoders\<close>

text \<open>\<^verbatim>\<open>json.Marshal\<close> of a slice of non-nil pointers: \<open>null\<close> for a nil slice,
  else the array of the encoded elements.  The plugin builds its slices by
  \<^verbatim>\<open>append\<close> from nil, so the empty slice is always nil.\<close>

definition enc_slice :: "('a \<Rightarrow> json) \<Rightarrow> 'a list \<Rightarrow> json" where
  "enc_slice e xs = (if xs = [] then JNull else JArr (map e xs))"

subsection \<open>Facts\<close>

lemma dec_elems_length: "dec_elems d z cur vs = Some xs \<Longrightarrow> length xs = length vs"
  by (induction d z cur vs arbitrary: xs rule: dec_elems.induct) (auto split: option.splits)

lemma dec_ptr_nonnull: "v \<noteq> JNull \<Longrightarrow> dec_ptr d z cur v = map_option Some (d (case cur of None \<Rightarrow> z | Some x \<Rightarrow> x) v)"
  by (cases v) auto

lemma dec_elems_overwrite:
  "(\<And>x. x \<in> set xs \<Longrightarrow> e x \<noteq> JNull \<and> (\<forall>c. d c (e x) = Some x)) \<Longrightarrow>
   dec_elems (dec_ptr d z) None cur (map e xs) = Some (map Some xs)"
  by (induction xs arbitrary: cur) (auto simp: dec_ptr_nonnull)

text \<open>Round trip: decoding what \<open>enc_slice\<close> produced gives back the elements, as
  non-nil pointers, into whatever slice was there before, whenever each element's
  encoding overwrites every field of the value it is decoded into.\<close>

lemma dec_slice_enc_slice:
  assumes "\<And>x. x \<in> set xs \<Longrightarrow> e x \<noteq> JNull \<and> (\<forall>c. d c (e x) = Some x)"
  shows "dec_slice (dec_ptr d z) None cur (enc_slice e xs) = Some (map Some xs)"
  using dec_elems_overwrite [of xs e d z cur, OF assms] by (simp add: enc_slice_def)

text \<open>Decoding from scratch (into the nil slice) an array of encodings that each
  decode, from the zero value, to a known value.\<close>

lemma dec_elems_fresh:
  "(\<And>x. x \<in> set xs \<Longrightarrow> e x \<noteq> JNull \<and> d z (e x) = Some (v x)) \<Longrightarrow>
   dec_elems (dec_ptr d z) None [] (map e xs) = Some (map (\<lambda>x. Some (v x)) xs)"
  by (induction xs) (auto simp: dec_ptr_nonnull)

lemma dec_members_append:
  "dec_members fs r (ms @ ms') = (case dec_members fs r ms of None \<Rightarrow> None | Some r' \<Rightarrow> dec_members fs r' ms')"
  by (induction fs r ms rule: dec_members.induct) (auto split: option.splits)

text \<open>An invariant of the struct value that every field decoder keeps is kept by
  decoding a whole object: induction over the members.\<close>

lemma dec_members_inv:
  assumes step: "\<And>k d r v r'. (k, d) \<in> set fs \<Longrightarrow> P r \<Longrightarrow> d r v = Some r' \<Longrightarrow> P r'"
  shows "P r \<Longrightarrow> dec_members fs r ms = Some r' \<Longrightarrow> P r'"
proof (induction ms arbitrary: r)
  case Nil
  then show ?case by simp
next
  case (Cons m ms)
  obtain k v where m: "m = (k, v)" by (cases m)
  show ?case
  proof (cases "find_field fs k")
    case None
    with Cons m show ?thesis by simp
  next
    case (Some d)
    then have "d \<in> snd ` set fs"
      by (force simp: find_field_def split: option.splits dest!: find_Some_set)
    then obtain k' where kd: "(k', d) \<in> set fs" by auto
    from Cons.prems(2) Some m obtain r1 where r1: "d r v = Some r1" and rest: "dec_members fs r1 ms = Some r'"
      by (auto split: option.splits)
    from step [OF kd Cons.prems(1) r1] have "P r1" .
    then show ?thesis using rest by (rule Cons.IH)
  qed
qed

lemma dec_struct_inv:
  assumes "\<And>k d r v r'. (k, d) \<in> set fs \<Longrightarrow> P r \<Longrightarrow> d r v = Some r' \<Longrightarrow> P r'"
    and "P r" and "dec_struct fs r j = Some r'"
  shows "P r'"
  using assms by (cases j) (auto intro: dec_members_inv [OF assms(1)])

lemma dec_int_in_range: "dec_int cur v = Some n \<Longrightarrow> in_go_int cur \<Longrightarrow> in_go_int n"
  by (cases v) (auto split: if_splits)

text \<open>An invariant that the zero value has and every element decode keeps holds of
  every non-nil element of a slice of pointers decoded from scratch.\<close>

lemma dec_elems_ptr_inv:
  assumes step: "\<And>r v r'. P r \<Longrightarrow> d r v = Some r' \<Longrightarrow> P r'" and z: "P z"
  shows "dec_elems (dec_ptr d z) None [] vs = Some xs \<Longrightarrow> Some x \<in> set xs \<Longrightarrow> P x"
proof (induction vs arbitrary: xs)
  case Nil
  then show ?case by simp
next
  case (Cons v vs)
  then show ?case
    by (cases "v = JNull") (auto simp: dec_ptr_nonnull split: option.splits intro: step [OF z])
qed

lemma dec_slice_ptr_inv:
  "(\<And>r v r'. P r \<Longrightarrow> d r v = Some r' \<Longrightarrow> P r') \<Longrightarrow> P z \<Longrightarrow>
   dec_slice (dec_ptr d z) None [] j = Some xs \<Longrightarrow> Some x \<in> set xs \<Longrightarrow> P x"
  by (cases j) (auto intro: dec_elems_ptr_inv)

end
