(* ===== verification/Portainer_Types.thy ===== *)
theory Portainer_Types
  imports Go_Json
begin

text \<open>
  The data of the Portainer API client, \<^verbatim>\<open>src/lib/portainer/portainer.go\<close>: the
  structs \<^verbatim>\<open>Env\<close>, \<^verbatim>\<open>Stack\<close> and \<^verbatim>\<open>Endpoint\<close> as records with the Go zero value of
  each, their JSON field tables (the \<^verbatim>\<open>json:"..."\<close> tags) and decoders, and the
  anonymous structs the client marshals as request bodies or unmarshals from
  responses.  A Go pointer field is an \<open>option\<close>, a slice a list.
  The facts: an \<^verbatim>\<open>Env\<close> list the client sends is decoded back unchanged by the
  \<^verbatim>\<open>Stack.Env\<close> field (\<open>stack_env_roundtrip\<close>, from \<open>dec_env_enc_env\<close>), and
  every integer field of a decoded endpoint or stack lies in Go's \<^verbatim>\<open>int\<close> range
  (\<open>decoded_lists_wf\<close>, from the invariants \<open>endpoint_wf\<close> and \<open>stack_wf\<close>).
\<close>

subsection \<open>\<^verbatim>\<open>Env\<close>\<close>

record env =
  env_name :: string
  env_value :: string

definition zero_env :: env where
  "zero_env = \<lparr>env_name = [], env_value = []\<rparr>"

definition env_fields :: "env field list" where
  "env_fields =
     [(''name'', field env_name (\<lambda>x r. r\<lparr>env_name := x\<rparr>) dec_string),
      (''value'', field env_value (\<lambda>x r. r\<lparr>env_value := x\<rparr>) dec_string)]"

definition dec_env :: "env \<Rightarrow> json \<Rightarrow> env option" where
  "dec_env = dec_struct env_fields"

definition enc_env :: "env \<Rightarrow> json" where
  "enc_env e = JObj [(''name'', JStr (env_name e)), (''value'', JStr (env_value e))]"

subsection \<open>\<^verbatim>\<open>Stack\<close>\<close>

record stack =
  stack_id :: int
  stack_name :: string
  stack_type :: int
  stack_endpoint_id :: int
  stack_entry_point :: string
  stack_swarm_id :: string
  stack_project_path :: string
  stack_env :: "env option list"

definition zero_stack :: stack where
  "zero_stack = \<lparr>stack_id = 0, stack_name = [], stack_type = 0, stack_endpoint_id = 0,
     stack_entry_point = [], stack_swarm_id = [], stack_project_path = [], stack_env = []\<rparr>"

definition stack_fields :: "stack field list" where
  "stack_fields =
     [(''Id'', field stack_id (\<lambda>x r. r\<lparr>stack_id := x\<rparr>) dec_int),
      (''Name'', field stack_name (\<lambda>x r. r\<lparr>stack_name := x\<rparr>) dec_string),
      (''Type'', field stack_type (\<lambda>x r. r\<lparr>stack_type := x\<rparr>) dec_int),
      (''EndpointID'', field stack_endpoint_id (\<lambda>x r. r\<lparr>stack_endpoint_id := x\<rparr>) dec_int),
      (''EntryPoint'', field stack_entry_point (\<lambda>x r. r\<lparr>stack_entry_point := x\<rparr>) dec_string),
      (''SwarmID'', field stack_swarm_id (\<lambda>x r. r\<lparr>stack_swarm_id := x\<rparr>) dec_string),
      (''ProjectPath'', field stack_project_path (\<lambda>x r. r\<lparr>stack_project_path := x\<rparr>) dec_string),
      (''Env'', field stack_env (\<lambda>x r. r\<lparr>stack_env := x\<rparr>) (dec_slice (dec_ptr dec_env zero_env) None))]"

definition dec_stack :: "stack \<Rightarrow> json \<Rightarrow> stack option" where
  "dec_stack = dec_struct stack_fields"

text \<open>\<^verbatim>\<open>var stacks []*Stack; json.Unmarshal(data, &stacks)\<close>\<close>

definition dec_stacks :: "json \<Rightarrow> stack option list option" where
  "dec_stacks = dec_slice (dec_ptr dec_stack zero_stack) None []"

subsection \<open>\<^verbatim>\<open>Endpoint\<close>\<close>

record endpoint =
  endpoint_id :: int
  endpoint_name :: string
  endpoint_type :: int
  endpoint_url :: string
  endpoint_group_id :: int
  endpoint_public_url :: string
  endpoint_swarm_id :: string

definition zero_endpoint :: endpoint where
  "zero_endpoint = \<lparr>endpoint_id = 0, endpoint_name = [], endpoint_type = 0, endpoint_url = [],
     endpoint_group_id = 0, endpoint_public_url = [], endpoint_swarm_id = []\<rparr>"

definition endpoint_fields :: "endpoint field list" where
  "endpoint_fields =
     [(''Id'', field endpoint_id (\<lambda>x r. r\<lparr>endpoint_id := x\<rparr>) dec_int),
      (''Name'', field endpoint_name (\<lambda>x r. r\<lparr>endpoint_name := x\<rparr>) dec_string),
      (''Type'', field endpoint_type (\<lambda>x r. r\<lparr>endpoint_type := x\<rparr>) dec_int),
      (''URL'', field endpoint_url (\<lambda>x r. r\<lparr>endpoint_url := x\<rparr>) dec_string),
      (''GroupId'', field endpoint_group_id (\<lambda>x r. r\<lparr>endpoint_group_id := x\<rparr>) dec_int),
      (''PublicURL'', field endpoint_public_url (\<lambda>x r. r\<lparr>endpoint_public_url := x\<rparr>) dec_string),
      (''SwarmID'', field endpoint_swarm_id (\<lambda>x r. r\<lparr>endpoint_swarm_id := x\<rparr>) dec_string)]"

definition dec_endpoint :: "endpoint \<Rightarrow> json \<Rightarrow> endpoint option" where
  "dec_endpoint = dec_struct endpoint_fields"

text \<open>\<^verbatim>\<open>var endpoints []*Endpoint; json.Unmarshal(data, &endpoints)\<close>\<close>

definition dec_endpoints :: "json \<Rightarrow> endpoint option list option" where
  "dec_endpoints = dec_slice (dec_ptr dec_endpoint zero_endpoint) None []"

subsection \<open>Anonymous structs of the requests and responses\<close>

text \<open>\<^verbatim>\<open>Auth\<close>: the credentials (no tags: the Go field names) and the reply
  \<^verbatim>\<open>struct { JWT string `json:"jwt"` }\<close>, decoded into its zero value.\<close>

definition enc_auth_args :: "string \<Rightarrow> string \<Rightarrow> json" where
  "enc_auth_args user pass = JObj [(''Username'', JStr user), (''Password'', JStr pass)]"

definition jwt_fields :: "string field list" where
  "jwt_fields = [(''jwt'', field id (\<lambda>x _. x) dec_string)]"

definition dec_auth_reply :: "json \<Rightarrow> string option" where
  "dec_auth_reply = dec_struct jwt_fields []"

text \<open>\<^verbatim>\<open>GetEndpointByName\<close>: the reply \<^verbatim>\<open>struct { ID string }\<close> of the swarm
  inspection.\<close>

definition swarm_fields :: "string field list" where
  "swarm_fields = [(''ID'', field id (\<lambda>x _. x) dec_string)]"

definition dec_swarm_reply :: "json \<Rightarrow> string option" where
  "dec_swarm_reply = dec_struct swarm_fields []"

text \<open>\<^verbatim>\<open>DeployStackFromGit\<close>, \<^verbatim>\<open>DeployStackFromString\<close>, \<^verbatim>\<open>UpdateStackFromString\<close>:
  the request bodies, fields in declaration order.\<close>

definition enc_git_args ::
  "string \<Rightarrow> string \<Rightarrow> string \<Rightarrow> string \<Rightarrow> string \<Rightarrow> string \<Rightarrow> env list \<Rightarrow> json" where
  "enc_git_args name swarm repo path user pass env =
     JObj [(''Name'', JStr name), (''SwarmID'', JStr swarm), (''RepositoryURL'', JStr repo),
           (''ComposeFilePathInRepository'', JStr path),
           (''RepositoryAuthentication'', JBool (0 < length user \<and> 0 < length pass)),
           (''RepositoryUsername'', JStr user), (''RepositoryPassword'', JStr pass),
           (''Env'', enc_slice enc_env env)]"

definition enc_string_args :: "string \<Rightarrow> string \<Rightarrow> string \<Rightarrow> env list \<Rightarrow> json" where
  "enc_string_args name swarm config env =
     JObj [(''Name'', JStr name), (''SwarmID'', JStr swarm), (''StackFileContent'', JStr config),
           (''Env'', enc_slice enc_env env)]"

definition enc_update_args :: "string \<Rightarrow> bool \<Rightarrow> env list \<Rightarrow> json" where
  "enc_update_args config prune env =
     JObj [(''StackFileContent'', JStr config), (''Prune'', JBool prune), (''Env'', enc_slice enc_env env)]"

text \<open>Well-formedness of decoded values: the integer fields are Go \<^verbatim>\<open>int\<close>s.\<close>

definition endpoint_wf :: "endpoint \<Rightarrow> bool" where
  "endpoint_wf e \<longleftrightarrow> in_go_int (endpoint_id e) \<and> in_go_int (endpoint_type e) \<and> in_go_int (endpoint_group_id e)"

definition stack_wf :: "stack \<Rightarrow> bool" where
  "stack_wf s \<longleftrightarrow> in_go_int (stack_id s) \<and> in_go_int (stack_type s) \<and> in_go_int (stack_endpoint_id s)"

subsection \<open>Facts\<close>

lemma dec_env_enc_env [simp]: "dec_env c (enc_env e) = Some e"
  by (simp add: dec_env_def enc_env_def env_fields_def find_field_def field_def)

lemma enc_env_nonnull [simp]: "enc_env e \<noteq> JNull"
  by (simp add: enc_env_def)

lemma dec_env_list_roundtrip:
  "dec_slice (dec_ptr dec_env zero_env) None cur (enc_slice enc_env es) = Some (map Some es)"
  by (rule dec_slice_enc_slice) simp

lemma endpoint_wf_zero [simp]: "endpoint_wf zero_endpoint"
  by (simp add: endpoint_wf_def zero_endpoint_def)

lemma stack_wf_zero [simp]: "stack_wf zero_stack"
  by (simp add: stack_wf_def zero_stack_def)

lemma dec_endpoint_wf:
  assumes "endpoint_wf r" and "dec_endpoint r v = Some r'"
  shows "endpoint_wf r'"
proof (rule dec_struct_inv [where P = endpoint_wf, OF _ assms(1) assms(2) [unfolded dec_endpoint_def]])
  fix k d r v r'
  assume "(k, d) \<in> set endpoint_fields" and "endpoint_wf r" and "d r v = Some r'"
  then show "endpoint_wf r'"
    by (auto simp: endpoint_fields_def field_def endpoint_wf_def) (meson dec_int_in_range)+
qed

lemma dec_stack_wf:
  assumes "stack_wf r" and "dec_stack r v = Some r'"
  shows "stack_wf r'"
proof (rule dec_struct_inv [where P = stack_wf, OF _ assms(1) assms(2) [unfolded dec_stack_def]])
  fix k d r v r'
  assume "(k, d) \<in> set stack_fields" and "stack_wf r" and "d r v = Some r'"
  then show "stack_wf r'"
    by (auto simp: stack_fields_def field_def stack_wf_def) (meson dec_int_in_range)+
qed

lemma find_field_stack_Env [simp]:
  "find_field stack_fields ''Env'' = Some (field stack_env (\<lambda>x r. r\<lparr>stack_env := x\<rparr>) (dec_slice (dec_ptr dec_env zero_env) None))"
  by (simp add: find_field_def stack_fields_def)

subsection \<open>Properties of the data\<close>

text \<open>
  The environment list the client sends, as the last \<^verbatim>\<open>Env\<close> member of a
  stack object, is what decoding the object stores in \<^verbatim>\<open>Stack.Env\<close>: every entry
  back as a non-nil pointer, in order, whatever the other members and whatever the
  stack held before.
\<close>

lemma stack_env_roundtrip:
  "dec_stack r (JObj (ms @ [(''Env'', enc_slice enc_env es)])) = Some s \<Longrightarrow> stack_env s = map Some es"
  by (auto simp: dec_stack_def dec_members_append field_def dec_env_list_roundtrip split: option.splits)

text \<open>
  Every endpoint and every stack of a decoded list has its integer fields
  (\<^verbatim>\<open>Id\<close>, \<^verbatim>\<open>Type\<close>, \<^verbatim>\<open>GroupId\<close>, \<^verbatim>\<open>EndpointID\<close>) in the range of Go's 64-bit
  \<^verbatim>\<open>int\<close>: a larger number makes the decode fail instead of wrapping.
\<close>

lemma decoded_lists_wf:
  "(dec_endpoints j = Some eps \<and> Some e \<in> set eps \<longrightarrow> endpoint_wf e) \<and>
   (dec_stacks j = Some ss \<and> Some s \<in> set ss \<longrightarrow> stack_wf s)"
  using dec_slice_ptr_inv [where P = endpoint_wf, OF dec_endpoint_wf endpoint_wf_zero]
    dec_slice_ptr_inv [where P = stack_wf, OF dec_stack_wf stack_wf_zero]
  by (auto simp: dec_endpoints_def dec_stacks_def)

end
