(* ===== verification/Http_Model.thy ===== *)
theory Http_Model
  imports Portainer_Types
begin

text \<open>
  The interface between the plugin and the world it runs in.  The program performs
  HTTP requests through one \<^verbatim>\<open>http.Client\<close>, reads files with \<^verbatim>\<open>ioutil.ReadFile\<close>,
  writes to standard output with \<^verbatim>\<open>fmt.Printf\<close> and parses its address with the
  \<^verbatim>\<open>urlx\<close> library.  None of these is code of the repository; they are the
  parameters of the model, collected in the record \<open>'s sys\<close>:
  \<^item> \<open>server\<close>: the remote Portainer server together with the network, a function
    from its state \<open>'s\<close> and a request to a response and its next state.  Any
    deterministic server, stateful or not, is one of these, so a theorem over every
    \<open>server\<close> holds against every server behaviour;
  \<^item> \<open>files\<close>: the contents of each readable file;
  \<^item> \<open>parse_url\<close>, \<open>normalize_url\<close>: \<^verbatim>\<open>urlx.Parse\<close> and \<^verbatim>\<open>urlx.Normalize\<close>;
  \<^item> \<open>elapsed\<close>: how \<^verbatim>\<open>time.Since(start)\<close> prints when the run reports its timing.
  The world \<open>'s world\<close> is the server state, the list of requests sent so far (in
  order; a request whose transport failed is still in the list) and the text printed.
  Go errors and run-time panics are the datatype \<open>go_error\<close>; an operation of the
  program is an \<open>('s, 'a) op\<close>.  What an operation may send is described by
  \<open>sends\<close> (every appended request satisfies a predicate) and \<open>sends_le\<close> (at
  most \<open>n\<close> appended requests satisfy it), both compositional along \<open>bindE\<close>
  and \<open>handleE\<close>; \<open>mutating\<close> singles out the requests that change the server.
\<close>

datatype http_method = HEAD | GET | POST | PUT

record request =
  req_method :: http_method
  req_url :: string
  req_auth :: "string option"
  req_body :: "json option"
  req_insecure :: bool

text \<open>A response body can fail to be read (\<^verbatim>\<open>ioutil.ReadAll\<close>), fail to parse as
  JSON, or be a JSON document.\<close>

datatype body = Body_Json json | Body_Malformed | Body_Unreadable

datatype response = Transport_Failure | Response int body

record url =
  url_scheme :: string
  url_host :: string
  url_port :: string
  url_path :: string

record 's sys =
  server :: "'s \<Rightarrow> request \<Rightarrow> response \<times> 's"
  files :: "string \<Rightarrow> string option"
  parse_url :: "string \<Rightarrow> url option"
  normalize_url :: "url \<Rightarrow> string option"
  elapsed :: string

record 's world =
  srv_state :: 's
  sent :: "request list"
  stdout :: string

datatype go_error =
    Err_Address_Parse
  | Err_Address_Normalize
  | Err_Transport
  | Err_Api http_method string int
  | Err_Read_Body
  | Err_Json
  | Err_Endpoint_Not_Found string
  | Err_Stack_Name_Undefined
  | Err_Read_File string
  | Err_Stack_Config_Undefined
  | Panic_Nil_Dereference
  | Panic_Index_Out_Of_Range

type_synonym ('s, 'a) op = "(go_error, 's world, 'a) act"

subsection \<open>Effects\<close>

text \<open>\<^verbatim>\<open>rsp, err := self.client.Do(req); if err != nil { return err }\<close>\<close>

definition http_do :: "'s sys \<Rightarrow> request \<Rightarrow> ('s, int \<times> body) op" where
  "http_do S rq w =
     (case server S (srv_state w) rq of
        (r, s') \<Rightarrow>
          (case r of
             Transport_Failure \<Rightarrow> Inl Err_Transport
           | Response st b \<Rightarrow> Inr (st, b),
           w\<lparr>srv_state := s', sent := sent w @ [rq]\<rparr>))"

text \<open>\<^verbatim>\<open>data, err := ioutil.ReadAll(rsp.Body)\<close> followed by
  \<^verbatim>\<open>err = json.Unmarshal(data, &v)\<close> with the decoder \<open>d\<close> of \<open>v\<close>'s type.\<close>

definition read_json :: "(json \<Rightarrow> 'a option) \<Rightarrow> body \<Rightarrow> go_error + 'a" where
  "read_json d b =
     (case b of
        Body_Unreadable \<Rightarrow> Inl Err_Read_Body
      | Body_Malformed \<Rightarrow> Inl Err_Json
      | Body_Json j \<Rightarrow> (case d j of None \<Rightarrow> Inl Err_Json | Some x \<Rightarrow> Inr x))"

text \<open>\<^verbatim>\<open>data, err := ioutil.ReadFile(path); ... string(data)\<close>\<close>

definition read_file :: "'s sys \<Rightarrow> string \<Rightarrow> ('s, string) op" where
  "read_file S path = liftE (case files S path of None \<Rightarrow> Inl (Err_Read_File path) | Some c \<Rightarrow> Inr c)"

text \<open>\<^verbatim>\<open>fmt.Printf\<close> of an already formatted text.\<close>

definition printf :: "string \<Rightarrow> ('s, unit) op" where
  "printf s = modifyE (\<lambda>w. w\<lparr>stdout := stdout w @ s\<rparr>)"

text \<open>Go's \<^verbatim>\<open>if err != nil { ... }\<close> sees the errors a call returns; a run-time
  panic is no such value and unwinds past every check (the repository has no
  \<^verbatim>\<open>recover\<close>), up to the process, which it ends with status 2.\<close>

fun is_panic :: "go_error \<Rightarrow> bool" where
  "is_panic Panic_Nil_Dereference = True"
| "is_panic Panic_Index_Out_Of_Range = True"
| "is_panic _ = False"

definition catch_err :: "('s, 'a) op \<Rightarrow> (go_error \<Rightarrow> ('s, 'a) op) \<Rightarrow> ('s, 'a) op" where
  "catch_err m h = handleE m (\<lambda>e. if is_panic e then throwE e else h e)"

subsection \<open>What an operation sends\<close>

text \<open>
  \<open>sends R m\<close>: running \<open>m\<close> only appends requests to the log, each satisfying
  \<open>R\<close>.  It composes along \<open>bindE\<close> and \<open>handleE\<close>, so the requests of a whole
  run are described by the requests of its parts.
\<close>

definition sends :: "(request \<Rightarrow> bool) \<Rightarrow> ('s, 'a) op \<Rightarrow> bool" where
  "sends R m \<longleftrightarrow> (\<forall>w. \<exists>new. sent (snd (m w)) = sent w @ new \<and> (\<forall>rq\<in>set new. R rq))"

text \<open>\<open>sends_le R n m\<close>: running \<open>m\<close> only appends requests, at most \<open>n\<close> of
  which satisfy \<open>R\<close>.\<close>

definition sends_le :: "(request \<Rightarrow> bool) \<Rightarrow> nat \<Rightarrow> ('s, 'a) op \<Rightarrow> bool" where
  "sends_le R n m \<longleftrightarrow> (\<forall>w. \<exists>new. sent (snd (m w)) = sent w @ new \<and> length (filter R new) \<le> n)"

text \<open>A request that changes the server: an update, or a creation (an
  authenticated \<^verbatim>\<open>POST\<close>; the login is the only \<^verbatim>\<open>POST\<close> without a token).\<close>

definition mutating :: "request \<Rightarrow> bool" where
  "mutating rq \<longleftrightarrow> req_method rq = PUT \<or> (req_method rq = POST \<and> req_auth rq \<noteq> None)"

subsection \<open>Running the effects\<close>

lemma http_do_run [act_simps]:
  "server S (srv_state w) rq = (r, s') \<Longrightarrow>
   http_do S rq w =
     (case r of Transport_Failure \<Rightarrow> Inl Err_Transport | Response st b \<Rightarrow> Inr (st, b),
      w\<lparr>srv_state := s', sent := sent w @ [rq]\<rparr>)"
  by (simp add: http_do_def)

lemma read_file_run [act_simps]:
  "files S path = Some c \<Longrightarrow> read_file S path w = (Inr c, w)"
  "files S path = None \<Longrightarrow> read_file S path w = (Inl (Err_Read_File path), w)"
  by (simp_all add: read_file_def)

lemma printf_run [act_simps, simp]: "printf s w = (Inr (), w\<lparr>stdout := stdout w @ s\<rparr>)"
  by (simp add: printf_def)

lemma read_json_Json [simp]: "d j = Some x \<Longrightarrow> read_json d (Body_Json j) = Inr x"
  by (simp add: read_json_def)

subsection \<open>Facts on \<open>sends\<close>\<close>

lemma sends_returnE [intro!]: "sends R (returnE a)"
  by (auto simp: sends_def)

lemma sends_throwE [intro!]: "sends R (throwE e)"
  by (auto simp: sends_def)

lemma sends_liftE [intro!]: "sends R (liftE r)"
  by (auto simp: sends_def)

lemma sends_printf [intro!]: "sends R (printf s)"
  by (auto simp: sends_def)

lemma sends_read_file [intro!]: "sends R (read_file S path)"
  by (auto simp: sends_def read_file_def)

lemma sends_http_do [intro!]: "R rq \<Longrightarrow> sends R (http_do S rq)"
  by (auto simp: sends_def http_do_def split: prod.splits response.splits)

lemma sends_step:
  assumes "sends R m"
  obtains new where "sent (snd (m w)) = sent w @ new" and "\<forall>rq\<in>set new. R rq"
  using assms unfolding sends_def by blast

lemma sends_seq:
  assumes "sent w1 = sent w @ n1" "\<forall>rq\<in>set n1. R rq"
    and "sent w2 = sent w1 @ n2" "\<forall>rq\<in>set n2. R rq"
  shows "\<exists>new. sent w2 = sent w @ new \<and> (\<forall>rq\<in>set new. R rq)"
  using assms by (intro exI [of _ "n1 @ n2"]) auto

lemma sends_bindE [intro!]:
  assumes m: "sends R m" and f: "\<And>a. sends R (f a)"
  shows "sends R (bindE m f)"
  unfolding sends_def
proof
  fix w
  obtain r w1 where mw: "m w = (r, w1)" by (cases "m w")
  from m obtain n1 where n1: "sent w1 = sent w @ n1" "\<forall>rq\<in>set n1. R rq"
    by (rule sends_step [of R m w]) (simp add: mw)
  show "\<exists>new. sent (snd (bindE m f w)) = sent w @ new \<and> (\<forall>rq\<in>set new. R rq)"
  proof (cases r)
    case (Inl e)
    with mw n1 show ?thesis by (auto simp: bindE_def)
  next
    case (Inr a)
    from f obtain n2 where "sent (snd (f a w1)) = sent w1 @ n2" "\<forall>rq\<in>set n2. R rq"
      by (rule sends_step)
    with Inr mw n1 show ?thesis by (auto simp: bindE_def)
  qed
qed

lemma sends_handleE [intro!]:
  assumes m: "sends R m" and h: "\<And>e. sends R (h e)"
  shows "sends R (handleE m h)"
  unfolding sends_def
proof
  fix w
  obtain r w1 where mw: "m w = (r, w1)" by (cases "m w")
  from m obtain n1 where n1: "sent w1 = sent w @ n1" "\<forall>rq\<in>set n1. R rq"
    by (rule sends_step [of R m w]) (simp add: mw)
  show "\<exists>new. sent (snd (handleE m h w)) = sent w @ new \<and> (\<forall>rq\<in>set new. R rq)"
  proof (cases r)
    case (Inr a)
    with mw n1 show ?thesis by (auto simp: handleE_def)
  next
    case (Inl e)
    from h obtain n2 where "sent (snd (h e w1)) = sent w1 @ n2" "\<forall>rq\<in>set n2. R rq"
      by (rule sends_step)
    with Inl mw n1 show ?thesis by (auto simp: handleE_def)
  qed
qed

lemma sends_catch_err [intro!]: "sends R m \<Longrightarrow> (\<And>e. sends R (h e)) \<Longrightarrow> sends R (catch_err m h)"
  unfolding catch_err_def by (intro sends_handleE) auto

lemma sends_if [intro!]: "sends R m1 \<Longrightarrow> sends R m2 \<Longrightarrow> sends R (if b then m1 else m2)"
  by simp

lemma sends_case_prod [intro!]: "(\<And>a b. sends R (f a b)) \<Longrightarrow> sends R (case p of (a, b) \<Rightarrow> f a b)"
  by (cases p) simp

lemma sends_mono: "sends R m \<Longrightarrow> (\<And>rq. R rq \<Longrightarrow> R' rq) \<Longrightarrow> sends R' m"
  unfolding sends_def by blast

lemma sendsD:
  assumes "sends R m" and "m w = (r, w')"
  shows "\<exists>new. sent w' = sent w @ new \<and> (\<forall>rq\<in>set new. R rq)"
proof -
  from assms(1) have "\<exists>new. sent (snd (m w)) = sent w @ new \<and> (\<forall>rq\<in>set new. R rq)"
    by (simp add: sends_def)
  with assms(2) show ?thesis by simp
qed

subsection \<open>Counting requests\<close>

lemma sends_le_of_sends: "sends (\<lambda>rq. \<not> R rq) m \<Longrightarrow> sends_le R n m"
  unfolding sends_le_def sends_def by (metis filter_False le0 list.size(3))

lemma sends_le_http_do: "sends_le R 1 (http_do S rq)"
  by (auto simp: sends_le_def http_do_def split: prod.splits response.splits)

lemma sends_le_bindE_pre:
  assumes m: "sends (\<lambda>rq. \<not> R rq) m" and f: "\<And>a. sends_le R n (f a)"
  shows "sends_le R n (bindE m f)"
  unfolding sends_le_def
proof
  fix w
  obtain r w1 where mw: "m w = (r, w1)" by (cases "m w")
  from sendsD [OF m mw] obtain n1 where n1: "sent w1 = sent w @ n1" "\<forall>rq\<in>set n1. \<not> R rq" by blast
  then have f1: "filter R n1 = []" by (simp add: filter_empty_conv)
  show "\<exists>new. sent (snd (bindE m f w)) = sent w @ new \<and> length (filter R new) \<le> n"
  proof (cases r)
    case (Inl e)
    with mw n1 f1 show ?thesis by (auto simp: bindE_def)
  next
    case (Inr a)
    from f [of a] obtain n2 where "sent (snd (f a w1)) = sent w1 @ n2" "length (filter R n2) \<le> n"
      unfolding sends_le_def by blast
    with Inr mw n1 f1 show ?thesis by (auto simp: bindE_def)
  qed
qed

lemma sends_le_bindE_post:
  assumes m: "sends_le R n m" and f: "\<And>a. sends (\<lambda>rq. \<not> R rq) (f a)"
  shows "sends_le R n (bindE m f)"
  unfolding sends_le_def
proof
  fix w
  obtain r w1 where mw: "m w = (r, w1)" by (cases "m w")
  from m obtain n1 where n1: "sent w1 = sent w @ n1" "length (filter R n1) \<le> n"
    unfolding sends_le_def by (metis mw snd_conv)
  show "\<exists>new. sent (snd (bindE m f w)) = sent w @ new \<and> length (filter R new) \<le> n"
  proof (cases r)
    case (Inl e)
    with mw n1 show ?thesis by (auto simp: bindE_def)
  next
    case (Inr a)
    from sendsD [OF f [of a] prod.collapse [symmetric]] obtain n2 where
      "sent (snd (f a w1)) = sent w1 @ n2" "\<forall>rq\<in>set n2. \<not> R rq" by blast
    then have "sent (snd (f a w1)) = sent w1 @ n2" "filter R n2 = []" by (simp_all add: filter_empty_conv)
    with Inr mw n1 show ?thesis by (auto simp: bindE_def)
  qed
qed

lemma sends_le_handleE_post:
  assumes m: "sends_le R n m" and h: "\<And>e. sends (\<lambda>rq. \<not> R rq) (h e)"
  shows "sends_le R n (handleE m h)"
  unfolding sends_le_def
proof
  fix w
  obtain r w1 where mw: "m w = (r, w1)" by (cases "m w")
  from m obtain n1 where n1: "sent w1 = sent w @ n1" "length (filter R n1) \<le> n"
    unfolding sends_le_def by (metis mw snd_conv)
  show "\<exists>new. sent (snd (handleE m h w)) = sent w @ new \<and> length (filter R new) \<le> n"
  proof (cases r)
    case (Inr a)
    with mw n1 show ?thesis by (auto simp: handleE_def)
  next
    case (Inl e)
    from sendsD [OF h [of e] prod.collapse [symmetric]] obtain n2 where
      "sent (snd (h e w1)) = sent w1 @ n2" "\<forall>rq\<in>set n2. \<not> R rq" by blast
    then have "sent (snd (h e w1)) = sent w1 @ n2" "filter R n2 = []" by (simp_all add: filter_empty_conv)
    with Inl mw n1 show ?thesis by (auto simp: handleE_def)
  qed
qed

lemma sends_le_if: "sends_le R n m1 \<Longrightarrow> sends_le R n m2 \<Longrightarrow> sends_le R n (if b then m1 else m2)"
  by simp

lemma sends_le_catch_err_post:
  "sends_le R n m \<Longrightarrow> (\<And>e. sends (\<lambda>rq. \<not> R rq) (h e)) \<Longrightarrow> sends_le R n (catch_err m h)"
  unfolding catch_err_def by (intro sends_le_handleE_post) auto

end
