(* ===== verification/Portainer_Client.thy ===== *)
theory Portainer_Client
  imports Http_Model
begin

text \<open>
  The Portainer API client, \<^verbatim>\<open>src/lib/portainer/portainer.go\<close>.  The Go object
  \<^verbatim>\<open>Portainer\<close> holds an \<^verbatim>\<open>http.Client\<close> (whose only configuration is the TLS
  \<^verbatim>\<open>InsecureSkipVerify\<close> flag, kept as \<open>p_insecure\<close> and sent along with every
  request), the normalised base address and the bearer token; it is the record
  \<open>portainer\<close>.  Each method is one definition in the order of the source:
  \<open>new_portainer\<close> (\<^verbatim>\<open>NewPortainer\<close>), \<open>connect\<close>, \<open>auth\<close> (which returns the
  client with its token set, the only mutation of the object),
  \<open>get_endpoint_by_name\<close>, \<open>get_stack_by_name\<close>, \<open>deploy_stack_from_git\<close>,
  \<open>deploy_stack_from_string\<close>, \<open>deploy_stack_from_file\<close>,
  \<open>update_stack_from_string\<close>, \<open>update_stack_from_file\<close>.  The common request
  pattern (build, attach the token, \<^verbatim>\<open>Do\<close>, reject a status above 200, read and
  decode the body) is \<open>api_call\<close> and \<open>api_json\<close>; the two linear scans are
  \<open>find_endpoint\<close> and \<open>find_stack\<close>, which dereference each pointer of the
  decoded list and so panic on a \<open>null\<close> element before the match.
  Not modelled: \<^verbatim>\<open>http.NewRequest\<close> failing (its URL is the normalised address
  followed by a fixed path, which parses), \<^verbatim>\<open>json.Marshal\<close> failing (it cannot for
  strings, bools and slices of such structs), and \<^verbatim>\<open>defer rsp.Body.Close()\<close>.
\<close>

record portainer =
  p_insecure :: bool
  p_address :: string
  p_auth :: string

subsection \<open>Construction\<close>

definition new_portainer :: "'s sys \<Rightarrow> string \<Rightarrow> bool \<Rightarrow> go_error + portainer" where
  "new_portainer S address insecure =
     (case parse_url S address of
        None \<Rightarrow> Inl Err_Address_Parse
      | Some u \<Rightarrow>
          (let u' = (if url_scheme u = []
                     then (if url_port u = ''443'' then u\<lparr>url_scheme := ''https://''\<rparr>
                           else u\<lparr>url_scheme := ''https://''\<rparr>)
                     else u)
           in case normalize_url S u' of
                None \<Rightarrow> Inl Err_Address_Normalize
              | Some a \<Rightarrow> Inr \<lparr>p_insecure = insecure, p_address = a, p_auth = []\<rparr>))"

subsection \<open>Requests\<close>

definition bearer :: "portainer \<Rightarrow> string option" where
  "bearer p = Some (''Bearer '' @ p_auth p)"

definition mk_request ::
  "portainer \<Rightarrow> http_method \<Rightarrow> string \<Rightarrow> string option \<Rightarrow> json option \<Rightarrow> request" where
  "mk_request p m path a b =
     \<lparr>req_method = m, req_url = p_address p @ path, req_auth = a, req_body = b,
      req_insecure = p_insecure p\<rparr>"

text \<open>\<^verbatim>\<open>rsp, err := self.client.Do(req) ... if rsp.StatusCode > 200 { return
  fmt.Errorf("Portainer API error: %s %s %s", ...) }\<close>\<close>

definition api_call :: "'s sys \<Rightarrow> request \<Rightarrow> ('s, body) op" where
  "api_call S rq =
     bindE (http_do S rq) (\<lambda>(st, b).
       if 200 < st then throwE (Err_Api (req_method rq) (req_url rq) st) else returnE b)"

text \<open>The same, then \<^verbatim>\<open>ioutil.ReadAll\<close> and \<^verbatim>\<open>json.Unmarshal\<close> with decoder \<open>d\<close>.\<close>

definition api_json :: "'s sys \<Rightarrow> request \<Rightarrow> (json \<Rightarrow> 'a option) \<Rightarrow> ('s, 'a) op" where
  "api_json S rq d = bindE (api_call S rq) (\<lambda>b. liftE (read_json d b))"

subsection \<open>The methods\<close>

definition connect_request :: "portainer \<Rightarrow> request" where
  "connect_request p = mk_request p HEAD ''/'' None None"

definition connect :: "'s sys \<Rightarrow> portainer \<Rightarrow> ('s, unit) op" where
  "connect S p =
     bindE (http_do S (connect_request p)) (\<lambda>(st, _).
       if 400 \<le> st then throwE (Err_Api HEAD (p_address p @ ''/'') st) else returnE ())"

definition auth_request :: "portainer \<Rightarrow> string \<Rightarrow> string \<Rightarrow> request" where
  "auth_request p user pass = mk_request p POST ''/api/auth'' None (Some (enc_auth_args user pass))"

definition auth :: "'s sys \<Rightarrow> portainer \<Rightarrow> string \<Rightarrow> string \<Rightarrow> ('s, portainer) op" where
  "auth S p user pass =
     bindE (api_json S (auth_request p user pass) dec_auth_reply) (\<lambda>jwt.
       returnE (p\<lparr>p_auth := jwt\<rparr>))"

fun find_endpoint :: "string \<Rightarrow> endpoint option list \<Rightarrow> go_error + endpoint" where
  "find_endpoint name [] = Inl (Err_Endpoint_Not_Found name)"
| "find_endpoint name (None # es) = Inl Panic_Nil_Dereference"
| "find_endpoint name (Some e # es) = (if endpoint_name e = name then Inr e else find_endpoint name es)"

definition endpoints_request :: "portainer \<Rightarrow> request" where
  "endpoints_request p = mk_request p GET ''/api/endpoints'' (bearer p) None"

definition swarm_request :: "portainer \<Rightarrow> endpoint \<Rightarrow> request" where
  "swarm_request p e =
     mk_request p GET (''/api/endpoints/'' @ go_itoa (endpoint_id e) @ ''/docker/swarm'') (bearer p) None"

definition get_endpoint_by_name :: "'s sys \<Rightarrow> portainer \<Rightarrow> string \<Rightarrow> ('s, endpoint) op" where
  "get_endpoint_by_name S p name =
     bindE (api_json S (endpoints_request p) dec_endpoints) (\<lambda>eps.
     bindE (liftE (find_endpoint name eps)) (\<lambda>e.
     bindE (api_json S (swarm_request p e) dec_swarm_reply) (\<lambda>sid.
       returnE (e\<lparr>endpoint_swarm_id := sid\<rparr>))))"

fun find_stack :: "string \<Rightarrow> stack option list \<Rightarrow> go_error + stack option" where
  "find_stack name [] = Inr None"
| "find_stack name (None # ss) = Inl Panic_Nil_Dereference"
| "find_stack name (Some s # ss) = (if stack_name s = name then Inr (Some s) else find_stack name ss)"

definition stacks_request :: "portainer \<Rightarrow> request" where
  "stacks_request p = mk_request p GET ''/api/stacks'' (bearer p) None"

definition get_stack_by_name :: "'s sys \<Rightarrow> portainer \<Rightarrow> string \<Rightarrow> ('s, stack option) op" where
  "get_stack_by_name S p name =
     (if name = [] then throwE Err_Stack_Name_Undefined
      else bindE (api_json S (stacks_request p) dec_stacks) (\<lambda>ss. liftE (find_stack name ss)))"

definition git_deploy_request ::
  "portainer \<Rightarrow> endpoint \<Rightarrow> string \<Rightarrow> string \<Rightarrow> string \<Rightarrow> string \<Rightarrow> string \<Rightarrow> env list \<Rightarrow> request" where
  "git_deploy_request p e name repo path user pass env =
     mk_request p POST (''/api/stacks?type=1&method=repository&endpointId='' @ go_itoa (endpoint_id e))
       (bearer p) (Some (enc_git_args name (endpoint_swarm_id e) repo path user pass env))"

definition deploy_stack_from_git ::
  "'s sys \<Rightarrow> portainer \<Rightarrow> endpoint \<Rightarrow> string \<Rightarrow> string \<Rightarrow> string \<Rightarrow> string \<Rightarrow> string \<Rightarrow> env list \<Rightarrow> ('s, unit) op" where
  "deploy_stack_from_git S p e name repo path user pass env =
     bindE (api_call S (git_deploy_request p e name repo path user pass env)) (\<lambda>_. returnE ())"

definition string_deploy_request :: "portainer \<Rightarrow> endpoint \<Rightarrow> string \<Rightarrow> string \<Rightarrow> env list \<Rightarrow> request" where
  "string_deploy_request p e name config env =
     mk_request p POST (''/api/stacks?type=1&method=string&endpointId='' @ go_itoa (endpoint_id e))
       (bearer p) (Some (enc_string_args name (endpoint_swarm_id e) config env))"

definition deploy_stack_from_string ::
  "'s sys \<Rightarrow> portainer \<Rightarrow> endpoint \<Rightarrow> string \<Rightarrow> string \<Rightarrow> env list \<Rightarrow> ('s, unit) op" where
  "deploy_stack_from_string S p e name config env =
     bindE (api_call S (string_deploy_request p e name config env)) (\<lambda>_. returnE ())"

definition deploy_stack_from_file ::
  "'s sys \<Rightarrow> portainer \<Rightarrow> endpoint \<Rightarrow> string \<Rightarrow> string \<Rightarrow> env list \<Rightarrow> ('s, unit) op" where
  "deploy_stack_from_file S p e name path env =
     bindE (read_file S path) (\<lambda>data. deploy_stack_from_string S p e name data env)"

definition update_request :: "portainer \<Rightarrow> stack \<Rightarrow> string \<Rightarrow> bool \<Rightarrow> env list \<Rightarrow> request" where
  "update_request p s config prune env =
     mk_request p PUT (''/api/stacks/'' @ go_itoa (stack_id s) @ ''?endpointId='' @ go_itoa (stack_endpoint_id s))
       (bearer p) (Some (enc_update_args config prune env))"

definition update_stack_from_string ::
  "'s sys \<Rightarrow> portainer \<Rightarrow> stack \<Rightarrow> string \<Rightarrow> bool \<Rightarrow> env list \<Rightarrow> ('s, unit) op" where
  "update_stack_from_string S p s config prune env =
     bindE (api_call S (update_request p s config prune env)) (\<lambda>_. returnE ())"

definition update_stack_from_file ::
  "'s sys \<Rightarrow> portainer \<Rightarrow> stack \<Rightarrow> string \<Rightarrow> bool \<Rightarrow> env list \<Rightarrow> ('s, unit) op" where
  "update_stack_from_file S p s path prune env =
     bindE (read_file S path) (\<lambda>data. update_stack_from_string S p s data prune env)"

subsection \<open>Running the request pattern\<close>

text \<open>Abbreviation for the world after one request: the server moved to \<open>s'\<close> and the
  request was logged.\<close>

abbreviation after :: "'s world \<Rightarrow> request \<Rightarrow> 's \<Rightarrow> 's world" where
  "after w rq s' \<equiv> w\<lparr>srv_state := s', sent := sent w @ [rq]\<rparr>"

lemma api_call_ok [act_simps]:
  "server S (srv_state w) rq = (Response st b, s') \<Longrightarrow> st \<le> 200 \<Longrightarrow>
   api_call S rq w = (Inr b, after w rq s')"
  by (simp add: api_call_def act_simps)

lemma api_call_status [act_simps]:
  "server S (srv_state w) rq = (Response st b, s') \<Longrightarrow> 200 < st \<Longrightarrow>
   api_call S rq w = (Inl (Err_Api (req_method rq) (req_url rq) st), after w rq s')"
  by (simp add: api_call_def act_simps)

lemma api_call_transport [act_simps]:
  "server S (srv_state w) rq = (Transport_Failure, s') \<Longrightarrow>
   api_call S rq w = (Inl Err_Transport, after w rq s')"
  by (simp add: api_call_def act_simps)

lemma api_json_ok [act_simps]:
  "server S (srv_state w) rq = (Response st (Body_Json j), s') \<Longrightarrow> st \<le> 200 \<Longrightarrow> d j = Some x \<Longrightarrow>
   api_json S rq d w = (Inr x, after w rq s')"
  by (simp add: api_json_def act_simps)

lemma api_json_result:
  "server S (srv_state w) rq = (r, s') \<Longrightarrow>
   api_json S rq d w =
     (case r of
        Transport_Failure \<Rightarrow> Inl Err_Transport
      | Response st b \<Rightarrow> if 200 < st then Inl (Err_Api (req_method rq) (req_url rq) st) else read_json d b,
      after w rq s')"
  by (cases r) (simp_all add: api_json_def api_call_def act_simps)

lemma req_simps [simp]:
  "req_method (mk_request p m path a b) = m"
  "req_url (mk_request p m path a b) = p_address p @ path"
  "req_auth (mk_request p m path a b) = a"
  "req_body (mk_request p m path a b) = b"
  by (simp_all add: mk_request_def)

subsection \<open>The scans\<close>

lemma find_endpoint_first:
  "\<forall>x\<in>set pre. endpoint_name x \<noteq> name \<Longrightarrow> endpoint_name e = name \<Longrightarrow>
   find_endpoint name (map Some pre @ Some e # post) = Inr e"
  by (induction pre) auto

lemma find_endpoint_Inr:
  "find_endpoint name eps = Inr e \<Longrightarrow> endpoint_name e = name \<and> Some e \<in> set eps"
  by (induction name eps rule: find_endpoint.induct) (auto split: if_splits)

lemma find_endpoint_absent:
  "\<forall>x\<in>set eps. x \<noteq> None \<and> endpoint_name (the x) \<noteq> name \<Longrightarrow>
   find_endpoint name eps = Inl (Err_Endpoint_Not_Found name)"
  by (induction name eps rule: find_endpoint.induct) auto

lemma find_stack_first:
  "\<forall>x\<in>set pre. stack_name x \<noteq> name \<Longrightarrow> stack_name s = name \<Longrightarrow>
   find_stack name (map Some pre @ Some s # post) = Inr (Some s)"
  by (induction pre) auto

lemma find_stack_Some:
  "find_stack name ss = Inr (Some s) \<Longrightarrow> stack_name s = name \<and> Some s \<in> set ss"
  by (induction name ss rule: find_stack.induct) (auto split: if_splits)

lemma find_stack_None:
  "find_stack name ss = Inr None \<longleftrightarrow> (\<forall>x\<in>set ss. x \<noteq> None \<and> stack_name (the x) \<noteq> name)"
  by (induction name ss rule: find_stack.induct) auto

lemma dec_auth_reply_no_jwt:
  "\<forall>m\<in>set ms. \<not> equal_fold (fst m) ''jwt'' \<Longrightarrow> dec_members jwt_fields r ms = Some r"
  by (induction ms) (auto simp: jwt_fields_def find_field_def equal_fold_sym [of "''jwt''"])

subsection \<open>What the methods send\<close>

lemma sends_api_call [intro!]: "R rq \<Longrightarrow> sends R (api_call S rq)"
  by (auto simp: api_call_def)

lemma sends_api_json [intro!]: "R rq \<Longrightarrow> sends R (api_json S rq d)"
  by (auto simp: api_json_def)

lemma sends_get_endpoint_by_name [intro!]:
  "R (endpoints_request p) \<Longrightarrow> (\<And>e. R (swarm_request p e)) \<Longrightarrow> sends R (get_endpoint_by_name S p name)"
  by (auto simp: get_endpoint_by_name_def)

lemma sends_get_stack_by_name [intro!]:
  "R (stacks_request p) \<Longrightarrow> sends R (get_stack_by_name S p name)"
  by (auto simp: get_stack_by_name_def)

lemma sends_deploy_stack_from_string [intro!]:
  "R (string_deploy_request p e name config env) \<Longrightarrow> sends R (deploy_stack_from_string S p e name config env)"
  by (auto simp: deploy_stack_from_string_def)

lemma sends_deploy_stack_from_file [intro!]:
  "(\<And>c. R (string_deploy_request p e name c env)) \<Longrightarrow> sends R (deploy_stack_from_file S p e name path env)"
  by (auto simp: deploy_stack_from_file_def)

lemma sends_update_stack_from_string [intro!]:
  "R (update_request p s config prune env) \<Longrightarrow> sends R (update_stack_from_string S p s config prune env)"
  by (auto simp: update_stack_from_string_def)

lemma sends_update_stack_from_file [intro!]:
  "(\<And>c. R (update_request p s c prune env)) \<Longrightarrow> sends R (update_stack_from_file S p s path prune env)"
  by (auto simp: update_stack_from_file_def)

lemma bearer_requests [simp]:
  "req_auth (endpoints_request p) = bearer p" "req_auth (swarm_request p e) = bearer p"
  "req_auth (stacks_request p) = bearer p"
  "req_auth (string_deploy_request p e name config env) = bearer p"
  "req_auth (update_request p s config prune env) = bearer p"
  "req_method (endpoints_request p) = GET" "req_method (swarm_request p e) = GET"
  "req_method (stacks_request p) = GET"
  "req_method (string_deploy_request p e name config env) = POST"
  "req_method (update_request p s config prune env) = PUT"
  by (simp_all add: endpoints_request_def swarm_request_def stacks_request_def
    string_deploy_request_def update_request_def)

lemma not_mutating_login [simp]:
  "\<not> mutating (connect_request p)" "\<not> mutating (auth_request p user pass)"
  by (simp_all add: mutating_def connect_request_def auth_request_def)

lemma sends_le_api_call: "sends_le R 1 (api_call S rq)"
  unfolding api_call_def by (rule sends_le_bindE_post [OF sends_le_http_do]) auto

lemma sends_le_update_deploy:
  "sends_le R 1 (update_stack_from_string S p s c prune env)"
  "sends_le R 1 (update_stack_from_file S p s path prune env)"
  "sends_le R 1 (deploy_stack_from_string S p e name c env)"
  "sends_le R 1 (deploy_stack_from_file S p e name path env)"
  unfolding update_stack_from_string_def update_stack_from_file_def deploy_stack_from_string_def
    deploy_stack_from_file_def
  by (intro sends_le_bindE_pre sends_le_bindE_post sends_le_api_call; auto)+

subsection \<open>Properties of the methods\<close>

text \<open>
  C32.  \<^verbatim>\<open>Connect\<close> sends one \<^verbatim>\<open>HEAD\<close> to the base address without a token
  and fails exactly on a transport error or a status of 400 or more (so a redirect
  or any 2xx/3xx status is a success, unlike the other methods' limit of 200).
\<close>

theorem connect_run:
  assumes "server S (srv_state w) (connect_request p) = (r, s')"
  shows "connect S p w =
     (case r of
        Transport_Failure \<Rightarrow> Inl Err_Transport
      | Response st b \<Rightarrow> if 400 \<le> st then Inl (Err_Api HEAD (p_address p @ ''/'') st) else Inr (),
      after w (connect_request p) s') \<and> req_auth (connect_request p) = None"
  using assms by (cases r) (simp_all add: connect_def connect_request_def act_simps)

text \<open>
  \<^verbatim>\<open>Auth\<close> posts the credentials without a token; on a status above 200,
  an unreadable or undecodable body it fails with the client unchanged in the caller;
  otherwise it returns the client with the decoded token stored.
\<close>

lemma auth_run:
  assumes "server S (srv_state w) (auth_request p user pass) = (r, s')"
  shows "auth S p user pass w =
     (case r of
        Transport_Failure \<Rightarrow> Inl Err_Transport
      | Response st b \<Rightarrow>
          if 200 < st then Inl (Err_Api POST (p_address p @ ''/api/auth'') st)
          else map_sum id (\<lambda>jwt. p\<lparr>p_auth := jwt\<rparr>) (read_json dec_auth_reply b),
      after w (auth_request p user pass) s')"
  using assms
  by (cases r) (auto simp: auth_def auth_request_def api_json_def api_call_def act_simps
                      read_json_def bindE_def split: body.splits option.splits)

text \<open>
  C31.  Endpoint resolution, success: the endpoint list is fetched, the first
  endpoint carrying the name is taken, and exactly one more request, the swarm
  inspection of that endpoint, is made; its \<^verbatim>\<open>ID\<close> becomes the endpoint's
  \<^verbatim>\<open>SwarmID\<close>.
\<close>

theorem get_endpoint_by_name_found:
  assumes "server S (srv_state w) (endpoints_request p) = (Response st1 (Body_Json j1), s1)" "st1 \<le> 200"
    and "dec_endpoints j1 = Some (map Some pre @ Some e # post)"
    and "\<forall>x\<in>set pre. endpoint_name x \<noteq> name" "endpoint_name e = name"
    and "server S s1 (swarm_request p e) = (Response st2 (Body_Json j2), s2)" "st2 \<le> 200"
    and "dec_swarm_reply j2 = Some sid"
  shows "get_endpoint_by_name S p name w =
     (Inr (e\<lparr>endpoint_swarm_id := sid\<rparr>),
      w\<lparr>srv_state := s2, sent := sent w @ [endpoints_request p, swarm_request p e]\<rparr>)"
  using assms by (simp add: get_endpoint_by_name_def bindE_def api_json_ok find_endpoint_first)

text \<open>
  Endpoint resolution, no match: when the decoded list holds no endpoint of
  that name (and no \<open>null\<close>), the result is the not-found error after the single
  list request; no swarm inspection is made.
\<close>

lemma get_endpoint_by_name_not_found:
  assumes "server S (srv_state w) (endpoints_request p) = (Response st (Body_Json j), s')" "st \<le> 200"
    and "dec_endpoints j = Some eps" "\<forall>x\<in>set eps. x \<noteq> None \<and> endpoint_name (the x) \<noteq> name"
  shows "get_endpoint_by_name S p name w =
     (Inl (Err_Endpoint_Not_Found name), after w (endpoints_request p) s')"
  using assms by (simp add: get_endpoint_by_name_def bindE_def api_json_ok find_endpoint_absent)

text \<open>
  C34.  A \<open>null\<close> element in the endpoint list ahead of the match makes the scan
  dereference a nil pointer: the run panics instead of using the matching endpoint
  that follows.
\<close>

theorem get_endpoint_by_name_null_panics:
  assumes "server S (srv_state w) (endpoints_request p) = (Response st (Body_Json j), s')" "st \<le> 200"
    and "dec_endpoints j = Some (map Some pre @ None # post)"
    and "\<forall>x\<in>set pre. endpoint_name x \<noteq> name"
  shows "get_endpoint_by_name S p name w = (Inl Panic_Nil_Dereference, after w (endpoints_request p) s')"
proof -
  have "find_endpoint name (map Some pre @ None # post) = Inl Panic_Nil_Dereference"
    using assms(4) by (induction pre) auto
  with assms show ?thesis by (simp add: get_endpoint_by_name_def bindE_def api_json_ok)
qed

text \<open>
  An empty stack name is rejected before any request: the world is unchanged.
\<close>

lemma get_stack_by_name_empty:
  "get_stack_by_name S p [] w = (Inl Err_Stack_Name_Undefined, w)"
  by (simp add: get_stack_by_name_def)

text \<open>
  Stack lookup by name: one request; the result is the first listed stack of
  that name whatever endpoint it belongs to, \<open>None\<close> (not an error) when there is
  none.
\<close>

lemma get_stack_by_name_run:
  assumes "name \<noteq> []"
    and "server S (srv_state w) (stacks_request p) = (Response st (Body_Json j), s')" "st \<le> 200"
    and "dec_stacks j = Some ss"
  shows "get_stack_by_name S p name w = (find_stack name ss, after w (stacks_request p) s') \<and>
    (find_stack name ss = Inr None \<longleftrightarrow> (\<forall>x\<in>set ss. x \<noteq> None \<and> stack_name (the x) \<noteq> name))"
  using assms by (simp add: get_stack_by_name_def bindE_def api_json_ok find_stack_None)

text \<open>
  \<^verbatim>\<open>DeployStackFromFile\<close> on a readable file is
  \<^verbatim>\<open>DeployStackFromString\<close> on the file's contents: the same requests, the same
  result, the same world.
\<close>

lemma deploy_stack_from_file_eq:
  "files S path = Some c \<Longrightarrow>
   deploy_stack_from_file S p e name path env = deploy_stack_from_string S p e name c env"
  by (simp add: deploy_stack_from_file_def read_file_def fun_eq_iff)

text \<open>
  \<^verbatim>\<open>UpdateStackFromFile\<close> on a readable file is
  \<^verbatim>\<open>UpdateStackFromString\<close> on its contents; on an unreadable file it fails
  without any request.
\<close>

lemma update_stack_from_file_eq:
  "(files S path = Some c \<longrightarrow>
      update_stack_from_file S p s path prune env = update_stack_from_string S p s c prune env) \<and>
   (files S path = None \<longrightarrow> update_stack_from_file S p s path prune env w = (Inl (Err_Read_File path), w))"
  by (simp add: update_stack_from_file_def read_file_def fun_eq_iff)

text \<open>
  Stack creation from text sends one authenticated \<^verbatim>\<open>POST\<close> to
  \<^verbatim>\<open>/api/stacks?type=1&method=string&endpointId=<id>\<close> of the resolved endpoint,
  whose body carries the name, that endpoint's swarm id, the text and the
  environment; any status above 200 is an error.
\<close>

lemma deploy_stack_from_string_run:
  assumes "server S (srv_state w) (string_deploy_request p e name config env) = (r, s')"
  shows "deploy_stack_from_string S p e name config env w =
     (case r of
        Transport_Failure \<Rightarrow> Inl Err_Transport
      | Response st b \<Rightarrow>
          if 200 < st then Inl (Err_Api POST (p_address p @ ''/api/stacks?type=1&method=string&endpointId='' @ go_itoa (endpoint_id e)) st)
          else Inr (),
      after w (string_deploy_request p e name config env) s') \<and>
    req_auth (string_deploy_request p e name config env) = Some (''Bearer '' @ p_auth p) \<and>
    req_body (string_deploy_request p e name config env) =
      Some (JObj [(''Name'', JStr name), (''SwarmID'', JStr (endpoint_swarm_id e)),
                  (''StackFileContent'', JStr config), (''Env'', enc_slice enc_env env)])"
  using assms
  by (cases r) (simp_all add: deploy_stack_from_string_def string_deploy_request_def bearer_def
                  enc_string_args_def api_call_def bindE_def act_simps)

text \<open>
  Stack creation from a repository sends one authenticated \<^verbatim>\<open>POST\<close> to
  \<^verbatim>\<open>/api/stacks?type=1&method=repository&endpointId=<id>\<close> of the endpoint, whose
  body carries the name, the endpoint's swarm id, the repository, the path in it,
  the credentials, and \<^verbatim>\<open>RepositoryAuthentication\<close> set exactly when both the
  user and the password are non-empty; any status above 200 is an error.
\<close>

lemma deploy_stack_from_git_run:
  assumes "server S (srv_state w) (git_deploy_request p e name repo path user pass env) = (r, s')"
  shows "deploy_stack_from_git S p e name repo path user pass env w =
     (case r of
        Transport_Failure \<Rightarrow> Inl Err_Transport
      | Response st b \<Rightarrow>
          if 200 < st then Inl (Err_Api POST (p_address p @ ''/api/stacks?type=1&method=repository&endpointId='' @ go_itoa (endpoint_id e)) st)
          else Inr (),
      after w (git_deploy_request p e name repo path user pass env) s') \<and>
    req_auth (git_deploy_request p e name repo path user pass env) = Some (''Bearer '' @ p_auth p) \<and>
    req_body (git_deploy_request p e name repo path user pass env) =
      Some (JObj [(''Name'', JStr name), (''SwarmID'', JStr (endpoint_swarm_id e)), (''RepositoryURL'', JStr repo),
                  (''ComposeFilePathInRepository'', JStr path),
                  (''RepositoryAuthentication'', JBool (user \<noteq> [] \<and> pass \<noteq> [])),
                  (''RepositoryUsername'', JStr user), (''RepositoryPassword'', JStr pass),
                  (''Env'', enc_slice enc_env env)])"
  using assms
  by (cases r) (simp_all add: deploy_stack_from_git_def git_deploy_request_def bearer_def
                  enc_git_args_def api_call_def bindE_def act_simps)

text \<open>
  \<^verbatim>\<open>NewPortainer\<close> puts \<^verbatim>\<open>https://\<close> in front of an address without a
  scheme whatever its port (both branches of the port test set the same scheme),
  keeps an explicit scheme, and starts with an empty token.
\<close>

lemma new_portainer_scheme:
  "parse_url S a = Some u \<Longrightarrow>
   new_portainer S a ins =
     (case normalize_url S (if url_scheme u = [] then u\<lparr>url_scheme := ''https://''\<rparr> else u) of
        None \<Rightarrow> Inl Err_Address_Normalize
      | Some a' \<Rightarrow> Inr \<lparr>p_insecure = ins, p_address = a', p_auth = []\<rparr>)"
  by (simp add: new_portainer_def Let_def)

text \<open>
  The swarm inspection addresses the resolved endpoint: the number in the
  path of the request reads back, by Go's \<^verbatim>\<open>strconv\<close> syntax, as the endpoint's
  \<^verbatim>\<open>Id\<close>.
\<close>

lemma swarm_request_id:
  "req_url (swarm_request p e) = p_address p @ ''/api/endpoints/'' @ d @ ''/docker/swarm'' \<Longrightarrow>
   parse_int d = Some (endpoint_id e)"
  by (simp add: swarm_request_def parse_int_go_itoa [symmetric])

text \<open>
  C35.  The update addresses the stack it was given: cut at its first \<^verbatim>\<open>?\<close>, the
  path of the \<^verbatim>\<open>PUT\<close> after \<^verbatim>\<open>/api/stacks/\<close> reads back as the stack's
  \<^verbatim>\<open>Id\<close>, and the query value after \<^verbatim>\<open>endpointId=\<close> as its \<^verbatim>\<open>EndpointID\<close>.
\<close>

theorem update_request_ids:
  "map_option (\<lambda>(a, b). (parse_int a, parse_int (drop 11 b)))
     (strings_cut (CHR ''?'') (drop (length (p_address p) + 12) (req_url (update_request p s config prune env))))
   = Some (Some (stack_id s), Some (stack_endpoint_id s))"
proof -
  have "strings_cut (CHR ''?'') (go_itoa (stack_id s) @ CHR ''?'' # ''endpointId='' @ go_itoa (stack_endpoint_id s))
      = Some (go_itoa (stack_id s), ''endpointId='' @ go_itoa (stack_endpoint_id s))"
    by (simp add: strings_cut_Some)
  then show ?thesis by (simp add: update_request_def mk_request_def parse_int_go_itoa)
qed

text \<open>
  C33.  A login reply with status at most 200 whose object has no \<^verbatim>\<open>jwt\<close> member
  (under any letter case) is accepted: \<^verbatim>\<open>Auth\<close> succeeds and stores the empty
  token, so every later request carries the header \<^verbatim>\<open>Bearer \<close> with no token.
\<close>

theorem auth_without_token:
  assumes "server S (srv_state w) (auth_request p user pass) = (Response st (Body_Json (JObj ms)), s')"
    and "st \<le> 200" and "\<forall>m\<in>set ms. \<not> equal_fold (fst m) ''jwt''"
  shows "auth S p user pass w = (Inr (p\<lparr>p_auth := []\<rparr>), after w (auth_request p user pass) s')"
  using assms
  by (simp add: auth_def bindE_def api_json_ok dec_auth_reply_def dec_auth_reply_no_jwt)

end
