(* ===== verification/Plugin_Exec.thy ===== *)
theory Plugin_Exec
  imports Portainer_Client
begin

text \<open>
  The deployment orchestrator, \<^verbatim>\<open>src/plugin.go\<close>.  The configuration structs
  \<^verbatim>\<open>Repo\<close>, \<^verbatim>\<open>Build\<close>, \<^verbatim>\<open>Commit\<close>, \<^verbatim>\<open>Author\<close>, \<^verbatim>\<open>Portainer\<close>, \<^verbatim>\<open>Stack\<close>,
  \<^verbatim>\<open>Config\<close> and \<^verbatim>\<open>Plugin\<close> are records (the field prefixes avoid clashes with
  the client's record of the same Go name).  \<^verbatim>\<open>Plugin.Exec\<close> is \<open>exec\<close>, written
  as the code is: construct the client, then the phases connect, authenticate and
  select the endpoint, each printing its label and then \<^verbatim>\<open> OK\<close> or \<^verbatim>\<open> FAIL\<close>
  (\<open>phase\<close>); the stack search, whose error is printed and otherwise dropped
  (\<open>search_stack\<close>); the parse of the environment entries (\<open>parse_env\<close>, with
  the index panic of \<^verbatim>\<open>e[1]\<close>); the join of the inline configuration
  (\<open>join_config\<close>); and the choice between \<open>update_branch\<close> and
  \<open>deploy_branch\<close> (\<open>deploy_or_update\<close>).  The durations printed by
  \<^verbatim>\<open>time.Since(start)\<close> are the input \<open>elapsed\<close> of the system.
\<close>

record repo =
  repo_owner :: string
  repo_name :: string
  repo_link :: string
  repo_avatar :: string
  repo_branch :: string
  repo_private :: bool
  repo_trusted :: bool

record build =
  build_number :: int
  build_event :: string
  build_status :: string
  build_deploy :: string
  build_created :: int
  build_started :: int
  build_finished :: int
  build_link :: string

record author =
  author_name :: string
  author_email :: string
  author_avatar :: string

record commit =
  commit_remote :: string
  commit_sha :: string
  commit_ref :: string
  commit_link :: string
  commit_branch :: string
  commit_message :: string
  commit_author :: author

record portainer_cfg =
  cfg_address :: string
  cfg_username :: string
  cfg_password :: string
  cfg_endpoint :: string
  cfg_insecure :: bool

record stack_cfg =
  stk_name :: string
  stk_path :: string
  stk_config :: "string list"
  stk_environment :: "string list"

record config =
  cfg_portainer :: portainer_cfg
  cfg_stack :: stack_cfg
  cfg_secrets :: "string list"
  cfg_debug :: bool

record plugin =
  plugin_repo :: repo
  plugin_build :: build
  plugin_commit :: commit
  plugin_config :: config

subsection \<open>Output\<close>

definition nl :: string where
  "nl = [CHR 0x0A]"

definition ok_msg :: string where
  "ok_msg = '' OK'' @ nl"

definition fail_msg :: string where
  "fail_msg = '' FAIL'' @ nl"

text \<open>\<^verbatim>\<open>err = f(); if err != nil { fmt.Printf(" FAIL\n"); return err }\<close>; a panic
  of \<open>f\<close> passes the check.\<close>

definition fail_on :: "('s, 'a) op \<Rightarrow> ('s, 'a) op" where
  "fail_on m = catch_err m (\<lambda>e. bindE (printf fail_msg) (\<lambda>_. throwE e))"

text \<open>... followed by \<^verbatim>\<open>fmt.Printf(" OK\n")\<close>.\<close>

definition phase :: "('s, 'a) op \<Rightarrow> ('s, 'a) op" where
  "phase m = bindE (fail_on m) (\<lambda>a. bindE (printf ok_msg) (\<lambda>_. returnE a))"

subsection \<open>The steps of \<^verbatim>\<open>Exec\<close>\<close>

text \<open>\<^verbatim>\<open>stack, err := prtnr.GetStackByName(...)\<close>: on an error \<^verbatim>\<open>stack\<close> is nil and
  the run goes on; a panic of the scan ends it.\<close>

definition search_stack :: "'s sys \<Rightarrow> portainer \<Rightarrow> string \<Rightarrow> ('s, stack option) op" where
  "search_stack S p name =
     catch_err (bindE (get_stack_by_name S p name) (\<lambda>s. bindE (printf ok_msg) (\<lambda>_. returnE s)))
       (\<lambda>e. bindE (printf fail_msg) (\<lambda>_. returnE None))"

text \<open>\<^verbatim>\<open>e := strings.SplitN(v, "=", 2); env = append(env, &Env{Name: e[0], Value: e[1]})\<close>:
  \<^verbatim>\<open>e[1]\<close> panics when the entry has no \<^verbatim>\<open>=\<close>.\<close>

fun parse_env :: "string list \<Rightarrow> go_error + env list" where
  "parse_env [] = Inr []"
| "parse_env (v # vs) =
     (let e = strings_splitn2 (CHR ''='') v in
      if length e < 2 then Inl Panic_Index_Out_Of_Range
      else (case parse_env vs of
              Inl err \<Rightarrow> Inl err
            | Inr es \<Rightarrow> Inr (\<lparr>env_name = e ! 0, env_value = e ! 1\<rparr> # es)))"

definition join_config :: "string list \<Rightarrow> string" where
  "join_config cfg = (if 0 < length cfg then strings_join cfg nl else [])"

definition update_branch :: "'s sys \<Rightarrow> portainer \<Rightarrow> stack \<Rightarrow> stack_cfg \<Rightarrow> env list \<Rightarrow> string \<Rightarrow> ('s, unit) op" where
  \<open>update_branch S p s sc env cfg =
     bindE (printf (''Updating stack "'' @ stack_name s @ ''"...'')) (\<lambda>_.
     bindE (fail_on (if cfg \<noteq> [] then update_stack_from_string S p s cfg True env
                     else update_stack_from_file S p s (stk_path sc) True env)) (\<lambda>_.
     bindE (printf ok_msg) (\<lambda>_.
       printf (''Update stack "'' @ stk_name sc @ ''" finished in '' @ elapsed S @ nl))))\<close>

definition deploy_branch :: "'s sys \<Rightarrow> portainer \<Rightarrow> endpoint \<Rightarrow> stack_cfg \<Rightarrow> env list \<Rightarrow> string \<Rightarrow> ('s, unit) op" where
  \<open>deploy_branch S p ep sc env cfg =
     bindE (printf (''Depploy stack "'' @ stk_name sc @ ''"...'')) (\<lambda>_.
     bindE (if cfg \<noteq> [] then fail_on (deploy_stack_from_string S p ep (stk_name sc) cfg env)
            else if stk_path sc \<noteq> [] then fail_on (deploy_stack_from_file S p ep (stk_name sc) (stk_path sc) env)
            else bindE (printf fail_msg) (\<lambda>_. throwE Err_Stack_Config_Undefined)) (\<lambda>_.
     bindE (printf ok_msg) (\<lambda>_.
       printf (''Deploy stack '' @ stk_name sc @ '' finished in '' @ elapsed S @ nl))))\<close>

text \<open>\<^verbatim>\<open>if stack != nil && stack.EndpointID == endpoint.Id { ... } else { ... }\<close>\<close>

definition deploy_or_update ::
  "'s sys \<Rightarrow> portainer \<Rightarrow> endpoint \<Rightarrow> stack option \<Rightarrow> stack_cfg \<Rightarrow> env list \<Rightarrow> string \<Rightarrow> ('s, unit) op" where
  "deploy_or_update S p ep stk sc env cfg =
     (case stk of
        Some s \<Rightarrow> if stack_endpoint_id s = endpoint_id ep then update_branch S p s sc env cfg
                  else deploy_branch S p ep sc env cfg
      | None \<Rightarrow> deploy_branch S p ep sc env cfg)"

text \<open>Lines 101--170 of \<^verbatim>\<open>Exec\<close>, run with the authenticated client \<open>p\<close>.\<close>

definition select_and_deploy :: "'s sys \<Rightarrow> portainer \<Rightarrow> portainer_cfg \<Rightarrow> stack_cfg \<Rightarrow> ('s, unit) op" where
  \<open>select_and_deploy S p pc sc =
     bindE (printf (''Selecting endpoint "'' @ cfg_endpoint pc @ ''"...'')) (\<lambda>_.
     bindE (phase (get_endpoint_by_name S p (cfg_endpoint pc))) (\<lambda>ep.
     bindE (printf (''Search stack "'' @ stk_name sc @ ''"...'')) (\<lambda>_.
     bindE (search_stack S p (stk_name sc)) (\<lambda>stk.
     bindE (liftE (parse_env (stk_environment sc))) (\<lambda>env.
       deploy_or_update S p ep stk sc env (join_config (stk_config sc)))))))\<close>

definition exec :: "'s sys \<Rightarrow> plugin \<Rightarrow> ('s, unit) op" where
  "exec S pl =
     (let pc = cfg_portainer (plugin_config pl); sc = cfg_stack (plugin_config pl) in
      bindE (liftE (new_portainer S (cfg_address pc) (cfg_insecure pc))) (\<lambda>p.
      bindE (printf ''Connecting to portainer server...'') (\<lambda>_.
      bindE (phase (connect S p)) (\<lambda>_.
      bindE (printf ''Autentication...'') (\<lambda>_.
      bindE (phase (auth S p (cfg_username pc) (cfg_password pc))) (\<lambda>p.
        select_and_deploy S p pc sc))))))"

subsection \<open>Evaluation\<close>

text \<open>The definitions a symbolic run of \<open>exec\<close> unfolds.\<close>

lemmas run_defs = bindE_def handleE_def catch_err_def http_do_def api_call_def api_json_def read_json_def
  read_file_def printf_def liftE_def returnE_def throwE_def modifyE_def fail_on_def phase_def
  search_stack_def connect_def auth_def get_endpoint_by_name_def get_stack_by_name_def
  deploy_or_update_def update_branch_def deploy_branch_def update_stack_from_string_def
  update_stack_from_file_def deploy_stack_from_string_def deploy_stack_from_file_def
  select_and_deploy_def exec_def

subsection \<open>What the steps send\<close>

lemma sends_fail_on [intro!]: "sends R m \<Longrightarrow> sends R (fail_on m)"
  by (auto simp: fail_on_def)

lemma sends_phase [intro!]: "sends R m \<Longrightarrow> sends R (phase m)"
  by (auto simp: phase_def)

lemma sends_search_stack [intro!]: "R (stacks_request p) \<Longrightarrow> sends R (search_stack S p name)"
  by (auto simp: search_stack_def)

lemma sends_deploy_or_update:
  "(\<And>s c. R (update_request p s c True env)) \<Longrightarrow> (\<And>c. R (string_deploy_request p ep (stk_name sc) c env)) \<Longrightarrow>
   sends R (deploy_or_update S p ep stk sc env cfg)"
  by (auto simp: deploy_or_update_def update_branch_def deploy_branch_def split: option.splits)

text \<open>Without inline configuration and without a path whose file can be read,
  neither branch sends anything, and both fail.\<close>

lemma deploy_or_update_no_source:
  assumes "stk_path sc = []" "files S [] = None"
  shows "sends R (deploy_or_update S p ep stk sc env [])"
    and "isl (fst (deploy_or_update S p ep stk sc env [] w))"
  using assms
  by (auto simp: deploy_or_update_def update_branch_def deploy_branch_def update_stack_from_file_def
      read_file_def fail_on_def catch_err_def handleE_def bindE_def sends_def split: option.splits)

lemma select_and_deploy_isl:
  "(\<And>ep stk env w. isl (fst (deploy_or_update S p ep stk sc env (join_config (stk_config sc)) w))) \<Longrightarrow>
   isl (fst (select_and_deploy S p pc sc w))"
  unfolding select_and_deploy_def by (intro bindE_isl)

lemma select_and_deploy_env_error_sends:
  "parse_env (stk_environment sc) = Inl err \<Longrightarrow> sends (\<lambda>rq. req_method rq = GET) (select_and_deploy S p pc sc)"
  unfolding select_and_deploy_def by auto

lemma select_and_deploy_env_error_fails:
  "parse_env (stk_environment sc) = Inl err \<Longrightarrow> isl (fst (select_and_deploy S p pc sc w))"
  unfolding select_and_deploy_def by simp (intro bindE_isl, simp)

lemma update_branch_one_write: "sends_le R 1 (update_branch S p s sc env cfg)"
  unfolding update_branch_def fail_on_def
  by (intro sends_le_bindE_pre [OF sends_printf] sends_le_bindE_post sends_le_if sends_le_catch_err_post
      sends_le_update_deploy sends_le_of_sends; auto)

lemma deploy_branch_one_write: "sends_le R 1 (deploy_branch S p ep sc env cfg)"
  unfolding deploy_branch_def fail_on_def
  by (intro sends_le_bindE_pre [OF sends_printf] sends_le_bindE_post sends_le_if sends_le_catch_err_post
      sends_le_update_deploy sends_le_of_sends; auto)

lemma deploy_or_update_one_write: "sends_le R 1 (deploy_or_update S p ep stk sc env cfg)"
  unfolding deploy_or_update_def
  by (cases stk) (simp_all only: option.case sends_le_if update_branch_one_write deploy_branch_one_write)

subsection \<open>Environment entries and inline configuration\<close>

lemma parse_env_Cons_sep:
  "CHR ''='' \<notin> set a \<Longrightarrow>
   parse_env ((a @ CHR ''='' # b) # vs) = map_sum id (Cons \<lparr>env_name = a, env_value = b\<rparr>) (parse_env vs)"
  by (cases "parse_env vs") simp_all

text \<open>
  C8.  When every entry contains \<^verbatim>\<open>=\<close>, parsing succeeds with one entry per
  string, in order, split at the first \<^verbatim>\<open>=\<close>: the name holds no \<^verbatim>\<open>=\<close> and
  name, \<^verbatim>\<open>=\<close>, value give back the string (so \<^verbatim>\<open>FOO=bar=baz\<close> has value
  \<^verbatim>\<open>bar=baz\<close>).
\<close>

theorem parse_env_ok:
  "\<forall>v\<in>set vs. CHR ''='' \<in> set v \<Longrightarrow>
   \<exists>es. parse_env vs = Inr es \<and> map (\<lambda>e. env_name e @ CHR ''='' # env_value e) es = vs \<and>
        (\<forall>e\<in>set es. CHR ''='' \<notin> set (env_name e))"
proof (induction vs)
  case Nil
  then show ?case by simp
next
  case (Cons v vs)
  then obtain es where IH: "parse_env vs = Inr es" "map (\<lambda>e. env_name e @ CHR ''='' # env_value e) es = vs"
    "\<forall>e\<in>set es. CHR ''='' \<notin> set (env_name e)" by auto
  from Cons.prems obtain a b where "strings_cut (CHR ''='') v = Some (a, b)"
    by (cases "strings_cut (CHR ''='') v") auto
  then have v: "v = a @ CHR ''='' # b" and a: "CHR ''='' \<notin> set a" by (simp_all add: strings_cut_Some)
  show ?case
    by (rule exI [of _ "\<lparr>env_name = a, env_value = b\<rparr> # es"]) (simp add: v a IH parse_env_Cons_sep)
qed

text \<open>
  C9.  An entry without \<^verbatim>\<open>=\<close> anywhere in the list makes \<^verbatim>\<open>e[1]\<close> index past
  the end of the one-element split: the parse is the run-time panic
  (index out of range), not a configuration error.
\<close>

theorem parse_env_panic:
  "\<exists>v\<in>set vs. CHR ''='' \<notin> set v \<Longrightarrow> parse_env vs = Inl Panic_Index_Out_Of_Range"
proof (induction vs)
  case Nil
  then show ?case by simp
next
  case (Cons v vs)
  show ?case
  proof (cases "CHR ''='' \<in> set v")
    case False
    then show ?thesis by simp
  next
    case True
    with Cons have IH: "parse_env vs = Inl Panic_Index_Out_Of_Range" by simp
    from True obtain a b where "strings_cut (CHR ''='') v = Some (a, b)"
      by (cases "strings_cut (CHR ''='') v") auto
    then have "v = a @ CHR ''='' # b" and "CHR ''='' \<notin> set a" by (simp_all add: strings_cut_Some)
    with IH show ?thesis by (simp add: parse_env_Cons_sep)
  qed
qed

text \<open>
  The inline configuration fragments are joined with newlines and can be
  split back into the same fragments when none contains a newline; an empty list
  gives the empty text (no inline configuration).
\<close>

lemma join_config_roundtrip:
  "(cfgs \<noteq> [] \<and> (\<forall>c\<in>set cfgs. CHR 0x0A \<notin> set c) \<longrightarrow> strings_split (CHR 0x0A) (join_config cfgs) = cfgs) \<and>
   join_config [] = []"
  by (simp add: join_config_def nl_def strings_split_join)

subsection \<open>Properties of a deployment run\<close>

text \<open>Every request of the part of the run after authentication carries the
  token of the client it is given.\<close>

lemma select_and_deploy_token:
  "sends (\<lambda>rq. req_auth rq = Some (''Bearer '' @ p_auth p)) (select_and_deploy S p pc sc)"
  unfolding select_and_deploy_def by (auto intro!: sends_deploy_or_update simp: bearer_def)

text \<open>Without inline configuration, the branches read the stack file; with a
  file holding a non-empty text they do what they do with that text inline.\<close>

lemma deploy_or_update_file:
  assumes "files S (stk_path sc) = Some c" "stk_path sc \<noteq> []" "c \<noteq> []"
  shows "deploy_or_update S p ep stk (sc\<lparr>stk_config := cs\<rparr>) env [] = deploy_or_update S p ep stk sc env c"
  using assms
  by (simp add: deploy_or_update_def update_branch_def deploy_branch_def update_stack_from_file_eq deploy_stack_from_file_eq
      split: option.splits)

text \<open>A run of \<^verbatim>\<open>Exec\<close> whose connection check and login are accepted continues
  as \<open>select_and_deploy\<close> with the client \<^verbatim>\<open>Auth\<close> returned, whose token is the one
  decoded from the login reply.\<close>

lemma exec_login:
  assumes np: "new_portainer S (cfg_address (cfg_portainer (plugin_config pl))) (cfg_insecure (cfg_portainer (plugin_config pl))) = Inr p"
    and c: "server S (srv_state w) (connect_request p) = (Response st1 b1, s1)" "st1 < 400"
    and a: "server S s1 (auth_request p (cfg_username (cfg_portainer (plugin_config pl))) (cfg_password (cfg_portainer (plugin_config pl))))
              = (Response st2 (Body_Json j), s2)" "st2 \<le> 200" "dec_auth_reply j = Some t"
  shows "exec S pl w = select_and_deploy S (p\<lparr>p_auth := t\<rparr>) (cfg_portainer (plugin_config pl)) (cfg_stack (plugin_config pl))
     (w\<lparr>srv_state := s2,
        sent := sent w @ [connect_request p, auth_request p (cfg_username (cfg_portainer (plugin_config pl))) (cfg_password (cfg_portainer (plugin_config pl)))],
        stdout := stdout w @ ''Connecting to portainer server...'' @ ok_msg @ ''Autentication...'' @ ok_msg\<rparr>)"
  using c a unfolding exec_def Let_def np bindE_liftE_Inr
  by (simp add: phase_def fail_on_def catch_err_def handleE_def bindE_def printf_def modifyE_def returnE_def throwE_def
      connect_def auth_def api_json_def api_call_def http_do_def read_json_def liftE_def auth_request_def connect_request_def)

text \<open>
  C7.  The token of every later request is the one the login returned: when the
  server accepts the connection check and answers the login with a reply whose
  \<^verbatim>\<open>jwt\<close> member decodes to \<open>t\<close>, every request the run sends after the
  connection check and the login (the endpoint and swarm lookups, the stack
  search and the create or update), whether the run succeeds or fails, carries
  the header \<^verbatim>\<open>Authorization: Bearer t\<close>.
\<close>

theorem exec_token_from_login:
  assumes np: "new_portainer S (cfg_address (cfg_portainer (plugin_config pl))) (cfg_insecure (cfg_portainer (plugin_config pl))) = Inr p"
    and c: "server S (srv_state w) (connect_request p) = (Response st1 b1, s1)" "st1 < 400"
    and a: "server S s1 (auth_request p (cfg_username (cfg_portainer (plugin_config pl))) (cfg_password (cfg_portainer (plugin_config pl))))
              = (Response st2 (Body_Json j), s2)" "st2 \<le> 200" "dec_auth_reply j = Some t"
  shows "\<exists>rest. sent (snd (exec S pl w)) = sent w @ connect_request p
      # auth_request p (cfg_username (cfg_portainer (plugin_config pl))) (cfg_password (cfg_portainer (plugin_config pl))) # rest \<and>
    (\<forall>rq\<in>set rest. req_auth rq = Some (''Bearer '' @ t))"
proof -
  let ?w = "w\<lparr>srv_state := s2,
        sent := sent w @ [connect_request p, auth_request p (cfg_username (cfg_portainer (plugin_config pl))) (cfg_password (cfg_portainer (plugin_config pl)))],
        stdout := stdout w @ ''Connecting to portainer server...'' @ ok_msg @ ''Autentication...'' @ ok_msg\<rparr>"
  have "\<exists>rest. sent (snd (select_and_deploy S (p\<lparr>p_auth := t\<rparr>) (cfg_portainer (plugin_config pl)) (cfg_stack (plugin_config pl)) ?w))
      = sent ?w @ rest \<and> (\<forall>rq\<in>set rest. req_auth rq = Some (''Bearer '' @ p_auth (p\<lparr>p_auth := t\<rparr>)))"
  proof -
    have "sends (\<lambda>rq. req_auth rq = Some (''Bearer '' @ p_auth (p\<lparr>p_auth := t\<rparr>)))
        (select_and_deploy S (p\<lparr>p_auth := t\<rparr>) (cfg_portainer (plugin_config pl)) (cfg_stack (plugin_config pl)))"
      unfolding select_and_deploy_def by (auto intro!: sends_deploy_or_update simp: bearer_def)
    then show ?thesis unfolding sends_def by blast
  qed
  then show ?thesis by (simp add: exec_login [OF assms])
qed

text \<open>
  C5.  A malformed environment entry stops the run before any write: when the
  entries do not parse, the run fails and every request it sent is a \<^verbatim>\<open>GET\<close>
  (no stack is created or updated).
\<close>

theorem select_and_deploy_env_error:
  assumes "parse_env (stk_environment sc) = Inl err"
  shows "sends (\<lambda>rq. req_method rq = GET) (select_and_deploy S p pc sc) \<and>
         isl (fst (select_and_deploy S p pc sc w))"
  using select_and_deploy_env_error_sends [OF assms] select_and_deploy_env_error_fails [OF assms] by blast

text \<open>
  C6.  No stack source: when the joined inline configuration is empty (no
  fragment, or a single empty one) and the path is empty, the run fails after read
  requests only, whether the stack exists (update from the unreadable file \<^verbatim>\<open>""\<close>)
  or not (\<^verbatim>\<open>Stack config not defined\<close>).
\<close>

theorem select_and_deploy_no_source:
  assumes "join_config (stk_config sc) = []" "stk_path sc = []" "files S [] = None"
  shows "sends (\<lambda>rq. req_method rq = GET) (select_and_deploy S p pc sc) \<and>
         isl (fst (select_and_deploy S p pc sc w))"
proof
  show "sends (\<lambda>rq. req_method rq = GET) (select_and_deploy S p pc sc)"
    unfolding select_and_deploy_def assms(1) by (auto intro!: deploy_or_update_no_source(1) [OF assms(2,3)])
  show "isl (fst (select_and_deploy S p pc sc w))"
    using deploy_or_update_no_source(2) [OF assms(2,3)] by (intro select_and_deploy_isl) (simp add: assms(1))
qed

text \<open>
  C10.  Refinement of the specification's decision: when the stack list has no
  \<open>null\<close> and its names are distinct (the uniqueness the specification assumes),
  the code updates exactly when a stack of the configured name exists on the
  resolved endpoint, and creates it otherwise.
\<close>

theorem deploy_or_update_refines:
  assumes "None \<notin> set ss" "distinct (map (\<lambda>x. stack_name (the x)) ss)"
    and "find_stack (stk_name sc) ss = Inr stk"
  shows "deploy_or_update S p ep stk sc env cfg =
    (if \<exists>x\<in>set ss. stack_name (the x) = stk_name sc \<and> stack_endpoint_id (the x) = endpoint_id ep
     then update_branch S p (the stk) sc env cfg else deploy_branch S p ep sc env cfg)"
proof (cases stk)
  case None
  with assms(3) have "\<forall>x\<in>set ss. x \<noteq> None \<and> stack_name (the x) \<noteq> stk_name sc"
    by (simp add: find_stack_None)
  with None show ?thesis by (auto simp: deploy_or_update_def)
next
  case (Some s)
  with assms(3) have s: "stack_name s = stk_name sc" "Some s \<in> set ss" by (simp_all add: find_stack_Some)
  have eq: "stack_endpoint_id s = endpoint_id ep \<longleftrightarrow>
        (\<exists>x\<in>set ss. stack_name (the x) = stk_name sc \<and> stack_endpoint_id (the x) = endpoint_id ep)"
  proof
    assume "stack_endpoint_id s = endpoint_id ep"
    with s show "\<exists>x\<in>set ss. stack_name (the x) = stk_name sc \<and> stack_endpoint_id (the x) = endpoint_id ep" by force
  next
    assume "\<exists>x\<in>set ss. stack_name (the x) = stk_name sc \<and> stack_endpoint_id (the x) = endpoint_id ep"
    then obtain x where x: "x \<in> set ss" "stack_name (the x) = stk_name sc" "stack_endpoint_id (the x) = endpoint_id ep" by blast
    have "x = Some s" using distinct_map_eq [OF assms(2) x(1) s(2)] x(2) s(1) by simp
    with x(3) show "stack_endpoint_id s = endpoint_id ep" by simp
  qed
  show ?thesis by (simp only: deploy_or_update_def Some option.simps option.sel eq [symmetric])
qed

text \<open>
  C11.  Every run of \<^verbatim>\<open>Exec\<close>, against any server, sends at most one request
  that creates or updates a stack.
\<close>

theorem exec_one_write: "sends_le mutating 1 (exec S pl)"
  unfolding exec_def Let_def select_and_deploy_def
  by (intro sends_le_bindE_pre deploy_or_update_one_write;
      auto simp: connect_def auth_def mutating_def connect_request_def auth_request_def)

text \<open>
  C12.  Error path of the stack search: when \<^verbatim>\<open>GetStackByName\<close> returns an
  error, \<^verbatim>\<open>Exec\<close> prints \<^verbatim>\<open>FAIL\<close> and goes on with no stack; when the
  scan panics (a \<open>null\<close> element of the list), the panic is no error value and
  ends the run at once, with nothing printed.
\<close>

theorem search_stack_outcome:
  assumes "get_stack_by_name S p name w = (Inl e, w')"
  shows "search_stack S p name w =
    (if is_panic e then (Inl e, w') else (Inr None, w'\<lparr>stdout := stdout w' @ fail_msg\<rparr>))"
  using assms by (simp add: search_stack_def catch_err_def handleE_def bindE_def printf_def modifyE_def throwE_def returnE_def)

text \<open>
  C13.  Equivalence of the two sources of a stack definition: when the stack
  file exists and holds exactly the joined inline configuration, and that text
  is not empty, the run with the inline configuration removed is the same
  run (same result, same requests, same output, same server) as the run with it,
  whether the stack is created or updated.
\<close>

theorem exec_inline_file_equiv:
  assumes "stk_path (cfg_stack (plugin_config pl)) \<noteq> []"
    and "files S (stk_path (cfg_stack (plugin_config pl))) = Some (join_config (stk_config (cfg_stack (plugin_config pl))))"
    and "join_config (stk_config (cfg_stack (plugin_config pl))) \<noteq> []"
  shows "exec S (pl\<lparr>plugin_config := (plugin_config pl)\<lparr>cfg_stack := (cfg_stack (plugin_config pl))\<lparr>stk_config := []\<rparr>\<rparr>\<rparr>) = exec S pl"
  using assms
  by (simp add: exec_def select_and_deploy_def Let_def deploy_or_update_file join_config_def)

end
