(* ===== verification/Cli_Main.thy ===== *)
theory Cli_Main
  imports Plugin_Exec
begin

text \<open>
  The command-line wiring, \<^verbatim>\<open>src/main.go\<close>.  \<^verbatim>\<open>main\<close> declares a table of
  \<^verbatim>\<open>cli\<close> flags (name, kind, the comma-separated environment variables that may
  set it, and the default \<^verbatim>\<open>Value\<close>): the datatype \<open>flag_kind\<close>, the record
  \<open>cli_flag\<close> and the list \<open>flags\<close>, in the order of the source.  \<^verbatim>\<open>run\<close> builds
  the \<^verbatim>\<open>Plugin\<close> value by reading each flag (\<open>run\<close>) and \<^verbatim>\<open>main\<close> turns the
  result of \<^verbatim>\<open>Exec\<close> into the process's exit status (\<open>main_exit\<close>).
  How a flag gets its value is the \<^verbatim>\<open>codegangsta/cli\<close> library, modelled as the
  library documents it for a process started without arguments (a Drone plugin
  receives its settings in environment variables only): the first variable of the
  flag's list, after \<^verbatim>\<open>strings.TrimSpace\<close>, that is set to a non-empty value
  gives the value (\<open>first_env\<close>); a string flag otherwise has its default; a
  boolean flag is \<^verbatim>\<open>strconv.ParseBool\<close> of that value, and false when it does not
  parse; an integer flag takes the first variable whose value parses as a decimal
  \<^verbatim>\<open>int64\<close> (base prefixes such as \<^verbatim>\<open>0x\<close> are not modelled) and is 0 otherwise;
  a string-slice flag is the value cut at every comma, each piece trimmed, and
  empty when no variable is set.  The environment is the function \<open>g\<close> of
  \<^verbatim>\<open>os.Getenv\<close> (the empty string for an unset variable).  A Go panic ends the
  process with status 2 and its message on standard error (not modelled); an
  error returned by \<^verbatim>\<open>Exec\<close> is printed and ends it with status 1.  The texts of
  errors that come from libraries (transport, JSON, file system, the status text
  of a response, \<^verbatim>\<open>urlx\<close>) are the parameter \<open>lib\<close>.
\<close>

datatype flag_kind = String_Flag | Bool_Flag | Int_Flag | String_Slice_Flag

record cli_flag =
  fl_kind :: flag_kind
  fl_name :: string
  fl_env_var :: string
  fl_value :: string

text \<open>The repository arguments (\<^verbatim>\<open>src/main.go\<close> lines 21--65).\<close>

definition repo_flags :: "cli_flag list" where
  "repo_flags =
    [\<lparr>fl_kind = String_Flag, fl_name = ''repo.fullname'', fl_env_var = ''DRONE_REPO'', fl_value = []\<rparr>,
     \<lparr>fl_kind = String_Flag, fl_name = ''repo.owner'', fl_env_var = ''DRONE_REPO_OWNER'', fl_value = []\<rparr>,
     \<lparr>fl_kind = String_Flag, fl_name = ''repo.name'', fl_env_var = ''DRONE_REPO_NAME'', fl_value = []\<rparr>,
     \<lparr>fl_kind = String_Flag, fl_name = ''repo.link'', fl_env_var = ''DRONE_REPO_LINK'', fl_value = []\<rparr>,
     \<lparr>fl_kind = String_Flag, fl_name = ''repo.avatar'', fl_env_var = ''DRONE_REPO_AVATAR'', fl_value = []\<rparr>,
     \<lparr>fl_kind = String_Flag, fl_name = ''repo.branch'', fl_env_var = ''DRONE_REPO_BRANCH'', fl_value = []\<rparr>,
     \<lparr>fl_kind = Bool_Flag, fl_name = ''repo.private'', fl_env_var = ''DRONE_REPO_PRIVATE'', fl_value = []\<rparr>,
     \<lparr>fl_kind = Bool_Flag, fl_name = ''repo.trusted'', fl_env_var = ''DRONE_REPO_TRUSTED'', fl_value = []\<rparr>]"

text \<open>The commit arguments (\<^verbatim>\<open>src/main.go\<close> lines 66--117).\<close>

definition commit_flags :: "cli_flag list" where
  "commit_flags =
    [\<lparr>fl_kind = String_Flag, fl_name = ''remote.url'', fl_env_var = ''DRONE_REMOTE_URL'', fl_value = []\<rparr>,
     \<lparr>fl_kind = String_Flag, fl_name = ''commit.sha'', fl_env_var = ''DRONE_COMMIT_SHA'', fl_value = []\<rparr>,
     \<lparr>fl_kind = String_Flag, fl_name = ''commit.ref'', fl_env_var = ''DRONE_COMMIT_REF'', fl_value = ''refs/heads/master''\<rparr>,
     \<lparr>fl_kind = String_Flag, fl_name = ''commit.branch'', fl_env_var = ''DRONE_COMMIT_BRANCH'', fl_value = ''master''\<rparr>,
     \<lparr>fl_kind = String_Flag, fl_name = ''commit.message'', fl_env_var = ''DRONE_COMMIT_MESSAGE'', fl_value = []\<rparr>,
     \<lparr>fl_kind = String_Flag, fl_name = ''commit.link'', fl_env_var = ''DRONE_COMMIT_LINK'', fl_value = []\<rparr>,
     \<lparr>fl_kind = String_Flag, fl_name = ''commit.author.name'', fl_env_var = ''DRONE_COMMIT_AUTHOR'', fl_value = []\<rparr>,
     \<lparr>fl_kind = String_Flag, fl_name = ''commit.author.email'', fl_env_var = ''DRONE_COMMIT_AUTHOR_EMAIL'', fl_value = []\<rparr>,
     \<lparr>fl_kind = String_Flag, fl_name = ''commit.author.avatar'', fl_env_var = ''DRONE_COMMIT_AUTHOR_AVATAR'', fl_value = []\<rparr>]"

text \<open>The build arguments (\<^verbatim>\<open>src/main.go\<close> lines 118--174).\<close>

definition build_flags :: "cli_flag list" where
  "build_flags =
    [\<lparr>fl_kind = String_Flag, fl_name = ''build.event'', fl_env_var = ''DRONE_BUILD_EVENT'', fl_value = ''push''\<rparr>,
     \<lparr>fl_kind = Int_Flag, fl_name = ''build.number'', fl_env_var = ''DRONE_BUILD_NUMBER'', fl_value = []\<rparr>,
     \<lparr>fl_kind = Int_Flag, fl_name = ''build.created'', fl_env_var = ''DRONE_BUILD_CREATED'', fl_value = []\<rparr>,
     \<lparr>fl_kind = Int_Flag, fl_name = ''build.started'', fl_env_var = ''DRONE_BUILD_STARTED'', fl_value = []\<rparr>,
     \<lparr>fl_kind = Int_Flag, fl_name = ''build.finished'', fl_env_var = ''DRONE_BUILD_FINISHED'', fl_value = []\<rparr>,
     \<lparr>fl_kind = String_Flag, fl_name = ''build.status'', fl_env_var = ''DRONE_BUILD_STATUS'', fl_value = ''success''\<rparr>,
     \<lparr>fl_kind = String_Flag, fl_name = ''build.link'', fl_env_var = ''DRONE_BUILD_LINK'', fl_value = []\<rparr>,
     \<lparr>fl_kind = String_Flag, fl_name = ''build.deploy'', fl_env_var = ''DRONE_DEPLOY_TO'', fl_value = []\<rparr>,
     \<lparr>fl_kind = Bool_Flag, fl_name = ''yaml.verified'', fl_env_var = ''DRONE_YAML_VERIFIED'', fl_value = []\<rparr>,
     \<lparr>fl_kind = Bool_Flag, fl_name = ''yaml.signed'', fl_env_var = ''DRONE_YAML_SIGNED'', fl_value = []\<rparr>]"

text \<open>The previous build arguments (\<^verbatim>\<open>src/main.go\<close> lines 175--194).\<close>

definition prev_build_flags :: "cli_flag list" where
  "prev_build_flags =
    [\<lparr>fl_kind = Int_Flag, fl_name = ''prev.build.number'', fl_env_var = ''DRONE_PREV_BUILD_NUMBER'', fl_value = []\<rparr>,
     \<lparr>fl_kind = String_Flag, fl_name = ''prev.build.status'', fl_env_var = ''DRONE_PREV_BUILD_STATUS'', fl_value = []\<rparr>,
     \<lparr>fl_kind = String_Flag, fl_name = ''prev.commit.sha'', fl_env_var = ''DRONE_PREV_COMMIT_SHA'', fl_value = []\<rparr>]"

text \<open>The plugin-specific arguments (\<^verbatim>\<open>src/main.go\<close> lines 195--257).\<close>

definition plugin_flags :: "cli_flag list" where
  "plugin_flags =
    [\<lparr>fl_kind = Bool_Flag, fl_name = ''debug'', fl_env_var = ''PLUGIN_DEBUG'', fl_value = []\<rparr>,
     \<lparr>fl_kind = String_Slice_Flag, fl_name = ''secrets'', fl_env_var = ''PLUGIN_SECRETS'', fl_value = []\<rparr>,
     \<lparr>fl_kind = String_Flag, fl_name = ''portainer.address'', fl_env_var = ''PLUGIN_PORTAINER_ADDRESS,PLUGIN_PORTAINER,PLUGIN_ADDRESS,PORTAINER_ADDRESS'', fl_value = []\<rparr>,
     \<lparr>fl_kind = Bool_Flag, fl_name = ''portainer.insecure'', fl_env_var = ''PLUGIN_PORTAINER_INSECURE,PLUGIN_INSECURE,PORTAINER_INSECURE'', fl_value = []\<rparr>,
     \<lparr>fl_kind = String_Flag, fl_name = ''portainer.endpoint'', fl_env_var = ''PLUGIN_PORTAINER_ENDPOINT,PLUGIN_ENDPOINT,PORTAINER_ENDPOINT'', fl_value = ''local''\<rparr>,
     \<lparr>fl_kind = String_Flag, fl_name = ''stack.name'', fl_env_var = ''PLUGIN_STACK_NAME,PLUGIN_STACK,STACK_NAME'', fl_value = ''stack''\<rparr>,
     \<lparr>fl_kind = String_Flag, fl_name = ''stack.file'', fl_env_var = ''PLUGIN_STACK_FILE,PLUGIN_FILE,STACK_FILE'', fl_value = ''docker-compose.yml''\<rparr>,
     \<lparr>fl_kind = String_Slice_Flag, fl_name = ''stack.config'', fl_env_var = ''PLUGIN_STACK_CONFIG,PLUGIN_CONFIG,STACK_CONFIG'', fl_value = []\<rparr>,
     \<lparr>fl_kind = String_Slice_Flag, fl_name = ''stack.environment'', fl_env_var = ''PLUGIN_STACK_ENVIRONMENT,PLUGIN_STACK_ENV,PLUGIN_ENVIRONMENT,PLUGIN_ENV,STACK_ENVIRONMENT,STACK_ENV'', fl_value = []\<rparr>,
     \<lparr>fl_kind = String_Flag, fl_name = ''portainer.username'', fl_env_var = ''PLUGIN_PORTAINER_USERNAME,PLUGIN_USERNAME,PORTAINER_USERNAME'', fl_value = []\<rparr>,
     \<lparr>fl_kind = String_Flag, fl_name = ''portainer.password'', fl_env_var = ''PLUGIN_PORTAINER_PASSWORD,PLUGIN_PASSWORD,PORTAINER_PASSWORD'', fl_value = []\<rparr>]"

text \<open>\<^verbatim>\<open>app.Flags\<close>: the sections in the order of the source.\<close>

definition flags :: "cli_flag list" where
  "flags = repo_flags @ commit_flags @ build_flags @ prev_build_flags @ plugin_flags"

subsection \<open>Flag values (the \<^verbatim>\<open>cli\<close> library)\<close>

definition is_go_space :: "char \<Rightarrow> bool" where
  "is_go_space c \<longleftrightarrow> c \<in> {CHR '' '', CHR 0x09, CHR 0x0A, CHR 0x0B, CHR 0x0C, CHR 0x0D}"

definition trim_space :: "string \<Rightarrow> string" where
  "trim_space s = rev (dropWhile is_go_space (rev (dropWhile is_go_space s)))"

definition env_vars :: "cli_flag \<Rightarrow> string list" where
  "env_vars f = map trim_space (strings_split (CHR '','') (fl_env_var f))"

fun first_env :: "(string \<Rightarrow> string) \<Rightarrow> string list \<Rightarrow> string option" where
  "first_env g [] = None"
| "first_env g (v # vs) = (if g v \<noteq> [] then Some (g v) else first_env g vs)"

definition env_or :: "(string \<Rightarrow> string) \<Rightarrow> string list \<Rightarrow> string \<Rightarrow> string" where
  "env_or g vs d = (case first_env g vs of Some v \<Rightarrow> v | None \<Rightarrow> d)"

definition parse_bool :: "string \<Rightarrow> bool option" where
  "parse_bool s =
     (if s \<in> {''1'', ''t'', ''T'', ''TRUE'', ''true'', ''True''} then Some True
      else if s \<in> {''0'', ''f'', ''F'', ''FALSE'', ''false'', ''False''} then Some False
      else None)"

fun first_env_int :: "(string \<Rightarrow> string) \<Rightarrow> string list \<Rightarrow> int option" where
  "first_env_int g [] = None"
| "first_env_int g (v # vs) =
     (case parse_int (g v) of
        Some i \<Rightarrow> if g v \<noteq> [] \<and> in_go_int i then Some i else first_env_int g vs
      | None \<Rightarrow> first_env_int g vs)"

definition lookup_flag :: "string \<Rightarrow> cli_flag option" where
  "lookup_flag n = List.find (\<lambda>f. fl_name f = n) flags"

text \<open>\<^verbatim>\<open>c.String\<close>, \<^verbatim>\<open>c.Bool\<close>, \<^verbatim>\<open>c.Int\<close>, \<^verbatim>\<open>c.StringSlice\<close>: the zero value for a
  name that is not declared with that kind.\<close>

definition c_string :: "(string \<Rightarrow> string) \<Rightarrow> string \<Rightarrow> string" where
  "c_string g n =
     (case lookup_flag n of
        Some f \<Rightarrow> if fl_kind f = String_Flag then env_or g (env_vars f) (fl_value f) else []
      | None \<Rightarrow> [])"

definition c_bool :: "(string \<Rightarrow> string) \<Rightarrow> string \<Rightarrow> bool" where
  "c_bool g n =
     (case lookup_flag n of
        Some f \<Rightarrow> fl_kind f = Bool_Flag \<and>
                  (case first_env g (env_vars f) of Some v \<Rightarrow> parse_bool v = Some True | None \<Rightarrow> False)
      | None \<Rightarrow> False)"

definition c_int :: "(string \<Rightarrow> string) \<Rightarrow> string \<Rightarrow> int" where
  "c_int g n =
     (case lookup_flag n of
        Some f \<Rightarrow> if fl_kind f = Int_Flag then (case first_env_int g (env_vars f) of Some i \<Rightarrow> i | None \<Rightarrow> 0) else 0
      | None \<Rightarrow> 0)"

definition c_string_slice :: "(string \<Rightarrow> string) \<Rightarrow> string \<Rightarrow> string list" where
  "c_string_slice g n =
     (case lookup_flag n of
        Some f \<Rightarrow> if fl_kind f = String_Slice_Flag
                  then (case first_env g (env_vars f) of
                          Some v \<Rightarrow> map trim_space (strings_split (CHR '','') v)
                        | None \<Rightarrow> [])
                  else []
      | None \<Rightarrow> [])"

subsection \<open>\<^verbatim>\<open>run\<close>\<close>

definition run :: "(string \<Rightarrow> string) \<Rightarrow> plugin" where
  "run g =
     \<lparr>plugin_repo =
        \<lparr>repo_owner = c_string g ''repo.owner'', repo_name = c_string g ''repo.name'',
         repo_link = c_string g ''repo.link'', repo_avatar = c_string g ''repo.avatar'',
         repo_branch = c_string g ''repo.branch'', repo_private = c_bool g ''repo.private'',
         repo_trusted = c_bool g ''repo.trusted''\<rparr>,
      plugin_build =
        \<lparr>build_number = c_int g ''build.number'', build_event = c_string g ''build.event'',
         build_status = c_string g ''build.status'', build_deploy = c_string g ''build.deploy'',
         build_created = c_int g ''build.created'', build_started = c_int g ''build.started'',
         build_finished = c_int g ''build.finished'', build_link = c_string g ''build.link''\<rparr>,
      plugin_commit =
        \<lparr>commit_remote = c_string g ''remote.url'', commit_sha = c_string g ''commit.sha'',
         commit_ref = c_string g ''commit.sha'', commit_link = c_string g ''commit.link'',
         commit_branch = c_string g ''commit.branch'', commit_message = c_string g ''commit.message'',
         commit_author =
           \<lparr>author_name = c_string g ''commit.author.name'', author_email = c_string g ''commit.author.email'',
            author_avatar = c_string g ''commit.author.avatar''\<rparr>\<rparr>,
      plugin_config =
        \<lparr>cfg_portainer =
           \<lparr>cfg_address = c_string g ''portainer.address'', cfg_username = c_string g ''portainer.username'',
            cfg_password = c_string g ''portainer.password'', cfg_endpoint = c_string g ''portainer.endpoint'',
            cfg_insecure = c_bool g ''portainer.insecure''\<rparr>,
         cfg_stack =
           \<lparr>stk_name = c_string g ''stack.name'', stk_path = c_string g ''stack.file'',
            stk_config = c_string_slice g ''stack.config'', stk_environment = c_string_slice g ''stack.environment''\<rparr>,
         cfg_secrets = c_string_slice g ''secrets'', cfg_debug = c_bool g ''debug''\<rparr>\<rparr>"

subsection \<open>Exit status\<close>

fun method_name :: "http_method \<Rightarrow> string" where
  "method_name HEAD = ''HEAD''"
| "method_name GET = ''GET''"
| "method_name POST = ''POST''"
| "method_name PUT = ''PUT''"

text \<open>The text \<^verbatim>\<open>%v\<close> prints for an error: the messages the repository formats
  itself, and \<open>lib e\<close> for the parts that come from a library (\<^verbatim>\<open>rsp.Status\<close>
  is the code followed by the library's status text).\<close>

fun error_text :: "(go_error \<Rightarrow> string) \<Rightarrow> go_error \<Rightarrow> string" where
  "error_text lib Err_Address_Parse = ''Address parsing error : '' @ lib Err_Address_Parse"
| "error_text lib Err_Address_Normalize = ''Address normalizing error : '' @ lib Err_Address_Normalize"
| "error_text lib (Err_Api m u st) =
     ''Portainer API error: '' @ method_name m @ '' '' @ u @ '' '' @ go_itoa st @ '' '' @ lib (Err_Api m u st)"
| \<open>error_text lib (Err_Endpoint_Not_Found n) = ''Endpoint "'' @ n @ ''" not found''\<close>
| "error_text lib Err_Stack_Name_Undefined = ''Stack name not defined''"
| "error_text lib Err_Stack_Config_Undefined = ''Stack config not defined''"
| "error_text lib e = lib e"

definition main_exit :: "(go_error \<Rightarrow> string) \<Rightarrow> 's sys \<Rightarrow> (string \<Rightarrow> string) \<Rightarrow> 's world \<Rightarrow> int \<times> 's world" where
  "main_exit lib S g w =
     (case exec S (run g) w of
        (Inr (), w') \<Rightarrow> (0, w')
      | (Inl e, w') \<Rightarrow>
          if is_panic e then (2, w')
          else (1, w'\<lparr>stdout := stdout w' @ ''Exited with error: '' @ error_text lib e @ nl\<rparr>))"

subsection \<open>The settings \<^verbatim>\<open>run\<close> reads\<close>

text \<open>Each \<^verbatim>\<open>c.String\<close>/\<^verbatim>\<open>c.Bool\<close>/\<^verbatim>\<open>c.StringSlice\<close> call of \<^verbatim>\<open>run\<close> that reaches
  \<^verbatim>\<open>Exec\<close>, evaluated against the flag table: the variables it reads, in order, and
  its default.\<close>

lemma read_portainer_address: "c_string g ''portainer.address'' =
    env_or g [''PLUGIN_PORTAINER_ADDRESS'', ''PLUGIN_PORTAINER'', ''PLUGIN_ADDRESS'', ''PORTAINER_ADDRESS''] []"
  by code_simp

lemma read_portainer_username: "c_string g ''portainer.username'' =
    env_or g [''PLUGIN_PORTAINER_USERNAME'', ''PLUGIN_USERNAME'', ''PORTAINER_USERNAME''] []"
  by code_simp

lemma read_portainer_password: "c_string g ''portainer.password'' =
    env_or g [''PLUGIN_PORTAINER_PASSWORD'', ''PLUGIN_PASSWORD'', ''PORTAINER_PASSWORD''] []"
  by code_simp

lemma read_portainer_endpoint: "c_string g ''portainer.endpoint'' =
    env_or g [''PLUGIN_PORTAINER_ENDPOINT'', ''PLUGIN_ENDPOINT'', ''PORTAINER_ENDPOINT''] ''local''"
  by code_simp

lemma read_portainer_insecure: "c_bool g ''portainer.insecure'' =
    (case first_env g [''PLUGIN_PORTAINER_INSECURE'', ''PLUGIN_INSECURE'', ''PORTAINER_INSECURE''] of
       Some v \<Rightarrow> parse_bool v = Some True | None \<Rightarrow> False)"
  by code_simp

lemma read_stack_name: "c_string g ''stack.name'' = env_or g [''PLUGIN_STACK_NAME'', ''PLUGIN_STACK'', ''STACK_NAME''] ''stack''"
  by code_simp

lemma read_stack_file: "c_string g ''stack.file'' =
    env_or g [''PLUGIN_STACK_FILE'', ''PLUGIN_FILE'', ''STACK_FILE''] ''docker-compose.yml''"
  by code_simp

lemma read_stack_config: "c_string_slice g ''stack.config'' =
    (case first_env g [''PLUGIN_STACK_CONFIG'', ''PLUGIN_CONFIG'', ''STACK_CONFIG''] of
       Some v \<Rightarrow> map trim_space (strings_split (CHR '','') v) | None \<Rightarrow> [])"
  by code_simp

lemma read_stack_environment: "c_string_slice g ''stack.environment'' =
    (case first_env g [''PLUGIN_STACK_ENVIRONMENT'', ''PLUGIN_STACK_ENV'', ''PLUGIN_ENVIRONMENT'', ''PLUGIN_ENV'',
                       ''STACK_ENVIRONMENT'', ''STACK_ENV''] of
       Some v \<Rightarrow> map trim_space (strings_split (CHR '','') v) | None \<Rightarrow> [])"
  by code_simp

lemma read_secrets: "c_string_slice g ''secrets'' =
    (case first_env g [''PLUGIN_SECRETS''] of Some v \<Rightarrow> map trim_space (strings_split (CHR '','') v) | None \<Rightarrow> [])"
  by code_simp

lemma read_debug: "c_bool g ''debug'' = (case first_env g [''PLUGIN_DEBUG''] of Some v \<Rightarrow> parse_bool v = Some True | None \<Rightarrow> False)"
  by code_simp

lemma read_commit_sha: "c_string g ''commit.sha'' = env_or g [''DRONE_COMMIT_SHA''] []"
  by code_simp

lemma read_commit_ref: "c_string g ''commit.ref'' = env_or g [''DRONE_COMMIT_REF''] ''refs/heads/master''"
  by code_simp

lemmas run_reads = read_portainer_address read_portainer_username read_portainer_password
  read_portainer_endpoint read_portainer_insecure read_stack_name read_stack_file read_stack_config
  read_stack_environment read_secrets read_debug read_commit_sha read_commit_ref

lemma first_env_unset: "(\<forall>v. g v = []) \<Longrightarrow> first_env g vs = None"
  by (induction vs) auto

lemma env_or_single: "env_or g [v] d = (if g v = [] then d else g v)"
  by (simp add: env_or_def)

subsection \<open>Run-level facts\<close>

lemma exec_env_error_sends:
  assumes "parse_env (stk_environment (cfg_stack (plugin_config pl))) = Inl err"
  shows "sends (\<lambda>rq. \<not> mutating rq) (exec S pl)"
proof -
  have sd: "\<And>p pc. sends (\<lambda>rq. \<not> mutating rq) (select_and_deploy S p pc (cfg_stack (plugin_config pl)))"
    by (rule sends_mono [OF select_and_deploy_env_error_sends [OF assms]]) (simp add: mutating_def)
  show ?thesis
    unfolding exec_def Let_def by (auto intro!: sd simp: connect_def auth_def)
qed

lemma exec_env_error_fails:
  "parse_env (stk_environment (cfg_stack (plugin_config pl))) = Inl err \<Longrightarrow> isl (fst (exec S pl w))"
  unfolding exec_def Let_def by (intro bindE_isl select_and_deploy_env_error_fails)

lemma main_exit_ok:
  "fst (exec S (run g) w) = Inr () \<Longrightarrow> main_exit lib S g w = (0, snd (exec S (run g) w))"
  unfolding main_exit_def by (cases "exec S (run g) w") (auto split: sum.splits unit.splits)

lemma main_exit_fails:
  assumes "isl (fst (exec S (run g) w))"
  shows "fst (main_exit lib S g w) \<noteq> 0 \<and> sent (snd (main_exit lib S g w)) = sent (snd (exec S (run g) w))"
  using assms by (cases "exec S (run g) w") (auto simp: main_exit_def isl_def split: sum.splits if_splits)

subsection \<open>Properties of the command-line wiring\<close>

text \<open>
  C27.  The configuration \<^verbatim>\<open>run\<close> hands to \<^verbatim>\<open>Exec\<close> is read from the
  environment variables of the flag table, the first non-empty one of each list
  winning, with the defaults \<^verbatim>\<open>local\<close> (endpoint), \<^verbatim>\<open>stack\<close> (stack name) and
  \<^verbatim>\<open>docker-compose.yml\<close> (stack file); the list settings are the variable's value
  cut at every comma.
\<close>

theorem run_config:
  "plugin_config (run g) =
     \<lparr>cfg_portainer =
        \<lparr>cfg_address = env_or g [''PLUGIN_PORTAINER_ADDRESS'', ''PLUGIN_PORTAINER'', ''PLUGIN_ADDRESS'', ''PORTAINER_ADDRESS''] [],
         cfg_username = env_or g [''PLUGIN_PORTAINER_USERNAME'', ''PLUGIN_USERNAME'', ''PORTAINER_USERNAME''] [],
         cfg_password = env_or g [''PLUGIN_PORTAINER_PASSWORD'', ''PLUGIN_PASSWORD'', ''PORTAINER_PASSWORD''] [],
         cfg_endpoint = env_or g [''PLUGIN_PORTAINER_ENDPOINT'', ''PLUGIN_ENDPOINT'', ''PORTAINER_ENDPOINT''] ''local'',
         cfg_insecure = (case first_env g [''PLUGIN_PORTAINER_INSECURE'', ''PLUGIN_INSECURE'', ''PORTAINER_INSECURE''] of
                           Some v \<Rightarrow> parse_bool v = Some True | None \<Rightarrow> False)\<rparr>,
      cfg_stack =
        \<lparr>stk_name = env_or g [''PLUGIN_STACK_NAME'', ''PLUGIN_STACK'', ''STACK_NAME''] ''stack'',
         stk_path = env_or g [''PLUGIN_STACK_FILE'', ''PLUGIN_FILE'', ''STACK_FILE''] ''docker-compose.yml'',
         stk_config = (case first_env g [''PLUGIN_STACK_CONFIG'', ''PLUGIN_CONFIG'', ''STACK_CONFIG''] of
                         Some v \<Rightarrow> map trim_space (strings_split (CHR '','') v) | None \<Rightarrow> []),
         stk_environment =
           (case first_env g [''PLUGIN_STACK_ENVIRONMENT'', ''PLUGIN_STACK_ENV'', ''PLUGIN_ENVIRONMENT'', ''PLUGIN_ENV'',
                              ''STACK_ENVIRONMENT'', ''STACK_ENV''] of
              Some v \<Rightarrow> map trim_space (strings_split (CHR '','') v) | None \<Rightarrow> [])\<rparr>,
      cfg_secrets = (case first_env g [''PLUGIN_SECRETS''] of
                       Some v \<Rightarrow> map trim_space (strings_split (CHR '','') v) | None \<Rightarrow> []),
      cfg_debug = (case first_env g [''PLUGIN_DEBUG''] of Some v \<Rightarrow> parse_bool v = Some True | None \<Rightarrow> False)\<rparr>"
  by (simp add: run_def run_reads)

text \<open>
  With no variable set, the configuration is the defaults of the flag table:
  empty address and credentials, endpoint \<^verbatim>\<open>local\<close>, stack \<^verbatim>\<open>stack\<close> from
  \<^verbatim>\<open>docker-compose.yml\<close>, no inline configuration, environment or secrets, and
  the booleans false.
\<close>

lemma run_defaults:
  "\<forall>v. g v = [] \<Longrightarrow>
   plugin_config (run g) =
     \<lparr>cfg_portainer = \<lparr>cfg_address = [], cfg_username = [], cfg_password = [], cfg_endpoint = ''local'',
                       cfg_insecure = False\<rparr>,
      cfg_stack = \<lparr>stk_name = ''stack'', stk_path = ''docker-compose.yml'', stk_config = [], stk_environment = []\<rparr>,
      cfg_secrets = [], cfg_debug = False\<rparr>"
  by (simp add: run_def run_reads env_or_def first_env_unset)

text \<open>
  C28.  \<^verbatim>\<open>Commit.Ref\<close> is filled from the \<^verbatim>\<open>commit.sha\<close> flag: it is always the
  commit hash of \<^verbatim>\<open>DRONE_COMMIT_SHA\<close>, and \<^verbatim>\<open>DRONE_COMMIT_REF\<close> (and the flag's
  default \<^verbatim>\<open>refs/heads/master\<close>) never reaches the plugin.
\<close>

theorem run_commit_ref:
  "commit_ref (plugin_commit (run g)) = commit_sha (plugin_commit (run g)) \<and>
   commit_sha (plugin_commit (run g)) = g ''DRONE_COMMIT_SHA''"
  by (simp add: run_def read_commit_sha env_or_single)

text \<open>
  C29.  A list setting given in one variable is cut at every comma: the inline
  configuration \<^verbatim>\<open>Exec\<close> sends is the pieces rejoined with newlines (a comma
  inside a YAML flow sequence becomes a line break), and an environment value that
  contains a comma becomes two entries.
\<close>

theorem run_list_settings:
  "(first_env g [''PLUGIN_STACK_CONFIG'', ''PLUGIN_CONFIG'', ''STACK_CONFIG''] = Some v \<longrightarrow>
      join_config (stk_config (cfg_stack (plugin_config (run g)))) =
        strings_join (map trim_space (strings_split (CHR '','') v)) nl) \<and>
   (first_env g [''PLUGIN_STACK_ENVIRONMENT'', ''PLUGIN_STACK_ENV'', ''PLUGIN_ENVIRONMENT'', ''PLUGIN_ENV'',
                 ''STACK_ENVIRONMENT'', ''STACK_ENV''] = Some u \<longrightarrow>
      stk_environment (cfg_stack (plugin_config (run g))) = map trim_space (strings_split (CHR '','') u))"
  by (simp add: run_def read_stack_config read_stack_environment join_config_def)

text \<open>
  C30.  End to end: when the environment entries the process receives do not
  parse, the process exits with a non-zero status and every request it sent is
  a connection check, the login or a read; no stack is created or updated.
\<close>

theorem main_env_panic:
  assumes "parse_env (stk_environment (cfg_stack (plugin_config (run g)))) = Inl err"
  shows "fst (main_exit lib S g w) \<noteq> 0 \<and>
    (\<exists>new. sent (snd (main_exit lib S g w)) = sent w @ new \<and> (\<forall>rq\<in>set new. \<not> mutating rq))"
proof -
  from main_exit_fails [OF exec_env_error_fails [OF assms]]
  have "fst (main_exit lib S g w) \<noteq> 0" and "sent (snd (main_exit lib S g w)) = sent (snd (exec S (run g) w))"
    by blast+
  moreover from exec_env_error_sends [OF assms]
  have "\<exists>new. sent (snd (exec S (run g) w)) = sent w @ new \<and> (\<forall>rq\<in>set new. \<not> mutating rq)"
    unfolding sends_def by blast
  ultimately show ?thesis by simp
qed

text \<open>
  The flag names of the table are distinct, so each \<^verbatim>\<open>c.String\<close>-style
  read of \<^verbatim>\<open>run\<close> resolves to one declaration.
\<close>

lemma flags_distinct: "distinct (map fl_name flags)"
  by code_simp

text \<open>
  Termination of the list-setting split: \<^verbatim>\<open>c.StringSlice\<close> cuts the value of
  the first set variable of the flag with a loop over the commas that terminates on
  every value, and yields exactly one entry per comma plus one.
\<close>

lemma c_string_slice_split:
  assumes "lookup_flag n = Some f" "fl_kind f = String_Slice_Flag" "first_env g (env_vars f) = Some v"
  shows "strings_split_dom (CHR '','', v) \<and> length (c_string_slice g n) = count_list v (CHR '','') + 1"
  using assms by (simp add: c_string_slice_def strings_split_terminates strings_split_length)

end
