(* ===== verification/Request_Traces.thy ===== *)
theory Request_Traces
  imports Http_Model
begin

text \<open>
  Request logs as runs of an automaton.  A protocol is a step relation
  \<open>T q rq q'\<close> labelled by requests; \<open>req_path T q rqs q'\<close> says that the requests
  \<open>rqs\<close>, sent in this order, lead from \<open>q\<close> to \<open>q'\<close>.  \<open>walks T q m Q E\<close> is a
  Hoare triple for an operation of the program: from protocol state \<open>q\<close>, every run
  of \<open>m\<close> appends a path of \<open>T\<close> to the log and ends in a state satisfying \<open>Q a\<close>
  when it returns \<open>a\<close>, or \<open>E e\<close> when it fails with \<open>e\<close>.  The rules below
  compose it along the combinators, so that the requests of a whole run are shown to
  follow the protocol from the requests of its parts.
\<close>

inductive req_path :: "('q \<Rightarrow> request \<Rightarrow> 'q \<Rightarrow> bool) \<Rightarrow> 'q \<Rightarrow> request list \<Rightarrow> 'q \<Rightarrow> bool"
  for T where
  req_path_nil: "req_path T q [] q"
| req_path_cons: "T q rq q' \<Longrightarrow> req_path T q' rqs q'' \<Longrightarrow> req_path T q (rq # rqs) q''"

definition walks ::
  "('q \<Rightarrow> request \<Rightarrow> 'q \<Rightarrow> bool) \<Rightarrow> 'q \<Rightarrow> ('s, 'a) op \<Rightarrow> ('a \<Rightarrow> 'q \<Rightarrow> bool) \<Rightarrow> (go_error \<Rightarrow> 'q \<Rightarrow> bool) \<Rightarrow> bool"
where
  "walks T q m Q E \<longleftrightarrow>
     (\<forall>w. \<exists>new q'. sent (snd (m w)) = sent w @ new \<and> req_path T q new q' \<and>
                 (case fst (m w) of Inl e \<Rightarrow> E e q' | Inr a \<Rightarrow> Q a q'))"

subsection \<open>Paths\<close>

declare req_path_nil [simp, intro]

inductive_simps req_path_Nil_simp [simp]: "req_path T q [] q'"
inductive_simps req_path_Cons_simp: "req_path T q (rq # rqs) q''"

lemma req_path_single [intro]: "T q rq q' \<Longrightarrow> req_path T q [rq] q'"
  by (blast intro: req_path_cons)

lemma req_path_append: "req_path T q xs q' \<Longrightarrow> req_path T q' ys q'' \<Longrightarrow> req_path T q (xs @ ys) q''"
  by (induction rule: req_path.induct) (auto intro: req_path_cons)

subsection \<open>Rules for the combinators\<close>

lemma walksI:
  "(\<And>w. \<exists>new q'. sent (snd (m w)) = sent w @ new \<and> req_path T q new q' \<and>
          (case fst (m w) of Inl e \<Rightarrow> E e q' | Inr a \<Rightarrow> Q a q')) \<Longrightarrow> walks T q m Q E"
  by (simp add: walks_def)

lemma walksE:
  assumes "walks T q m Q E" and "m w = (r, w')"
  obtains new q' where "sent w' = sent w @ new" "req_path T q new q'"
    "case r of Inl e \<Rightarrow> E e q' | Inr a \<Rightarrow> Q a q'"
  using assms unfolding walks_def by (metis fst_conv snd_conv)

lemma walks_returnE: "Q a q \<Longrightarrow> walks T q (returnE a) Q E"
  by (rule walksI) (rule exI [of _ "[]"], auto)

lemma walks_throwE: "E e q \<Longrightarrow> walks T q (throwE e) Q E"
  by (rule walksI) (rule exI [of _ "[]"], auto)

lemma walks_liftE: "(\<And>e. r = Inl e \<Longrightarrow> E e q) \<Longrightarrow> (\<And>a. r = Inr a \<Longrightarrow> Q a q) \<Longrightarrow> walks T q (liftE r) Q E"
  by (rule walksI) (rule exI [of _ "[]"], auto split: sum.splits)

lemma walks_printf: "Q () q \<Longrightarrow> walks T q (printf s) Q E"
  by (rule walksI) (rule exI [of _ "[]"], auto)

lemma walks_read_file: "(\<And>c. Q c q) \<Longrightarrow> (\<And>e. E e q) \<Longrightarrow> walks T q (read_file S path) Q E"
  by (rule walksI) (rule exI [of _ "[]"], auto simp: read_file_def split: option.splits)

lemma walks_http_do: "T q rq q' \<Longrightarrow> (\<And>r. Q r q') \<Longrightarrow> (\<And>e. E e q') \<Longrightarrow> walks T q (http_do S rq) Q E"
  by (rule walksI) (rule exI [of _ "[rq]"], auto simp: http_do_def split: prod.splits response.splits)

lemma walks_bindE:
  assumes m: "walks T q m R E" and f: "\<And>a q'. R a q' \<Longrightarrow> walks T q' (f a) Q E"
  shows "walks T q (bindE m f) Q E"
proof (rule walksI)
  fix w
  obtain r w1 where mw: "m w = (r, w1)" by (cases "m w")
  from m mw obtain n1 q1 where n1: "sent w1 = sent w @ n1" "req_path T q n1 q1"
    and post: "case r of Inl e \<Rightarrow> E e q1 | Inr a \<Rightarrow> R a q1" by (rule walksE)
  show "\<exists>new q'. sent (snd (bindE m f w)) = sent w @ new \<and> req_path T q new q' \<and>
          (case fst (bindE m f w) of Inl e \<Rightarrow> E e q' | Inr a \<Rightarrow> Q a q')"
  proof (cases r)
    case (Inl e)
    with mw n1 post show ?thesis by (intro exI [of _ n1] exI [of _ q1]) (simp add: bindE_def)
  next
    case (Inr a)
    obtain r2 w2 where fw: "f a w1 = (r2, w2)" by (cases "f a w1")
    from post Inr have "R a q1" by simp
    from f [OF this] fw obtain n2 q2 where n2: "sent w2 = sent w1 @ n2" "req_path T q1 n2 q2"
      and post2: "case r2 of Inl e \<Rightarrow> E e q2 | Inr a \<Rightarrow> Q a q2" by (rule walksE)
    have "bindE m f w = (r2, w2)" using Inr mw fw by (simp add: bindE_def)
    with n1 n2 post2 show ?thesis
      by (intro exI [of _ "n1 @ n2"] exI [of _ q2]) (simp add: req_path_append)
  qed
qed

lemma walks_handleE:
  assumes m: "walks T q m Q F" and h: "\<And>e q'. F e q' \<Longrightarrow> walks T q' (h e) Q E"
  shows "walks T q (handleE m h) Q E"
proof (rule walksI)
  fix w
  obtain r w1 where mw: "m w = (r, w1)" by (cases "m w")
  from m mw obtain n1 q1 where n1: "sent w1 = sent w @ n1" "req_path T q n1 q1"
    and post: "case r of Inl e \<Rightarrow> F e q1 | Inr a \<Rightarrow> Q a q1" by (rule walksE)
  show "\<exists>new q'. sent (snd (handleE m h w)) = sent w @ new \<and> req_path T q new q' \<and>
          (case fst (handleE m h w) of Inl e \<Rightarrow> E e q' | Inr a \<Rightarrow> Q a q')"
  proof (cases r)
    case (Inr a)
    with mw n1 post show ?thesis by (intro exI [of _ n1] exI [of _ q1]) (simp add: handleE_def)
  next
    case (Inl e)
    obtain r2 w2 where hw: "h e w1 = (r2, w2)" by (cases "h e w1")
    from post Inl have "F e q1" by simp
    from h [OF this] hw obtain n2 q2 where n2: "sent w2 = sent w1 @ n2" "req_path T q1 n2 q2"
      and post2: "case r2 of Inl e \<Rightarrow> E e q2 | Inr a \<Rightarrow> Q a q2" by (rule walksE)
    have "handleE m h w = (r2, w2)" using Inl mw hw by (simp add: handleE_def)
    with n1 n2 post2 show ?thesis
      by (intro exI [of _ "n1 @ n2"] exI [of _ q2]) (simp add: req_path_append)
  qed
qed

lemma walks_conseq:
  shows "walks T q m Q E \<Longrightarrow> (\<And>a q'. Q a q' \<Longrightarrow> Q' a q') \<Longrightarrow> (\<And>e q'. E e q' \<Longrightarrow> E' e q') \<Longrightarrow>
    walks T q m Q' E'"
proof (rule walksI)
  fix w
  assume "walks T q m Q E" and Q: "\<And>a q'. Q a q' \<Longrightarrow> Q' a q'" and E: "\<And>e q'. E e q' \<Longrightarrow> E' e q'"
  then obtain new q' where "sent (snd (m w)) = sent w @ new" "req_path T q new q'"
    and post: "case fst (m w) of Inl e \<Rightarrow> E e q' | Inr a \<Rightarrow> Q a q'"
    by (metis walksE prod.collapse)
  moreover have "case fst (m w) of Inl e \<Rightarrow> E' e q' | Inr a \<Rightarrow> Q' a q'"
    using post Q E by (simp split: sum.splits)
  ultimately show "\<exists>new q'. sent (snd (m w)) = sent w @ new \<and> req_path T q new q' \<and>
          (case fst (m w) of Inl e \<Rightarrow> E' e q' | Inr a \<Rightarrow> Q' a q')" by blast
qed

lemma walks_catch_err:
  assumes m: "walks T q m Q F" and h: "\<And>e q'. F e q' \<Longrightarrow> \<not> is_panic e \<Longrightarrow> walks T q' (h e) Q E"
    and p: "\<And>e q'. F e q' \<Longrightarrow> is_panic e \<Longrightarrow> E e q'"
  shows "walks T q (catch_err m h) Q E"
  unfolding catch_err_def
  by (rule walks_handleE [OF m]) (simp add: h p walks_throwE)

lemma walks_if: "(b \<Longrightarrow> walks T q m1 Q E) \<Longrightarrow> (\<not> b \<Longrightarrow> walks T q m2 Q E) \<Longrightarrow> walks T q (if b then m1 else m2) Q E"
  by simp

text \<open>Sequencing with an intermediate predicate that fixes the state reached: the
  form most steps of the program take.\<close>

lemma walks_bindE_state:
  "walks T q m (\<lambda>a. (=) q') E \<Longrightarrow> (\<And>a. walks T q' (f a) Q E) \<Longrightarrow> walks T q (bindE m f) Q E"
  by (rule walks_bindE [where R = "\<lambda>a. (=) q'"]) simp_all

lemma walks_printf_then: "walks T q m Q E \<Longrightarrow> walks T q (bindE (printf s) (\<lambda>_. m)) Q E"
  by (rule walks_bindE_state [OF walks_printf]) simp_all

lemma walks_read_file_then:
  "(\<And>c. walks T q (f c) Q E) \<Longrightarrow> (\<And>e. E e q) \<Longrightarrow> walks T q (bindE (read_file S path) f) Q E"
  by (rule walks_bindE [where R = "\<lambda>_. (=) q", OF walks_read_file]) auto

end
