(* ===== verification/Protocol.thy ===== *)
theory Protocol
  imports Plugin_Exec Request_Traces
begin

text \<open>
  The protocol \<^verbatim>\<open>Exec\<close> follows with the Portainer server, as an automaton over
  the requests it sends (\<open>proto_step\<close>): connection check, login, endpoint list,
  swarm inspection of one endpoint, stack list (skipped when the lookup fails before
  sending it), then one write: an update of a stack on that endpoint, or the
  creation of the configured stack on it.  The token of the authenticated
  requests is fixed by the first of them.  The states record what has been sent.
  The invariants of every path from the start (rule induction on \<open>req_path\<close>):
  at most one write, and it ends the path; every request after the login carries
  the same token; a write is preceded by the connection check, the login, the
  endpoint list and the inspection of the endpoint it targets.  The refinement:
  \<open>walks_exec\<close> derives, method by method with the rules of
  \<open>Request_Traces\<close>, that every run of \<open>exec\<close> sends a path of this automaton
  from its start and that a successful run ends with the write; the claims at the
  end transfer the invariants to \<open>exec\<close> through it.
\<close>

datatype pstate =
    A_Start
  | A_Connect
  | A_Login
  | A_Endpoints string
  | A_Swarm string endpoint
  | A_Stacks string endpoint
  | A_Write

text \<open>The automaton for the client \<open>p\<close> built from the configured address, the
  credentials \<open>user\<close>, \<open>pass\<close> and the configured stack name \<open>name\<close>.\<close>

inductive proto_step ::
  "portainer \<Rightarrow> string \<Rightarrow> string \<Rightarrow> string \<Rightarrow> pstate \<Rightarrow> request \<Rightarrow> pstate \<Rightarrow> bool"
  for p user pass name where
  connect: "proto_step p user pass name A_Start (connect_request p) A_Connect"
| login: "proto_step p user pass name A_Connect (auth_request p user pass) A_Login"
| endpoints: "proto_step p user pass name A_Login (endpoints_request (p\<lparr>p_auth := t\<rparr>)) (A_Endpoints t)"
| swarm: "proto_step p user pass name (A_Endpoints t) (swarm_request (p\<lparr>p_auth := t\<rparr>) e) (A_Swarm t e)"
| stacks: "proto_step p user pass name (A_Swarm t e) (stacks_request (p\<lparr>p_auth := t\<rparr>)) (A_Stacks t e)"
| update: "stack_endpoint_id s = endpoint_id e \<Longrightarrow>
    proto_step p user pass name (A_Stacks t e) (update_request (p\<lparr>p_auth := t\<rparr>) s c True env) A_Write"
| create: "q = A_Swarm t e \<or> q = A_Stacks t e \<Longrightarrow>
    proto_step p user pass name q
      (string_deploy_request (p\<lparr>p_auth := t\<rparr>) (e\<lparr>endpoint_swarm_id := sid\<rparr>) name c env) A_Write"

text \<open>The token a state's requests carry, once it is fixed.\<close>

fun ptoken :: "pstate \<Rightarrow> string option" where
  "ptoken (A_Endpoints t) = Some t"
| "ptoken (A_Swarm t e) = Some t"
| "ptoken (A_Stacks t e) = Some t"
| "ptoken _ = None"

text \<open>The automaton for the client and the configuration of one plugin run.\<close>

abbreviation exec_proto :: "plugin \<Rightarrow> portainer \<Rightarrow> pstate \<Rightarrow> request \<Rightarrow> pstate \<Rightarrow> bool" where
  "exec_proto pl p \<equiv> proto_step p (cfg_username (cfg_portainer (plugin_config pl)))
     (cfg_password (cfg_portainer (plugin_config pl))) (stk_name (cfg_stack (plugin_config pl)))"

inductive_cases proto_step_WriteE: "proto_step p user pass name A_Write rq q"
inductive_cases proto_step_StartE: "proto_step p user pass name A_Start rq q"
inductive_cases proto_step_ConnectE: "proto_step p user pass name A_Connect rq q"
inductive_cases proto_step_LoginE: "proto_step p user pass name A_Login rq q"

subsection \<open>Invariants of the protocol\<close>

lemma proto_path_cons [intro]:
  "proto_step p user pass name q rq q' \<Longrightarrow> req_path (proto_step p user pass name) q' rqs q'' \<Longrightarrow>
   req_path (proto_step p user pass name) q (rq # rqs) q''"
  by (rule req_path_cons)

lemma proto_step_mutating:
  "proto_step p user pass name q rq q' \<Longrightarrow> mutating rq \<longleftrightarrow> q' = A_Write"
  by (induction rule: proto_step.induct)
    (auto simp: mutating_def connect_request_def auth_request_def bearer_def)

lemma proto_step_token:
  "proto_step p user pass name q rq q' \<Longrightarrow> ptoken q = Some t \<Longrightarrow>
   req_auth rq = Some (''Bearer '' @ t) \<and> (q' = A_Write \<or> ptoken q' = Some t)"
  by (induction rule: proto_step.induct) (auto simp: bearer_def)

lemma proto_step_login_token:
  "proto_step p user pass name A_Login rq q' \<Longrightarrow> \<exists>t. q' = A_Endpoints t \<and> req_auth rq = Some (''Bearer '' @ t)"
  by (auto simp: bearer_def elim: proto_step_LoginE)

lemma path_from_Write: "req_path (proto_step p user pass name) A_Write rqs q \<Longrightarrow> rqs = [] \<and> q = A_Write"
  by (induction rqs) (auto simp: req_path_Cons_simp elim: proto_step_WriteE)

lemma path_writes:
  "req_path (proto_step p user pass name) q rqs q' \<Longrightarrow> q \<noteq> A_Write \<Longrightarrow>
   length (filter mutating rqs) = (if q' = A_Write then 1 else 0) \<and> (q' = A_Write \<longrightarrow> mutating (last rqs))"
proof (induction rule: req_path.induct)
  case (req_path_nil q)
  then show ?case by simp
next
  case (req_path_cons q rq q' rqs q'')
  show ?case
  proof (cases "q' = A_Write")
    case True
    with req_path_cons.hyps(2) have "rqs = [] \<and> q'' = A_Write" by (simp add: path_from_Write)
    with True req_path_cons.hyps(1) show ?thesis by (simp add: proto_step_mutating)
  next
    case False
    with req_path_cons.hyps(1) have "\<not> mutating rq" by (simp add: proto_step_mutating)
    with False req_path_cons.IH show ?thesis by (cases rqs) auto
  qed
qed

lemma path_token:
  "req_path (proto_step p user pass name) q rqs q' \<Longrightarrow> ptoken q = Some t \<Longrightarrow>
   \<forall>rq\<in>set rqs. req_auth rq = Some (''Bearer '' @ t)"
proof (induction rule: req_path.induct)
  case (req_path_nil q)
  then show ?case by simp
next
  case (req_path_cons q rq q' rqs q'')
  from proto_step_token [OF req_path_cons.hyps(1) req_path_cons.prems]
  have rq: "req_auth rq = Some (''Bearer '' @ t)" and q': "q' = A_Write \<or> ptoken q' = Some t" by auto
  from q' have "\<forall>rq\<in>set rqs. req_auth rq = Some (''Bearer '' @ t)"
  proof
    assume "q' = A_Write"
    with req_path_cons.hyps(2) have "rqs = []" using path_from_Write by blast
    then show ?thesis by simp
  next
    assume "ptoken q' = Some t"
    then show ?thesis by (rule req_path_cons.IH)
  qed
  with rq show ?case by simp
qed

subsection \<open>The request pattern and the phases\<close>

lemma walks_api_call:
  assumes "T q rq q'" and "\<And>e. E e q'"
  shows "walks T q (api_call S rq) (\<lambda>_. (=) q') E"
  unfolding api_call_def
  by (rule walks_bindE [where R = "\<lambda>_. (=) q'", OF walks_http_do [where T = T, OF assms(1)]])
    (auto simp: assms(2) split: prod.splits intro!: walks_if walks_throwE walks_returnE)

lemma walks_api_json:
  assumes "T q rq q'" and "\<And>e. E e q'"
  shows "walks T q (api_json S rq d) (\<lambda>_. (=) q') E"
  unfolding api_json_def
  by (rule walks_bindE_state [OF walks_api_call [where T = T and E = E, OF assms]]) (auto simp: assms(2) intro!: walks_liftE)

lemma walks_fail_on: "walks T q m Q E \<Longrightarrow> walks T q (fail_on m) Q E"
  unfolding fail_on_def
  by (erule walks_catch_err) (rule walks_printf_then, erule walks_throwE)+

lemma walks_phase: "walks T q m Q E \<Longrightarrow> walks T q (phase m) Q E"
  unfolding phase_def
  by (rule walks_bindE [where R = Q, OF walks_fail_on]) (auto intro!: walks_printf_then walks_returnE)

subsection \<open>The client's methods as protocol steps\<close>

lemma walks_connect:
  "walks (proto_step p user pass name) A_Start (connect S p) (\<lambda>_. (=) A_Connect) (\<lambda>_. (=) A_Connect)"
  unfolding connect_def
  by (rule walks_bindE [where R = "\<lambda>_. (=) A_Connect", OF walks_http_do [where T = "proto_step p user pass name", OF proto_step.connect]])
    (auto split: prod.splits intro!: walks_if walks_throwE walks_returnE)

lemma walks_auth:
  "walks (proto_step p user pass name) A_Connect (auth S p user pass)
     (\<lambda>p' q. q = A_Login \<and> (\<exists>t. p' = p\<lparr>p_auth := t\<rparr>)) (\<lambda>_. (=) A_Login)"
  unfolding auth_def
  by (rule walks_bindE_state [OF walks_api_json [where T = "proto_step p user pass name", OF proto_step.login]]) (auto intro!: walks_returnE)

lemma walks_get_endpoint_by_name:
  "walks (proto_step p user pass name) A_Login (get_endpoint_by_name S (p\<lparr>p_auth := t\<rparr>) n)
     (\<lambda>ep q. \<exists>e sid. ep = e\<lparr>endpoint_swarm_id := sid\<rparr> \<and> q = A_Swarm t e) (\<lambda>_ _. True)"
  unfolding get_endpoint_by_name_def
proof (rule walks_bindE_state [OF walks_api_json [where T = "proto_step p user pass name", OF proto_step.endpoints]])
  fix eps
  show "walks (proto_step p user pass name) (A_Endpoints t)
     (bindE (liftE (find_endpoint n eps)) (\<lambda>e. bindE (api_json S (swarm_request (p\<lparr>p_auth := t\<rparr>) e) dec_swarm_reply)
        (\<lambda>sid. returnE (e\<lparr>endpoint_swarm_id := sid\<rparr>))))
     (\<lambda>ep q. \<exists>e sid. ep = e\<lparr>endpoint_swarm_id := sid\<rparr> \<and> q = A_Swarm t e) (\<lambda>_ _. True)"
    by (rule walks_bindE [where R = "\<lambda>_. (=) (A_Endpoints t)"])
      (auto intro!: walks_liftE walks_bindE_state [OF walks_api_json [where T = "proto_step p user pass name", OF proto_step.swarm]] walks_returnE)
qed simp

lemma walks_search_stack:
  "walks (proto_step p user pass name) (A_Swarm t e) (search_stack S (p\<lparr>p_auth := t\<rparr>) n)
     (\<lambda>stk q. q = A_Stacks t e \<or> (q = A_Swarm t e \<and> stk = None)) (\<lambda>_ _. True)"
  unfolding search_stack_def get_stack_by_name_def
proof (rule walks_catch_err [where F = "\<lambda>_ q. q = A_Stacks t e \<or> q = A_Swarm t e"])
  show "walks (proto_step p user pass name) (A_Swarm t e)
     (bindE (if n = [] then throwE Err_Stack_Name_Undefined
             else bindE (api_json S (stacks_request (p\<lparr>p_auth := t\<rparr>)) dec_stacks) (\<lambda>ss. liftE (find_stack n ss)))
       (\<lambda>s. bindE (printf ok_msg) (\<lambda>_. returnE s)))
     (\<lambda>stk q. q = A_Stacks t e \<or> (q = A_Swarm t e \<and> stk = None)) (\<lambda>_ q. q = A_Stacks t e \<or> q = A_Swarm t e)"
    by (rule walks_bindE [where R = "\<lambda>_. (=) (A_Stacks t e)"])
      (auto intro!: walks_if walks_throwE walks_bindE_state [OF walks_api_json [where T = "proto_step p user pass name", OF proto_step.stacks]] walks_liftE
         walks_printf_then walks_returnE)
qed (auto intro!: walks_printf_then walks_returnE)

subsection \<open>The steps of \<^verbatim>\<open>Exec\<close> as protocol steps\<close>

lemma walks_update_branch:
  assumes "stack_endpoint_id s = endpoint_id e"
  shows "walks (proto_step p user pass name) (A_Stacks t e) (update_branch S (p\<lparr>p_auth := t\<rparr>) s sc env cfg)
    (\<lambda>_. (=) A_Write) (\<lambda>_ _. True)"
proof -
  note call = walks_api_call [where T = "proto_step p user pass name", OF proto_step.update [OF assms]]
  show ?thesis
    unfolding update_branch_def update_stack_from_string_def update_stack_from_file_def
    by (rule walks_printf_then, rule walks_bindE [where R = "\<lambda>_. (=) A_Write"], rule walks_fail_on)
      (rule walks_if walks_bindE_state [OF call] walks_read_file_then walks_returnE walks_printf_then walks_printf
        | simp)+
qed

lemma walks_deploy_branch:
  assumes "q = A_Swarm t e \<or> q = A_Stacks t e"
  shows "walks (proto_step p user pass (stk_name sc)) q
    (deploy_branch S (p\<lparr>p_auth := t\<rparr>) (e\<lparr>endpoint_swarm_id := sid\<rparr>) sc env cfg) (\<lambda>_. (=) A_Write) (\<lambda>_ _. True)"
proof -
  note call = walks_api_call [where T = "proto_step p user pass (stk_name sc)", OF proto_step.create [OF assms]]
  show ?thesis
    unfolding deploy_branch_def deploy_stack_from_string_def deploy_stack_from_file_def
    by (rule walks_printf_then, rule walks_bindE [where R = "\<lambda>_. (=) A_Write"])
      (rule walks_if walks_fail_on walks_bindE_state [OF call] walks_read_file_then walks_returnE walks_throwE
        walks_printf_then walks_printf | simp)+
qed

lemma walks_deploy_or_update:
  assumes "q = A_Stacks t e \<or> (q = A_Swarm t e \<and> stk = None)"
  shows "walks (proto_step p user pass (stk_name sc)) q
    (deploy_or_update S (p\<lparr>p_auth := t\<rparr>) (e\<lparr>endpoint_swarm_id := sid\<rparr>) stk sc env cfg) (\<lambda>_. (=) A_Write) (\<lambda>_ _. True)"
proof (cases stk)
  case None
  from assms have "q = A_Swarm t e \<or> q = A_Stacks t e" by blast
  with None show ?thesis by (simp add: deploy_or_update_def walks_deploy_branch)
next
  case (Some s)
  with assms have q: "q = A_Stacks t e" by simp
  show ?thesis
  proof (cases "stack_endpoint_id s = endpoint_id e")
    case True
    with Some q show ?thesis by (simp add: deploy_or_update_def walks_update_branch)
  next
    case False
    with Some q show ?thesis by (simp add: deploy_or_update_def walks_deploy_branch)
  qed
qed

lemma walks_parse_then_deploy:
  "q = A_Stacks t e \<or> q = A_Swarm t e \<and> stk = None \<Longrightarrow> walks (proto_step p user pass (stk_name sc)) q
      (bindE (liftE (parse_env (stk_environment sc))) (\<lambda>env.
        deploy_or_update S (p\<lparr>p_auth := t\<rparr>) (e\<lparr>endpoint_swarm_id := sid\<rparr>) stk sc env (join_config (stk_config sc))))
     (\<lambda>_. (=) A_Write) (\<lambda>_ _. True)"
  by (rule walks_bindE [where R = "\<lambda>_. (=) q", OF walks_liftE]) (simp_all add: walks_deploy_or_update)

lemma walks_select_and_deploy:
  "walks (proto_step p user pass (stk_name sc)) A_Login (select_and_deploy S (p\<lparr>p_auth := t\<rparr>) pc sc)
     (\<lambda>_. (=) A_Write) (\<lambda>_ _. True)"
  unfolding select_and_deploy_def
  by (rule walks_printf_then, rule walks_bindE [OF walks_phase [OF walks_get_endpoint_by_name]],
      elim exE conjE, simp, rule walks_printf_then, rule walks_bindE [OF walks_search_stack],
      erule walks_parse_then_deploy)

lemma walks_exec:
  assumes "new_portainer S (cfg_address (cfg_portainer (plugin_config pl))) (cfg_insecure (cfg_portainer (plugin_config pl))) = Inr p"
  shows "walks (proto_step p (cfg_username (cfg_portainer (plugin_config pl))) (cfg_password (cfg_portainer (plugin_config pl)))
      (stk_name (cfg_stack (plugin_config pl)))) A_Start (exec S pl) (\<lambda>_. (=) A_Write) (\<lambda>_ _. True)"
  unfolding exec_def Let_def assms bindE_liftE_Inr
  by (rule walks_printf_then,
      rule walks_bindE_state [OF walks_phase [OF walks_conseq [OF walks_connect]]], simp_all,
      rule walks_printf_then, rule walks_bindE [OF walks_phase [OF walks_conseq [OF walks_auth]]], simp_all,
      elim conjE exE, simp add: walks_select_and_deploy)

lemma path_first_step:
  "req_path T q rqs q' \<Longrightarrow> q \<noteq> q' \<Longrightarrow> \<exists>rq rest q1. rqs = rq # rest \<and> T q rq q1 \<and> req_path T q1 rest q'"
  by (induction rule: req_path.induct) auto

lemma path_from_Login_token:
  assumes "req_path (proto_step p user pass name) A_Login rqs q"
  shows "\<exists>t. \<forall>rq\<in>set rqs. req_auth rq = Some (''Bearer '' @ t)"
proof (cases rqs)
  case Nil
  then show ?thesis by simp
next
  case (Cons rq rest)
  with assms obtain q1 where step: "proto_step p user pass name A_Login rq q1"
    and rest: "req_path (proto_step p user pass name) q1 rest q" by (auto simp: req_path_Cons_simp)
  from proto_step_login_token [OF step] obtain t where "q1 = A_Endpoints t" "req_auth rq = Some (''Bearer '' @ t)"
    by blast
  with rest path_token [OF rest] Cons show ?thesis by auto
qed

lemma exec_new_portainer_Inl:
  assumes "new_portainer S (cfg_address (cfg_portainer (plugin_config pl))) (cfg_insecure (cfg_portainer (plugin_config pl))) = Inl e"
  shows "exec S pl w = (Inl e, w)"
  unfolding exec_def Let_def assms bindE_liftE_Inl by (simp add: throwE_def)

lemma exec_new_portainer:
  assumes "fst (exec S pl w) = Inr a"
  obtains p where "new_portainer S (cfg_address (cfg_portainer (plugin_config pl))) (cfg_insecure (cfg_portainer (plugin_config pl))) = Inr p"
proof (cases "new_portainer S (cfg_address (cfg_portainer (plugin_config pl))) (cfg_insecure (cfg_portainer (plugin_config pl)))")
  case (Inl e)
  with assms show ?thesis by (simp add: exec_new_portainer_Inl)
next
  case (Inr p)
  then show ?thesis by (rule that)
qed

text \<open>The protocol path of one run of \<open>exec\<close>, read off \<open>walks_exec\<close>.\<close>

lemma exec_run_path:
  assumes "new_portainer S (cfg_address (cfg_portainer (plugin_config pl))) (cfg_insecure (cfg_portainer (plugin_config pl))) = Inr p"
  obtains new q where "sent (snd (exec S pl w)) = sent w @ new" "req_path (exec_proto pl p) A_Start new q"
    "fst (exec S pl w) = Inr () \<longrightarrow> q = A_Write"
proof -
  obtain r w' where run: "exec S pl w = (r, w')" by (cases "exec S pl w")
  from walks_exec [OF assms] run obtain new q where "sent w' = sent w @ new"
    "req_path (exec_proto pl p) A_Start new q" "case r of Inl e \<Rightarrow> True | Inr a \<Rightarrow> A_Write = q"
    by (rule walksE)
  with run show ?thesis by (intro that [of new q]) (auto split: sum.splits)
qed

text \<open>After the connection check and the login, a path from the start carries one token.\<close>

lemma proto_path_token:
  assumes "req_path (proto_step p user pass name) A_Start rqs q"
  shows "\<exists>t. \<forall>rq\<in>set (drop 2 rqs). req_auth rq = Some (''Bearer '' @ t)"
proof (cases rqs rule: list.exhaust)
  case Nil
  then show ?thesis by simp
next
  case (Cons r1 rest1)
  show ?thesis
  proof (cases rest1)
    case Nil
    with Cons show ?thesis by simp
  next
    case (Cons r2 rest)
    from assms \<open>rqs = r1 # rest1\<close> Cons obtain q1 q2 where s1: "proto_step p user pass name A_Start r1 q1"
      and s2: "proto_step p user pass name q1 r2 q2" and rest: "req_path (proto_step p user pass name) q2 rest q"
      by (auto simp: req_path_Cons_simp)
    from s1 have "q1 = A_Connect" by (rule proto_step_StartE) simp
    with s2 have "q2 = A_Login" by (auto elim: proto_step_ConnectE)
    with rest have "\<exists>t. \<forall>rq\<in>set rest. req_auth rq = Some (''Bearer '' @ t)"
      using path_from_Login_token by blast
    with \<open>rqs = r1 # rest1\<close> Cons show ?thesis by simp
  qed
qed

text \<open>A path from the start that reaches the write begins with the four lookups.\<close>

lemma proto_path_write_order:
  assumes "req_path (proto_step p user pass name) A_Start rqs A_Write"
  shows "\<exists>t e rest. rqs = connect_request p # auth_request p user pass # endpoints_request (p\<lparr>p_auth := t\<rparr>)
            # swarm_request (p\<lparr>p_auth := t\<rparr>) e # rest \<and> rest \<noteq> []"
proof -
  let ?T = "proto_step p user pass name"
  from path_first_step [OF assms] obtain r1 rest1 q1 where
    1: "rqs = r1 # rest1" "?T A_Start r1 q1" "req_path ?T q1 rest1 A_Write" by auto
  from 1(2) have r1: "r1 = connect_request p" "q1 = A_Connect" by (auto elim: proto_step_StartE)
  from path_first_step [of ?T q1 rest1 A_Write] 1(3) r1(2) obtain r2 rest2 q2 where
    2: "rest1 = r2 # rest2" "?T A_Connect r2 q2" "req_path ?T q2 rest2 A_Write" by auto
  from 2(2) have r2: "r2 = auth_request p user pass" "q2 = A_Login" by (auto elim: proto_step_ConnectE)
  from path_first_step [of ?T q2 rest2 A_Write] 2(3) r2(2) obtain r3 rest3 q3 where
    3: "rest2 = r3 # rest3" "?T A_Login r3 q3" "req_path ?T q3 rest3 A_Write" by auto
  from 3(2) obtain t where r3: "r3 = endpoints_request (p\<lparr>p_auth := t\<rparr>)" "q3 = A_Endpoints t"
    by (auto elim: proto_step_LoginE)
  from path_first_step [of ?T q3 rest3 A_Write] 3(3) r3(2) obtain r4 rest4 q4 where
    4: "rest3 = r4 # rest4" "?T (A_Endpoints t) r4 q4" "req_path ?T q4 rest4 A_Write" by auto
  from 4(2) obtain e where r4: "r4 = swarm_request (p\<lparr>p_auth := t\<rparr>) e" "q4 = A_Swarm t e"
    by (cases rule: proto_step.cases) auto
  from 4(3) r4(2) have ne: "rest4 \<noteq> []" by (cases rule: req_path.cases) auto
  show ?thesis
    by (rule exI [of _ t], rule exI [of _ e], rule exI [of _ rest4])
      (simp add: 1(1) 2(1) 3(1) 4(1) r1(1) r2(1) r3(1) r4(1) ne)
qed

subsection \<open>Properties of the protocol\<close>

text \<open>
  C14.  Refinement: every run of \<^verbatim>\<open>Exec\<close>, against any server, sends a sequence
  of requests that is a path of the protocol automaton from its start, for the
  client built from the configured address and the configured credentials and
  stack name; when the run succeeds the path ends with the write.
\<close>

theorem exec_follows_protocol:
  assumes "new_portainer S (cfg_address (cfg_portainer (plugin_config pl))) (cfg_insecure (cfg_portainer (plugin_config pl))) = Inr p"
  shows "\<exists>new q. sent (snd (exec S pl w)) = sent w @ new \<and>
    req_path (proto_step p (cfg_username (cfg_portainer (plugin_config pl))) (cfg_password (cfg_portainer (plugin_config pl)))
      (stk_name (cfg_stack (plugin_config pl)))) A_Start new q \<and>
    (fst (exec S pl w) = Inr () \<longrightarrow> q = A_Write)"
  by (rule exec_run_path [OF assms, of w]) blast

text \<open>
  Invariant of the protocol: along every path from the start there is at
  most one write (an update or a creation); there is one exactly when the path
  has reached the written state, and then it is the last request.
\<close>

lemma proto_one_write:
  "req_path (proto_step p user pass name) A_Start rqs q \<Longrightarrow>
   length (filter mutating rqs) = (if q = A_Write then 1 else 0) \<and> (q = A_Write \<longrightarrow> mutating (last rqs))"
  by (erule path_writes) simp

text \<open>
  C15.  Every request a run of \<^verbatim>\<open>Exec\<close> sends after the connection check and the
  login carries one and the same bearer token, against any server and whether
  the run succeeds or fails.
\<close>

theorem exec_token:
  "\<exists>new t. sent (snd (exec S pl w)) = sent w @ new \<and> (\<forall>rq\<in>set (drop 2 new). req_auth rq = Some (''Bearer '' @ t))"
proof (cases "new_portainer S (cfg_address (cfg_portainer (plugin_config pl))) (cfg_insecure (cfg_portainer (plugin_config pl)))")
  case (Inl e)
  then show ?thesis by (simp add: exec_new_portainer_Inl)
next
  case (Inr p)
  then obtain new q where "sent (snd (exec S pl w)) = sent w @ new" "req_path (exec_proto pl p) A_Start new q"
    by (rule exec_run_path [where w = w])
  with proto_path_token show ?thesis by blast
qed

text \<open>
  C16.  Order of a successful run of \<^verbatim>\<open>Exec\<close>, with the token of the login:
  when the server accepts the connection check and answers the login with a
  reply whose \<^verbatim>\<open>jwt\<close> member decodes to \<open>t\<close>, a successful run sends the
  connection check, the login with the configured credentials, the endpoint list
  and the swarm inspection of one endpoint, both with the token \<open>t\<close>, and ends
  with the write, after at least one further request.
\<close>

theorem exec_write_order:
  assumes np: "new_portainer S (cfg_address (cfg_portainer (plugin_config pl))) (cfg_insecure (cfg_portainer (plugin_config pl))) = Inr p"
    and c: "server S (srv_state w) (connect_request p) = (Response st1 b1, s1)" "st1 < 400"
    and a: "server S s1 (auth_request p (cfg_username (cfg_portainer (plugin_config pl))) (cfg_password (cfg_portainer (plugin_config pl))))
              = (Response st2 (Body_Json j), s2)" "st2 \<le> 200" "dec_auth_reply j = Some t"
    and ok: "fst (exec S pl w) = Inr ()"
  shows "\<exists>e rest. sent (snd (exec S pl w)) = sent w @ connect_request p
      # auth_request p (cfg_username (cfg_portainer (plugin_config pl))) (cfg_password (cfg_portainer (plugin_config pl)))
      # endpoints_request (p\<lparr>p_auth := t\<rparr>) # swarm_request (p\<lparr>p_auth := t\<rparr>) e # rest \<and>
    rest \<noteq> [] \<and> mutating (last rest)"
proof -
  obtain new q where new: "sent (snd (exec S pl w)) = sent w @ new" and path: "req_path (exec_proto pl p) A_Start new q"
    and fin: "fst (exec S pl w) = Inr () \<longrightarrow> q = A_Write"
    by (rule exec_run_path [OF np, where w = w])
  from path fin ok have wpath: "req_path (exec_proto pl p) A_Start new A_Write" by simp
  from proto_path_write_order [OF wpath] obtain t' e rest where
    rqs: "new = connect_request p # auth_request p (cfg_username (cfg_portainer (plugin_config pl))) (cfg_password (cfg_portainer (plugin_config pl)))
      # endpoints_request (p\<lparr>p_auth := t'\<rparr>) # swarm_request (p\<lparr>p_auth := t'\<rparr>) e # rest" and ne: "rest \<noteq> []"
    by blast
  let ?w = "w\<lparr>srv_state := s2,
        sent := sent w @ [connect_request p, auth_request p (cfg_username (cfg_portainer (plugin_config pl))) (cfg_password (cfg_portainer (plugin_config pl)))],
        stdout := stdout w @ ''Connecting to portainer server...'' @ ok_msg @ ''Autentication...'' @ ok_msg\<rparr>"
  have "\<exists>rest'. sent (snd (select_and_deploy S (p\<lparr>p_auth := t\<rparr>) (cfg_portainer (plugin_config pl)) (cfg_stack (plugin_config pl)) ?w))
      = sent ?w @ rest' \<and> (\<forall>rq\<in>set rest'. req_auth rq = Some (''Bearer '' @ p_auth (p\<lparr>p_auth := t\<rparr>)))"
    using select_and_deploy_token unfolding sends_def by blast
  then obtain rest' where
    "sent (snd (exec S pl w)) = sent w @ connect_request p
      # auth_request p (cfg_username (cfg_portainer (plugin_config pl))) (cfg_password (cfg_portainer (plugin_config pl))) # rest'"
    and tok: "\<forall>rq\<in>set rest'. req_auth rq = Some (''Bearer '' @ t)"
    by (auto simp: exec_login [OF np c a])
  with new rqs have "req_auth (endpoints_request (p\<lparr>p_auth := t'\<rparr>)) = Some (''Bearer '' @ t)" by auto
  then have t': "t' = t" by (simp add: endpoints_request_def bearer_def)
  from path_writes [OF wpath] have "mutating (last new)" by simp
  with rqs ne have "mutating (last rest)" by simp
  with new rqs ne t' show ?thesis by blast
qed

text \<open>
  C17.  A successful run of \<^verbatim>\<open>Exec\<close> made exactly one write, and it was its last
  request.
\<close>

theorem exec_success_one_write:
  assumes "fst (exec S pl w) = Inr ()"
  shows "\<exists>new. sent (snd (exec S pl w)) = sent w @ new \<and> length (filter mutating new) = 1 \<and> mutating (last new)"
proof -
  obtain p where "new_portainer S (cfg_address (cfg_portainer (plugin_config pl))) (cfg_insecure (cfg_portainer (plugin_config pl))) = Inr p"
    using assms by (rule exec_new_portainer)
  then obtain new q where new: "sent (snd (exec S pl w)) = sent w @ new" and path: "req_path (exec_proto pl p) A_Start new q"
    and fin: "fst (exec S pl w) = Inr () \<longrightarrow> q = A_Write"
    by (rule exec_run_path [where w = w])
  from path_writes [OF path] fin assms new show ?thesis by auto
qed

end
