(* ===== verification/Portainer_Server.thy ===== *)
theory Portainer_Server
  imports Portainer_Client
begin

text \<open>
  The Portainer server the plugin talks to, as the specification describes its
  API (section 6, "Remote API surface consumed"): \<^verbatim>\<open>HEAD /\<close>, \<^verbatim>\<open>POST /api/auth\<close>,
  \<^verbatim>\<open>GET /api/endpoints\<close>, \<^verbatim>\<open>GET /api/endpoints/{id}/docker/swarm\<close>,
  \<^verbatim>\<open>GET /api/stacks\<close>, \<^verbatim>\<open>POST /api/stacks?type=1&method=string&endpointId={id}\<close>
  and \<^verbatim>\<open>PUT /api/stacks/{id}?endpointId={id}\<close>.  The server is not code of the
  repository: it is one instance of the parameter \<open>server\<close> of \<open>'s sys\<close>, an
  honest server against which whole runs of the plugin can be computed.
  Its state \<open>pserver\<close> holds the address it answers at, the one account, the
  token it issues, its endpoints (id, name, swarm id) and its stacks (id, name,
  endpoint, swarm id, definition, environment), and the next stack id.
  Each route is a definition with its guards first and its action last, and
  \<open>ps_handle\<close> dispatches on the method and the path.  A request outside the
  address, to an unknown route, or without the issued token is refused with
  404 or 401; a login with other credentials with 422; a creation of a name the
  endpoint already holds with 409.  The server reads request bodies member by
  member (\<open>map_of\<close>) and answers with the members the client decodes.
  The lemmas at the end give the server's answer to each request the client
  builds, and how its answers decode.
\<close>

subsection \<open>State\<close>

record sendpoint =
  se_id :: int
  se_name :: string
  se_swarm :: string

record sstack =
  ss_id :: int
  ss_name :: string
  ss_endpoint :: int
  ss_swarm :: string
  ss_content :: string
  ss_env :: json

record pserver =
  ps_base :: string
  ps_user :: string
  ps_pass :: string
  ps_token :: string
  ps_endpoints :: "sendpoint list"
  ps_stacks :: "sstack list"
  ps_next :: int

subsection \<open>Answers\<close>

definition ok_json :: "json \<Rightarrow> response" where
  "ok_json j = Response 200 (Body_Json j)"

definition refuse :: "int \<Rightarrow> response" where
  "refuse st = Response st (Body_Json JNull)"

definition enc_sendpoint :: "sendpoint \<Rightarrow> json" where
  "enc_sendpoint e = JObj [(''Id'', JNum (se_id e)), (''Name'', JStr (se_name e))]"

definition enc_sstack :: "sstack \<Rightarrow> json" where
  "enc_sstack s = JObj [(''Id'', JNum (ss_id s)), (''Name'', JStr (ss_name s)),
     (''EndpointID'', JNum (ss_endpoint s)), (''SwarmID'', JStr (ss_swarm s))]"

fun strip_prefix :: "string \<Rightarrow> string \<Rightarrow> string option" where
  "strip_prefix [] s = Some s"
| "strip_prefix (c # cs) [] = None"
| "strip_prefix (c # cs) (d # ds) = (if c = d then strip_prefix cs ds else None)"

definition json_str :: "json option \<Rightarrow> string option" where
  "json_str j = (case j of Some (JStr s) \<Rightarrow> Some s | _ \<Rightarrow> None)"

definition body_members :: "json option \<Rightarrow> (string \<times> json) list option" where
  "body_members b = (case b of Some (JObj ms) \<Rightarrow> Some ms | _ \<Rightarrow> None)"

subsection \<open>Routes\<close>

definition ps_login :: "pserver \<Rightarrow> json option \<Rightarrow> response \<times> pserver" where
  "ps_login ps b =
     (case body_members b of
        None \<Rightarrow> (refuse 400, ps)
      | Some ms \<Rightarrow>
          if json_str (map_of ms ''Username'') = Some (ps_user ps) \<and> json_str (map_of ms ''Password'') = Some (ps_pass ps)
          then (ok_json (JObj [(''jwt'', JStr (ps_token ps))]), ps)
          else (refuse 422, ps))"

definition ps_swarm :: "pserver \<Rightarrow> string \<Rightarrow> response \<times> pserver" where
  "ps_swarm ps rest =
     (case strings_cut (CHR ''/'') rest of
        Some (d, r) \<Rightarrow>
          (case (if r = ''docker/swarm'' then parse_int d else None) of
             Some i \<Rightarrow>
               (case List.find (\<lambda>e. se_id e = i) (ps_endpoints ps) of
                  Some e \<Rightarrow> (ok_json (JObj [(''ID'', JStr (se_swarm e))]), ps)
                | None \<Rightarrow> (refuse 404, ps))
           | None \<Rightarrow> (refuse 404, ps))
      | None \<Rightarrow> (refuse 404, ps))"

definition new_stack :: "pserver \<Rightarrow> int \<Rightarrow> string \<Rightarrow> string \<Rightarrow> string \<Rightarrow> json \<Rightarrow> sstack" where
  "new_stack ps eid n sw c env =
     \<lparr>ss_id = ps_next ps, ss_name = n, ss_endpoint = eid, ss_swarm = sw, ss_content = c, ss_env = env\<rparr>"

definition ps_create :: "pserver \<Rightarrow> string \<Rightarrow> json option \<Rightarrow> response \<times> pserver" where
  "ps_create ps q b =
     (case (parse_int q, body_members b) of
        (Some eid, Some ms) \<Rightarrow>
          (case (json_str (map_of ms ''Name''), json_str (map_of ms ''StackFileContent'')) of
             (Some n, Some c) \<Rightarrow>
               if \<not> (\<exists>e\<in>set (ps_endpoints ps). se_id e = eid) then (refuse 404, ps)
               else if \<exists>s\<in>set (ps_stacks ps). ss_name s = n \<and> ss_endpoint s = eid then (refuse 409, ps)
               else (ok_json JNull,
                     ps\<lparr>ps_stacks := ps_stacks ps @
                          [new_stack ps eid n (case json_str (map_of ms ''SwarmID'') of Some sw \<Rightarrow> sw | None \<Rightarrow> [])
                             c (case map_of ms ''Env'' of Some j \<Rightarrow> j | None \<Rightarrow> JNull)],
                        ps_next := ps_next ps + 1\<rparr>)
           | _ \<Rightarrow> (refuse 400, ps))
      | _ \<Rightarrow> (refuse 400, ps))"

definition set_stack :: "int \<Rightarrow> string \<Rightarrow> json \<Rightarrow> sstack \<Rightarrow> sstack" where
  "set_stack i c env s = (if ss_id s = i then s\<lparr>ss_content := c, ss_env := env\<rparr> else s)"

definition ps_update :: "pserver \<Rightarrow> string \<Rightarrow> json option \<Rightarrow> response \<times> pserver" where
  "ps_update ps rest b =
     (case strings_cut (CHR ''?'') rest of
        Some (d, q) \<Rightarrow>
          (case (parse_int d, Option.bind (strip_prefix ''endpointId='' q) parse_int, body_members b) of
             (Some i, Some eid, Some ms) \<Rightarrow>
               (case json_str (map_of ms ''StackFileContent'') of
                  Some c \<Rightarrow>
                    if \<exists>s\<in>set (ps_stacks ps). ss_id s = i \<and> ss_endpoint s = eid
                    then (ok_json JNull,
                          ps\<lparr>ps_stacks := map (set_stack i c (case map_of ms ''Env'' of Some j \<Rightarrow> j | None \<Rightarrow> JNull))
                                            (ps_stacks ps)\<rparr>)
                    else (refuse 404, ps)
                | None \<Rightarrow> (refuse 400, ps))
           | _ \<Rightarrow> (refuse 404, ps))
      | None \<Rightarrow> (refuse 404, ps))"

text \<open>The dispatcher: the address, then the two routes open without a token, then
  the token check, then the routes of the API.\<close>

definition ps_route :: "pserver \<Rightarrow> request \<Rightarrow> string \<Rightarrow> response \<times> pserver" where
  "ps_route ps rq path =
     (if req_method rq = HEAD \<and> path = ''/'' then (ok_json JNull, ps)
      else if req_method rq = POST \<and> path = ''/api/auth'' then ps_login ps (req_body rq)
      else if req_auth rq \<noteq> Some (''Bearer '' @ ps_token ps) then (refuse 401, ps)
      else if req_method rq = GET \<and> path = ''/api/endpoints'' then (ok_json (JArr (map enc_sendpoint (ps_endpoints ps))), ps)
      else if req_method rq = GET \<and> path = ''/api/stacks'' then (ok_json (JArr (map enc_sstack (ps_stacks ps))), ps)
      else if req_method rq = GET then
        (case strip_prefix ''/api/endpoints/'' path of Some r \<Rightarrow> ps_swarm ps r | None \<Rightarrow> (refuse 404, ps))
      else if req_method rq = POST then
        (case strip_prefix ''/api/stacks?type=1&method=string&endpointId='' path of
           Some q \<Rightarrow> ps_create ps q (req_body rq) | None \<Rightarrow> (refuse 404, ps))
      else if req_method rq = PUT then
        (case strip_prefix ''/api/stacks/'' path of Some r \<Rightarrow> ps_update ps r (req_body rq) | None \<Rightarrow> (refuse 404, ps))
      else (refuse 404, ps))"

definition ps_handle :: "pserver \<Rightarrow> request \<Rightarrow> response \<times> pserver" where
  "ps_handle ps rq =
     (case strip_prefix (ps_base ps) (req_url rq) of
        None \<Rightarrow> (refuse 404, ps)
      | Some path \<Rightarrow> ps_route ps rq path)"

subsection \<open>What the client reads from the server\<close>

text \<open>The endpoint and the stack the client decodes from the server's lists.\<close>

definition endpoint_view :: "sendpoint \<Rightarrow> endpoint" where
  "endpoint_view e = zero_endpoint\<lparr>endpoint_id := se_id e, endpoint_name := se_name e\<rparr>"

definition stack_view :: "sstack \<Rightarrow> stack" where
  "stack_view s = zero_stack\<lparr>stack_id := ss_id s, stack_name := ss_name s,
     stack_endpoint_id := ss_endpoint s, stack_swarm_id := ss_swarm s\<rparr>"

text \<open>Well-formed state: the ids the client decodes are Go \<^verbatim>\<open>int\<close>s, ids are
  unique and below the next id, and an endpoint holds at most one stack of a name.\<close>

definition ps_wf :: "pserver \<Rightarrow> bool" where
  "ps_wf ps \<longleftrightarrow> (\<forall>e\<in>set (ps_endpoints ps). in_go_int (se_id e)) \<and> distinct (map se_id (ps_endpoints ps)) \<and>
     (\<forall>s\<in>set (ps_stacks ps). in_go_int (ss_id s) \<and> in_go_int (ss_endpoint s) \<and> ss_id s < ps_next ps) \<and>
     distinct (map ss_id (ps_stacks ps)) \<and> distinct (map (\<lambda>s. (ss_name s, ss_endpoint s)) (ps_stacks ps)) \<and>
     in_go_int (ps_next ps)"

subsection \<open>Facts\<close>

lemma strip_prefix_append [simp]: "strip_prefix a (a @ b) = Some b"
  by (induction a) auto

lemma strip_prefix_Some: "strip_prefix a s = Some b \<longleftrightarrow> s = a @ b"
  by (induction a s rule: strip_prefix.induct) auto

lemma dec_endpoints_server:
  "\<forall>e\<in>set es. in_go_int (se_id e) \<Longrightarrow>
   dec_endpoints (JArr (map enc_sendpoint es)) = Some (map (\<lambda>e. Some (endpoint_view e)) es)"
  unfolding dec_endpoints_def dec_slice.simps
  by (rule dec_elems_fresh)
     (simp add: enc_sendpoint_def dec_endpoint_def endpoint_fields_def find_field_def field_def endpoint_view_def)

lemma dec_stacks_server:
  "\<forall>s\<in>set ss. in_go_int (ss_id s) \<and> in_go_int (ss_endpoint s) \<Longrightarrow>
   dec_stacks (JArr (map enc_sstack ss)) = Some (map (\<lambda>s. Some (stack_view s)) ss)"
  unfolding dec_stacks_def dec_slice.simps
  by (rule dec_elems_fresh)
     (simp add: enc_sstack_def dec_stack_def stack_fields_def find_field_def field_def stack_view_def)

text \<open>The server's answer to each request of the client \<open>p\<close> at its address.\<close>

lemmas ps_route_defs = ps_handle_def ps_route_def mk_request_def bearer_def ok_json_def refuse_def

lemma ps_answer_connect:
  "p_address p = ps_base ps \<Longrightarrow> ps_handle ps (connect_request p) = (ok_json JNull, ps)"
  by (simp add: ps_route_defs connect_request_def)

lemma ps_answer_auth:
  "p_address p = ps_base ps \<Longrightarrow>
   ps_handle ps (auth_request p user pass) =
     (if user = ps_user ps \<and> pass = ps_pass ps then ok_json (JObj [(''jwt'', JStr (ps_token ps))]) else refuse 422, ps)"
  by (simp add: ps_route_defs auth_request_def enc_auth_args_def ps_login_def body_members_def json_str_def)

lemma ps_answer_endpoints:
  "p_address p = ps_base ps \<Longrightarrow> p_auth p = ps_token ps \<Longrightarrow>
   ps_handle ps (endpoints_request p) = (ok_json (JArr (map enc_sendpoint (ps_endpoints ps))), ps)"
  by (simp add: ps_route_defs endpoints_request_def)

lemma ps_answer_stacks:
  "p_address p = ps_base ps \<Longrightarrow> p_auth p = ps_token ps \<Longrightarrow>
   ps_handle ps (stacks_request p) = (ok_json (JArr (map enc_sstack (ps_stacks ps))), ps)"
  by (simp add: ps_route_defs stacks_request_def)

text \<open>Without the issued token the listings are refused with 401.\<close>

lemma ps_answer_endpoints_unauth:
  "p_address p = ps_base ps \<Longrightarrow> p_auth p \<noteq> ps_token ps \<Longrightarrow>
   ps_handle ps (endpoints_request p) = (refuse 401, ps)"
  by (simp add: ps_handle_def ps_route_def mk_request_def bearer_def endpoints_request_def)

lemma ps_answer_stacks_unauth:
  "p_address p = ps_base ps \<Longrightarrow> p_auth p \<noteq> ps_token ps \<Longrightarrow>
   ps_handle ps (stacks_request p) = (refuse 401, ps)"
  by (simp add: ps_handle_def ps_route_def mk_request_def bearer_def stacks_request_def)

lemma ps_answer_swarm:
  assumes "p_address p = ps_base ps" "p_auth p = ps_token ps"
    and "List.find (\<lambda>x. se_id x = endpoint_id e) (ps_endpoints ps) = Some x"
  shows "ps_handle ps (swarm_request p e) = (ok_json (JObj [(''ID'', JStr (se_swarm x))]), ps)"
proof -
  have "strings_cut (CHR ''/'') (go_itoa (endpoint_id e) @ ''/docker/swarm'') = Some (go_itoa (endpoint_id e), ''docker/swarm'')"
    by (simp add: strings_cut_Some)
  with assms show ?thesis
    by (simp add: ps_route_defs swarm_request_def ps_swarm_def parse_int_go_itoa)
qed

lemma ps_answer_create:
  assumes "p_address p = ps_base ps" "p_auth p = ps_token ps"
    and "\<exists>x\<in>set (ps_endpoints ps). se_id x = endpoint_id e"
  shows "ps_handle ps (string_deploy_request p e n c env) =
    (if \<exists>s\<in>set (ps_stacks ps). ss_name s = n \<and> ss_endpoint s = endpoint_id e then (refuse 409, ps)
     else (ok_json JNull,
           ps\<lparr>ps_stacks := ps_stacks ps @ [new_stack ps (endpoint_id e) n (endpoint_swarm_id e) c (enc_slice enc_env env)],
              ps_next := ps_next ps + 1\<rparr>))"
  using assms
  by (simp add: ps_route_defs string_deploy_request_def ps_create_def enc_string_args_def body_members_def
      json_str_def parse_int_go_itoa)

lemma ps_answer_update:
  assumes "p_address p = ps_base ps" "p_auth p = ps_token ps"
    and "\<exists>x\<in>set (ps_stacks ps). ss_id x = stack_id s \<and> ss_endpoint x = stack_endpoint_id s"
  shows "ps_handle ps (update_request p s c prune env) =
    (ok_json JNull, ps\<lparr>ps_stacks := map (set_stack (stack_id s) c (enc_slice enc_env env)) (ps_stacks ps)\<rparr>)"
proof -
  have "strings_cut (CHR ''?'') (go_itoa (stack_id s) @ ''?endpointId='' @ go_itoa (stack_endpoint_id s))
      = Some (go_itoa (stack_id s), ''endpointId='' @ go_itoa (stack_endpoint_id s))"
    by (simp add: strings_cut_Some)
  with assms show ?thesis
    by (simp add: ps_route_defs update_request_def ps_update_def enc_update_args_def body_members_def
        json_str_def parse_int_go_itoa)
qed

end
