(* ===== verification/Server_Runs.thy ===== *)
theory Server_Runs
  imports Plugin_Exec Portainer_Server
begin

text \<open>
  Runs of the plugin against the server of \<open>Portainer_Server\<close>.  The relation
  \<open>srv_runs m s r s'\<close> is a big-step semantics projected to the server: every run
  of the operation \<open>m\<close> started with the server in state \<open>s\<close> returns \<open>r\<close> and
  leaves the server in state \<open>s'\<close>, whatever was logged or printed before.  Its
  rules follow the combinators, so that the outcome of \<open>exec\<close> is derived from the
  outcome of each method against the server (\<open>srv_runs_exec\<close>).  The outcome is
  the closed form \<open>deploy_outcome\<close>: the decision of \<^verbatim>\<open>Exec\<close> read off the
  server's own lists.  The refusals of the server (401 without the token, 422 on
  other credentials) and the missing endpoint give the error paths of the same
  methods (\<open>srv_runs_api_json_refused\<close>, \<open>srv_runs_auth_refused\<close>,
  \<open>srv_runs_get_endpoint_by_name_missing\<close>).
\<close>

definition srv_runs :: "('s, 'a) op \<Rightarrow> 's \<Rightarrow> go_error + 'a \<Rightarrow> 's \<Rightarrow> bool" where
  "srv_runs m s r s' \<longleftrightarrow> (\<forall>w. srv_state w = s \<longrightarrow> fst (m w) = r \<and> srv_state (snd (m w)) = s')"

text \<open>What a deployment does to the server, by the decision of \<^verbatim>\<open>Exec\<close>: the first
  stack listed under the name \<open>n\<close> is updated in place when it lies on the endpoint
  \<open>eid\<close>; otherwise a stack is created there, which the server refuses (409) when
  the endpoint already holds one of that name.\<close>

definition create_outcome ::
  "pserver \<Rightarrow> int \<Rightarrow> string \<Rightarrow> string \<Rightarrow> string \<Rightarrow> json \<Rightarrow> (go_error + unit) \<times> pserver" where
  "create_outcome ps eid sw n c envj =
     (if \<exists>s\<in>set (ps_stacks ps). ss_name s = n \<and> ss_endpoint s = eid
      then (Inl (Err_Api POST (ps_base ps @ ''/api/stacks?type=1&method=string&endpointId='' @ go_itoa eid) 409), ps)
      else (Inr (), ps\<lparr>ps_stacks := ps_stacks ps @ [new_stack ps eid n sw c envj], ps_next := ps_next ps + 1\<rparr>))"

definition deploy_outcome ::
  "pserver \<Rightarrow> int \<Rightarrow> string \<Rightarrow> string \<Rightarrow> string \<Rightarrow> json \<Rightarrow> (go_error + unit) \<times> pserver" where
  "deploy_outcome ps eid sw n c envj =
     (case List.find (\<lambda>s. ss_name s = n) (ps_stacks ps) of
        Some s \<Rightarrow>
          if ss_endpoint s = eid then (Inr (), ps\<lparr>ps_stacks := map (set_stack (ss_id s) c envj) (ps_stacks ps)\<rparr>)
          else create_outcome ps eid sw n c envj
      | None \<Rightarrow> create_outcome ps eid sw n c envj)"

text \<open>The specification's contract for one run (section 1: "determine whether the
  named stack already exists on that endpoint, and then either create it or update
  it in place"): afterwards the endpoint \<open>eid\<close> holds exactly one stack named
  \<open>n\<close>, with the definition \<open>c\<close> and the environment \<open>envj\<close>, and nothing else
  on the server has changed.\<close>

definition deployed :: "pserver \<Rightarrow> pserver \<Rightarrow> int \<Rightarrow> string \<Rightarrow> string \<Rightarrow> json \<Rightarrow> bool" where
  "deployed ps ps' eid n c envj \<longleftrightarrow>
     map (\<lambda>s. (ss_content s, ss_env s)) (filter (\<lambda>s. ss_name s = n \<and> ss_endpoint s = eid) (ps_stacks ps')) = [(c, envj)] \<and>
     filter (\<lambda>s. \<not> (ss_name s = n \<and> ss_endpoint s = eid)) (ps_stacks ps') =
       filter (\<lambda>s. \<not> (ss_name s = n \<and> ss_endpoint s = eid)) (ps_stacks ps) \<and>
     ps_endpoints ps' = ps_endpoints ps"

text \<open>The plugin \<open>pl\<close> run with the system \<open>S\<close> talks to the server \<open>ps\<close>: the
  system's server is \<open>ps_handle\<close>, the configured address resolves to the server's,
  the configured credentials are the server's account, and the state is well formed.\<close>

definition serves :: "pserver sys \<Rightarrow> plugin \<Rightarrow> pserver \<Rightarrow> bool" where
  "serves S pl ps \<longleftrightarrow> server S = ps_handle \<and>
     (case new_portainer S (cfg_address (cfg_portainer (plugin_config pl))) (cfg_insecure (cfg_portainer (plugin_config pl))) of
        Inr p \<Rightarrow> p_address p = ps_base ps | Inl _ \<Rightarrow> False) \<and>
     cfg_username (cfg_portainer (plugin_config pl)) = ps_user ps \<and>
     cfg_password (cfg_portainer (plugin_config pl)) = ps_pass ps \<and> ps_wf ps"

text \<open>Repeated runs of the same pipeline step: \<open>redeploys S pl ps ps'\<close> when
  the server reaches \<open>ps'\<close> from \<open>ps\<close> by zero or more runs of \<^verbatim>\<open>Exec\<close> with the
  plugin \<open>pl\<close>, each started from whatever world the server is in.\<close>

inductive redeploys :: "pserver sys \<Rightarrow> plugin \<Rightarrow> pserver \<Rightarrow> pserver \<Rightarrow> bool" for S pl ps0 where
  redeploys_refl: "redeploys S pl ps0 ps0"
| redeploys_step: "redeploys S pl ps0 ps1 \<Longrightarrow> srv_state w = ps1 \<Longrightarrow> redeploys S pl ps0 (srv_state (snd (exec S pl w)))"

subsection \<open>Rules\<close>

lemma srv_runsI: "(\<And>w. srv_state w = s \<Longrightarrow> fst (m w) = r \<and> srv_state (snd (m w)) = s') \<Longrightarrow> srv_runs m s r s'"
  by (simp add: srv_runs_def)

lemma srv_runsD: "srv_runs m s r s' \<Longrightarrow> srv_state w = s \<Longrightarrow> fst (m w) = r \<and> srv_state (snd (m w)) = s'"
  by (simp add: srv_runs_def)

lemma srv_runs_returnE [intro!]: "srv_runs (returnE a) s (Inr a) s"
  by (simp add: srv_runs_def)

lemma srv_runs_throwE [intro!]: "srv_runs (throwE e) s (Inl e) s"
  by (simp add: srv_runs_def)

lemma srv_runs_liftE [intro!]: "srv_runs (liftE r) s r s"
  by (simp add: srv_runs_def)

lemma srv_runs_printf [intro!]: "srv_runs (printf t) s (Inr ()) s"
  by (simp add: srv_runs_def)

lemma srv_runs_bindE_Inr:
  assumes "srv_runs (m :: ('s, 'a) op) s (Inr a) s1" and "srv_runs (f a) s1 r s2"
  shows "srv_runs (bindE m f) s r s2"
proof (rule srv_runsI)
  fix w :: "'s world" assume w: "srv_state w = s"
  obtain w1 where m: "m w = (Inr a, w1)" and s1: "srv_state w1 = s1"
    using srv_runsD [OF assms(1) w] by (cases "m w") auto
  from m srv_runsD [OF assms(2) s1] show "fst (bindE m f w) = r \<and> srv_state (snd (bindE m f w)) = s2"
    by (simp add: bindE_def)
qed

lemma srv_runs_bindE_Inl:
  assumes "srv_runs (m :: ('s, 'a) op) s (Inl e) s1"
  shows "srv_runs (bindE m f) s (Inl e) s1"
proof (rule srv_runsI)
  fix w :: "'s world" assume w: "srv_state w = s"
  then show "fst (bindE m f w) = Inl e \<and> srv_state (snd (bindE m f w)) = s1"
    using srv_runsD [OF assms w] by (cases "m w") (simp add: bindE_def)
qed

lemma srv_runs_handleE_Inr:
  assumes "srv_runs (m :: ('s, 'a) op) s (Inr a) s1"
  shows "srv_runs (handleE m h) s (Inr a) s1"
proof (rule srv_runsI)
  fix w :: "'s world" assume w: "srv_state w = s"
  then show "fst (handleE m h w) = Inr a \<and> srv_state (snd (handleE m h w)) = s1"
    using srv_runsD [OF assms w] by (cases "m w") (simp add: handleE_def)
qed

lemma srv_runs_handleE_Inl:
  assumes "srv_runs (m :: ('s, 'a) op) s (Inl e) s1" and "srv_runs (h e) s1 r s2"
  shows "srv_runs (handleE m h) s r s2"
proof (rule srv_runsI)
  fix w :: "'s world" assume w: "srv_state w = s"
  obtain w1 where m: "m w = (Inl e, w1)" and s1: "srv_state w1 = s1"
    using srv_runsD [OF assms(1) w] by (cases "m w") auto
  from m srv_runsD [OF assms(2) s1] show "fst (handleE m h w) = r \<and> srv_state (snd (handleE m h w)) = s2"
    by (simp add: handleE_def)
qed

lemma srv_runs_fail_on:
  assumes m: "srv_runs m s r s'"
  shows "srv_runs (fail_on m) s r s'"
proof (cases r)
  case (Inl e)
  have "srv_runs (if is_panic e then throwE e else bindE (printf fail_msg) (\<lambda>_. throwE e)) s' (Inl e) s'"
    by (cases "is_panic e") (auto intro: srv_runs_bindE_Inr [OF srv_runs_printf])
  with m Inl show ?thesis unfolding fail_on_def catch_err_def by (blast intro: srv_runs_handleE_Inl)
next
  case (Inr a)
  with m show ?thesis unfolding fail_on_def catch_err_def by (blast intro: srv_runs_handleE_Inr)
qed

lemma srv_runs_phase: "srv_runs m s r s' \<Longrightarrow> srv_runs (phase m) s r s'"
  unfolding phase_def
  by (cases r) (auto intro: srv_runs_bindE_Inl srv_runs_bindE_Inr srv_runs_fail_on)

lemma srv_runs_api_json:
  "server S s rq = (Response st (Body_Json j), s') \<Longrightarrow> st \<le> 200 \<Longrightarrow> d j = Some x \<Longrightarrow>
   srv_runs (api_json S rq d) s (Inr x) s'"
  by (simp add: srv_runs_def api_json_ok)

lemma srv_runs_api_call:
  "server S s rq = (Response st b, s') \<Longrightarrow>
   srv_runs (api_call S rq) s (if 200 < st then Inl (Err_Api (req_method rq) (req_url rq) st) else Inr b) s'"
  by (simp add: srv_runs_def api_call_ok api_call_status)

lemma srv_runs_api_json_then:
  "server S s rq = (ok_json j, s1) \<Longrightarrow> d j = Some x \<Longrightarrow> srv_runs (f x) s1 r s2 \<Longrightarrow>
   srv_runs (bindE (api_json S rq d) f) s r s2"
  unfolding ok_json_def by (rule srv_runs_bindE_Inr [OF srv_runs_api_json [where st = 200]]) simp_all

lemma srv_runs_liftE_then: "srv_runs (f a) s r s' \<Longrightarrow> srv_runs (bindE (liftE (Inr a)) f) s r s'"
  by simp

lemma srv_runs_call_then:
  assumes "server S s rq = (Response st b, s1)" and "st \<le> 200 \<Longrightarrow> srv_runs (f b) s1 r s2"
  shows "srv_runs (bindE (api_call S rq) f) s
     (if 200 < st then Inl (Err_Api (req_method rq) (req_url rq) st) else r) (if 200 < st then s1 else s2)"
proof (cases "200 < st")
  case True
  then show ?thesis using srv_runs_api_call [OF assms(1)] by (simp add: srv_runs_bindE_Inl)
next
  case False
  then show ?thesis using srv_runs_api_call [OF assms(1)] assms(2) by (simp add: srv_runs_bindE_Inr)
qed

lemma srv_runs_api_json_refused:
  "server S s rq = (refuse st, s') \<Longrightarrow> 200 < st \<Longrightarrow> e = Err_Api (req_method rq) (req_url rq) st \<Longrightarrow>
   srv_runs (api_json S rq d) s (Inl e) s'"
  by (simp add: srv_runs_def api_json_result refuse_def)

subsection \<open>The lists the client reads\<close>

lemma find_endpoint_views:
  "find_endpoint n (map (\<lambda>e. Some (endpoint_view e)) es) =
     (case List.find (\<lambda>e. se_name e = n) es of Some x \<Rightarrow> Inr (endpoint_view x) | None \<Rightarrow> Inl (Err_Endpoint_Not_Found n))"
  by (induction es) (auto simp: endpoint_view_def)

lemma find_stack_views:
  "find_stack n (map (\<lambda>s. Some (stack_view s)) ss) = Inr (map_option stack_view (List.find (\<lambda>s. ss_name s = n) ss))"
  by (induction ss) (auto simp: stack_view_def)

lemma find_distinct_key: "distinct (map f xs) \<Longrightarrow> x \<in> set xs \<Longrightarrow> List.find (\<lambda>y. f y = f x) xs = Some x"
  by (induction xs) auto

subsection \<open>The methods against the server\<close>

lemma srv_runs_connect:
  "server S = ps_handle \<Longrightarrow> p_address p = ps_base ps \<Longrightarrow> srv_runs (connect S p) ps (Inr ()) ps"
  by (simp add: srv_runs_def connect_def bindE_def http_do_def ps_answer_connect ok_json_def)

lemma srv_runs_auth:
  assumes "server S = ps_handle" "p_address p = ps_base ps"
  shows "srv_runs (auth S p (ps_user ps) (ps_pass ps)) ps (Inr (p\<lparr>p_auth := ps_token ps\<rparr>)) ps"
proof -
  have d: "dec_auth_reply (JObj [(''jwt'', JStr (ps_token ps))]) = Some (ps_token ps)"
    by (simp add: dec_auth_reply_def jwt_fields_def find_field_def field_def)
  show ?thesis
    unfolding auth_def
    by (rule srv_runs_api_json_then [where x = "ps_token ps"] srv_runs_returnE | simp add: assms d ps_answer_auth)+
qed

lemma srv_runs_auth_refused:
  assumes srv: "server S = ps_handle" and p: "p_address p = ps_base ps"
    and bad: "\<not> (user = ps_user ps \<and> pass = ps_pass ps)"
  shows "srv_runs (auth S p user pass) ps (Inl (Err_Api POST (ps_base ps @ ''/api/auth'') 422)) ps"
  unfolding auth_def
  by (rule srv_runs_bindE_Inl, rule srv_runs_api_json_refused [where st = 422])
     (simp_all add: srv ps_answer_auth [OF p] bad, simp add: auth_request_def p)

lemma srv_runs_get_endpoint_by_name:
  assumes srv: "server S = ps_handle" and p: "p_address p = ps_base ps" "p_auth p = ps_token ps"
    and wf: "ps_wf ps" and x: "List.find (\<lambda>e. se_name e = n) (ps_endpoints ps) = Some x"
  shows "srv_runs (get_endpoint_by_name S p n) ps (Inr ((endpoint_view x)\<lparr>endpoint_swarm_id := se_swarm x\<rparr>)) ps"
proof -
  have xin: "x \<in> set (ps_endpoints ps)" using find_Some_set [OF x] by simp
  have dec: "dec_endpoints (JArr (map enc_sendpoint (ps_endpoints ps))) = Some (map (\<lambda>e. Some (endpoint_view e)) (ps_endpoints ps))"
    using wf by (simp add: ps_wf_def dec_endpoints_server)
  have sw: "List.find (\<lambda>y. se_id y = endpoint_id (endpoint_view x)) (ps_endpoints ps) = Some x"
    using find_distinct_key [of se_id "ps_endpoints ps" x] wf xin by (simp add: ps_wf_def endpoint_view_def)
  have fe: "find_endpoint n (map (\<lambda>e. Some (endpoint_view e)) (ps_endpoints ps)) = Inr (endpoint_view x)"
    by (simp add: find_endpoint_views x)
  have ds: "dec_swarm_reply (JObj [(''ID'', JStr (se_swarm x))]) = Some (se_swarm x)"
    by (simp add: dec_swarm_reply_def swarm_fields_def find_field_def field_def)
  show ?thesis
    unfolding get_endpoint_by_name_def
    by (rule srv_runs_api_json_then [where x = "map (\<lambda>e. Some (endpoint_view e)) (ps_endpoints ps)"]
        srv_runs_api_json_then [where x = "se_swarm x"] srv_runs_returnE
        | simp add: srv p dec fe ds ps_answer_endpoints ps_answer_swarm [OF p sw])+
qed

lemma srv_runs_get_endpoint_by_name_missing:
  assumes srv: "server S = ps_handle" and p: "p_address p = ps_base ps" "p_auth p = ps_token ps"
    and wf: "ps_wf ps" and x: "List.find (\<lambda>e. se_name e = n) (ps_endpoints ps) = None"
  shows "srv_runs (get_endpoint_by_name S p n) ps (Inl (Err_Endpoint_Not_Found n)) ps"
proof -
  have dec: "dec_endpoints (JArr (map enc_sendpoint (ps_endpoints ps))) = Some (map (\<lambda>e. Some (endpoint_view e)) (ps_endpoints ps))"
    using wf by (simp add: ps_wf_def dec_endpoints_server)
  have fe: "find_endpoint n (map (\<lambda>e. Some (endpoint_view e)) (ps_endpoints ps)) = Inl (Err_Endpoint_Not_Found n)"
    unfolding find_endpoint_views x option.case ..
  show ?thesis
    unfolding get_endpoint_by_name_def
    by (rule srv_runs_api_json_then [where x = "map (\<lambda>e. Some (endpoint_view e)) (ps_endpoints ps)"]
        srv_runs_throwE | simp add: srv p dec fe ps_answer_endpoints)+
qed

lemma srv_runs_search_stack:
  assumes srv: "server S = ps_handle" and p: "p_address p = ps_base ps" "p_auth p = ps_token ps"
    and wf: "ps_wf ps" and n: "n \<noteq> []"
  shows "srv_runs (search_stack S p n) ps (Inr (map_option stack_view (List.find (\<lambda>s. ss_name s = n) (ps_stacks ps)))) ps"
proof -
  have dec: "dec_stacks (JArr (map enc_sstack (ps_stacks ps))) = Some (map (\<lambda>s. Some (stack_view s)) (ps_stacks ps))"
    using wf by (simp add: ps_wf_def dec_stacks_server)
  have fs: "find_stack n (map (\<lambda>s. Some (stack_view s)) (ps_stacks ps)) =
      Inr (map_option stack_view (List.find (\<lambda>s. ss_name s = n) (ps_stacks ps)))"
    by (rule find_stack_views)
  have l: "srv_runs (bindE (api_json S (stacks_request p) dec_stacks) (\<lambda>ss. liftE (find_stack n ss))) ps
      (Inr (map_option stack_view (List.find (\<lambda>s. ss_name s = n) (ps_stacks ps)))) ps"
    by (rule srv_runs_api_json_then [where x = "map (\<lambda>s. Some (stack_view s)) (ps_stacks ps)"] srv_runs_liftE
        | simp add: srv p dec fs ps_answer_stacks)+
  show ?thesis
    unfolding search_stack_def catch_err_def get_stack_by_name_def if_not_P [OF n]
    by (rule srv_runs_handleE_Inr srv_runs_bindE_Inr [OF l] srv_runs_bindE_Inr [OF srv_runs_printf] srv_runs_returnE)+
qed

lemma srv_runs_update_stack:
  assumes srv: "server S = ps_handle" and p: "p_address p = ps_base ps" "p_auth p = ps_token ps"
    and s: "\<exists>y\<in>set (ps_stacks ps). ss_id y = stack_id s \<and> ss_endpoint y = stack_endpoint_id s"
  shows "srv_runs (update_stack_from_string S p s c prune env) ps (Inr ())
    (ps\<lparr>ps_stacks := map (set_stack (stack_id s) c (enc_slice enc_env env)) (ps_stacks ps)\<rparr>)"
proof -
  have "server S ps (update_request p s c prune env) =
      (Response 200 (Body_Json JNull), ps\<lparr>ps_stacks := map (set_stack (stack_id s) c (enc_slice enc_env env)) (ps_stacks ps)\<rparr>)"
    by (simp add: srv ps_answer_update [OF p s] ok_json_def)
  from srv_runs_call_then [where f = "\<lambda>_. returnE ()", OF this srv_runs_returnE] show ?thesis
    by (simp add: update_stack_from_string_def)
qed

lemma srv_runs_deploy_stack:
  assumes srv: "server S = ps_handle" and p: "p_address p = ps_base ps" "p_auth p = ps_token ps"
    and e: "\<exists>y\<in>set (ps_endpoints ps). se_id y = endpoint_id e"
  shows "srv_runs (deploy_stack_from_string S p e n c env) ps
    (fst (create_outcome ps (endpoint_id e) (endpoint_swarm_id e) n c (enc_slice enc_env env)))
    (snd (create_outcome ps (endpoint_id e) (endpoint_swarm_id e) n c (enc_slice enc_env env)))"
proof (cases "\<exists>s\<in>set (ps_stacks ps). ss_name s = n \<and> ss_endpoint s = endpoint_id e")
  case True
  then have "server S ps (string_deploy_request p e n c env) = (Response 409 (Body_Json JNull), ps)"
    by (simp add: srv ps_answer_create [OF p e] refuse_def)
  from srv_runs_call_then [where f = "\<lambda>_. returnE ()", OF this srv_runs_returnE] p show ?thesis
    unfolding create_outcome_def if_P [OF True] by (simp add: deploy_stack_from_string_def string_deploy_request_def)
next
  case False
  then have "server S ps (string_deploy_request p e n c env) = (Response 200 (Body_Json JNull),
      ps\<lparr>ps_stacks := ps_stacks ps @ [new_stack ps (endpoint_id e) n (endpoint_swarm_id e) c (enc_slice enc_env env)],
         ps_next := ps_next ps + 1\<rparr>)"
    by (simp only: srv ps_answer_create [OF p e] if_not_P [OF False]) (simp add: ok_json_def)
  from srv_runs_call_then [where f = "\<lambda>_. returnE ()", OF this srv_runs_returnE] show ?thesis
    unfolding create_outcome_def if_not_P [OF False] by (simp add: deploy_stack_from_string_def)
qed

subsection \<open>The steps of \<^verbatim>\<open>Exec\<close> against the server\<close>

lemma srv_runs_print_tail:
  "srv_runs m s r s' \<Longrightarrow> srv_runs (bindE m (\<lambda>_. bindE (printf a) (\<lambda>_. printf b))) s r s'"
  by (cases r) (auto intro: srv_runs_bindE_Inl srv_runs_bindE_Inr)

lemma srv_runs_update_branch:
  "cfg \<noteq> [] \<Longrightarrow> srv_runs (update_stack_from_string S p s cfg True env) ps r ps' \<Longrightarrow>
   srv_runs (update_branch S p s sc env cfg) ps r ps'"
  unfolding update_branch_def
  by (rule srv_runs_bindE_Inr [OF srv_runs_printf], simp, rule srv_runs_print_tail, erule srv_runs_fail_on)

lemma srv_runs_deploy_branch:
  "cfg \<noteq> [] \<Longrightarrow> srv_runs (deploy_stack_from_string S p ep (stk_name sc) cfg env) ps r ps' \<Longrightarrow>
   srv_runs (deploy_branch S p ep sc env cfg) ps r ps'"
  unfolding deploy_branch_def
  by (rule srv_runs_bindE_Inr [OF srv_runs_printf], simp, rule srv_runs_print_tail, erule srv_runs_fail_on)

lemma srv_runs_deploy_or_update:
  assumes srv: "server S = ps_handle" and p: "p_address p = ps_base ps" "p_auth p = ps_token ps"
    and cfg: "cfg \<noteq> []" and e: "\<exists>y\<in>set (ps_endpoints ps). se_id y = endpoint_id ep"
  shows "srv_runs (deploy_or_update S p ep (map_option stack_view (List.find (\<lambda>s. ss_name s = stk_name sc) (ps_stacks ps))) sc env cfg) ps
    (fst (deploy_outcome ps (endpoint_id ep) (endpoint_swarm_id ep) (stk_name sc) cfg (enc_slice enc_env env)))
    (snd (deploy_outcome ps (endpoint_id ep) (endpoint_swarm_id ep) (stk_name sc) cfg (enc_slice enc_env env)))"
proof (cases "List.find (\<lambda>s. ss_name s = stk_name sc) (ps_stacks ps)")
  case None
  then show ?thesis
    by (simp add: deploy_or_update_def deploy_outcome_def srv_runs_deploy_branch [OF cfg srv_runs_deploy_stack [OF srv p e]])
next
  case (Some s0)
  have s0: "\<exists>y\<in>set (ps_stacks ps). ss_id y = stack_id (stack_view s0) \<and> ss_endpoint y = stack_endpoint_id (stack_view s0)"
    using find_Some_set [OF Some] by (auto simp: stack_view_def)
  show ?thesis
  proof (cases "ss_endpoint s0 = endpoint_id ep")
    case True
    with Some show ?thesis
      using srv_runs_update_branch [OF cfg srv_runs_update_stack [OF srv p s0]]
      by (simp add: deploy_or_update_def deploy_outcome_def stack_view_def)
  next
    case False
    with Some show ?thesis
      using srv_runs_deploy_branch [OF cfg srv_runs_deploy_stack [OF srv p e]]
      by (simp add: deploy_or_update_def deploy_outcome_def stack_view_def)
  qed
qed

lemma srv_runs_select_and_deploy:
  assumes srv: "server S = ps_handle" and p: "p_address p = ps_base ps" "p_auth p = ps_token ps"
    and wf: "ps_wf ps" and x: "List.find (\<lambda>e. se_name e = cfg_endpoint pc) (ps_endpoints ps) = Some x"
    and n: "stk_name sc \<noteq> []" and env: "parse_env (stk_environment sc) = Inr envs"
    and cfg: "join_config (stk_config sc) \<noteq> []"
  shows "srv_runs (select_and_deploy S p pc sc) ps
    (fst (deploy_outcome ps (se_id x) (se_swarm x) (stk_name sc) (join_config (stk_config sc)) (enc_slice enc_env envs)))
    (snd (deploy_outcome ps (se_id x) (se_swarm x) (stk_name sc) (join_config (stk_config sc)) (enc_slice enc_env envs)))"
proof -
  let ?ep = "(endpoint_view x)\<lparr>endpoint_swarm_id := se_swarm x\<rparr>"
  have ge: "srv_runs (phase (get_endpoint_by_name S p (cfg_endpoint pc))) ps (Inr ?ep) ps"
    by (rule srv_runs_phase [OF srv_runs_get_endpoint_by_name [OF srv p wf x]])
  have ss: "srv_runs (search_stack S p (stk_name sc)) ps
      (Inr (map_option stack_view (List.find (\<lambda>s. ss_name s = stk_name sc) (ps_stacks ps)))) ps"
    by (rule srv_runs_search_stack [OF srv p wf n])
  have ep: "endpoint_id ?ep = se_id x" "endpoint_swarm_id ?ep = se_swarm x"
    by (simp_all add: endpoint_view_def)
  have "\<exists>y\<in>set (ps_endpoints ps). se_id y = endpoint_id ?ep"
    using find_Some_set [OF x] ep by auto
  note du = srv_runs_deploy_or_update [OF srv p cfg this, where sc = sc and env = envs, unfolded ep]
  show ?thesis
    unfolding select_and_deploy_def env
    by (rule srv_runs_bindE_Inr [OF srv_runs_printf] srv_runs_bindE_Inr [OF ge] srv_runs_bindE_Inr [OF ss]
        | simp only: bindE_liftE_Inr du)+
qed

lemma srv_runs_exec:
  assumes srv: "server S = ps_handle"
    and pc: "cfg_portainer (plugin_config pl) = pc" and sc: "cfg_stack (plugin_config pl) = sc"
    and np: "new_portainer S (cfg_address pc) (cfg_insecure pc) = Inr p" and base: "p_address p = ps_base ps"
    and cred: "cfg_username pc = ps_user ps" "cfg_password pc = ps_pass ps"
    and wf: "ps_wf ps" and x: "List.find (\<lambda>e. se_name e = cfg_endpoint pc) (ps_endpoints ps) = Some x"
    and n: "stk_name sc \<noteq> []" and env: "parse_env (stk_environment sc) = Inr envs"
    and cfg: "join_config (stk_config sc) \<noteq> []"
  shows "srv_runs (exec S pl) ps
    (fst (deploy_outcome ps (se_id x) (se_swarm x) (stk_name sc) (join_config (stk_config sc)) (enc_slice enc_env envs)))
    (snd (deploy_outcome ps (se_id x) (se_swarm x) (stk_name sc) (join_config (stk_config sc)) (enc_slice enc_env envs)))"
proof -
  have p': "p_address (p\<lparr>p_auth := ps_token ps\<rparr>) = ps_base ps" "p_auth (p\<lparr>p_auth := ps_token ps\<rparr>) = ps_token ps"
    by (simp_all add: base)
  note sd = srv_runs_select_and_deploy [OF srv p' wf x n env cfg]
  have c: "srv_runs (phase (connect S p)) ps (Inr ()) ps"
    by (rule srv_runs_phase [OF srv_runs_connect [OF srv base]])
  have a: "srv_runs (phase (auth S p (cfg_username pc) (cfg_password pc))) ps (Inr (p\<lparr>p_auth := ps_token ps\<rparr>)) ps"
    unfolding cred by (rule srv_runs_phase [OF srv_runs_auth [OF srv base]])
  show ?thesis
    unfolding exec_def Let_def pc sc np bindE_liftE_Inr
    by (rule srv_runs_bindE_Inr [OF srv_runs_printf] srv_runs_bindE_Inr [OF c] srv_runs_bindE_Inr [OF a] sd)+
qed

subsection \<open>The outcome\<close>

lemma exec_outcome:
  assumes "serves S pl ps" and "srv_state w = ps"
    and x: "List.find (\<lambda>e. se_name e = cfg_endpoint (cfg_portainer (plugin_config pl))) (ps_endpoints ps) = Some x"
    and n: "stk_name (cfg_stack (plugin_config pl)) \<noteq> []"
    and env: "parse_env (stk_environment (cfg_stack (plugin_config pl))) = Inr envs"
    and cfg: "join_config (stk_config (cfg_stack (plugin_config pl))) \<noteq> []"
  shows "fst (exec S pl w) = fst (deploy_outcome ps (se_id x) (se_swarm x) (stk_name (cfg_stack (plugin_config pl)))
      (join_config (stk_config (cfg_stack (plugin_config pl)))) (enc_slice enc_env envs)) \<and>
    srv_state (snd (exec S pl w)) = snd (deploy_outcome ps (se_id x) (se_swarm x) (stk_name (cfg_stack (plugin_config pl)))
      (join_config (stk_config (cfg_stack (plugin_config pl)))) (enc_slice enc_env envs))"
proof -
  obtain p where np: "new_portainer S (cfg_address (cfg_portainer (plugin_config pl))) (cfg_insecure (cfg_portainer (plugin_config pl))) = Inr p"
    and base: "p_address p = ps_base ps"
    using assms(1) by (auto simp: serves_def split: sum.splits)
  from assms(1) have srv: "server S = ps_handle" and cred: "cfg_username (cfg_portainer (plugin_config pl)) = ps_user ps"
    "cfg_password (cfg_portainer (plugin_config pl)) = ps_pass ps" and wf: "ps_wf ps"
    by (simp_all add: serves_def)
  from srv_runsD [OF srv_runs_exec [OF srv refl refl np base cred wf x n env cfg] assms(2)] show ?thesis .
qed

lemma filter_single:
  "distinct (map ss_name xs) \<Longrightarrow> s0 \<in> set xs \<Longrightarrow> ss_name s0 = n \<Longrightarrow> ss_endpoint s0 = eid \<Longrightarrow>
   filter (\<lambda>s. ss_name s = n \<and> ss_endpoint s = eid) xs = [s0]"
proof (induction xs)
  case (Cons a xs)
  show ?case
  proof (cases "a = s0")
    case True
    with Cons.prems have "\<forall>s\<in>set xs. ss_name s \<noteq> n" by (auto simp: image_iff)
    with True Cons.prems show ?thesis by (simp add: filter_empty_conv)
  next
    case False
    with Cons.prems have "ss_name a \<noteq> n" by auto
    with False Cons show ?thesis by simp
  qed
qed simp

lemma filter_map_keep:
  "(\<And>s. P (f s) = P s) \<Longrightarrow> (\<And>s. s \<in> set xs \<Longrightarrow> \<not> P s \<Longrightarrow> f s = s) \<Longrightarrow>
   filter (\<lambda>s. \<not> P s) (map f xs) = filter (\<lambda>s. \<not> P s) xs"
  by (induction xs) auto

lemma set_stack_keys [simp]:
  "ss_name (set_stack i c e s) = ss_name s" "ss_endpoint (set_stack i c e s) = ss_endpoint s" "ss_id (set_stack i c e s) = ss_id s"
  by (simp_all add: set_stack_def)

lemma name_unique:
  "distinct (map ss_name xs) \<Longrightarrow> s \<in> set xs \<Longrightarrow> t \<in> set xs \<Longrightarrow> ss_name s = ss_name t \<Longrightarrow> s = t"
  by (auto dest: inj_onD simp: distinct_map)

lemma deploy_outcome_Inr:
  assumes "distinct (map ss_name (ps_stacks ps))"
  shows "fst (deploy_outcome ps eid sw n c envj) = Inr ()"
proof (cases "List.find (\<lambda>s. ss_name s = n) (ps_stacks ps)")
  case None
  then have "\<not> (\<exists>s\<in>set (ps_stacks ps). ss_name s = n \<and> ss_endpoint s = eid)"
    by (auto simp: find_None_iff)
  then show ?thesis unfolding deploy_outcome_def None option.case create_outcome_def by simp
next
  case (Some s0)
  from find_Some_set [OF Some] have s0: "s0 \<in> set (ps_stacks ps)" "ss_name s0 = n" by simp_all
  have "ss_endpoint s0 \<noteq> eid \<Longrightarrow> \<not> (\<exists>s\<in>set (ps_stacks ps). ss_name s = n \<and> ss_endpoint s = eid)"
    using name_unique [OF assms _ s0(1)] s0(2) by force
  with Some show ?thesis
    by (cases "ss_endpoint s0 = eid") (simp_all add: deploy_outcome_def create_outcome_def)
qed

lemma deploy_outcome_deployed:
  assumes "ps_wf ps" and "distinct (map ss_name (ps_stacks ps))"
  shows "deployed ps (snd (deploy_outcome ps eid sw n c envj)) eid n c envj"
proof (cases "List.find (\<lambda>s. ss_name s = n) (ps_stacks ps)")
  case None
  then have "\<not> (\<exists>s\<in>set (ps_stacks ps). ss_name s = n \<and> ss_endpoint s = eid)"
    by (auto simp: find_None_iff)
  with None show ?thesis
    by (simp add: deploy_outcome_def create_outcome_def deployed_def new_stack_def filter_empty_conv)
next
  case (Some s0)
  from find_Some_set [OF Some] have s0: "s0 \<in> set (ps_stacks ps)" "ss_name s0 = n" by simp_all
  show ?thesis
  proof (cases "ss_endpoint s0 = eid")
    case True
    have ids: "distinct (map ss_id (ps_stacks ps))" using assms(1) by (simp add: ps_wf_def)
    have one: "filter (\<lambda>s. ss_name s = n \<and> ss_endpoint s = eid) (ps_stacks ps) = [s0]"
      by (rule filter_single [OF assms(2) s0 True])
    have "filter (\<lambda>s. ss_name s = n \<and> ss_endpoint s = eid) (map (set_stack (ss_id s0) c envj) (ps_stacks ps)) =
        map (set_stack (ss_id s0) c envj) [s0]"
      by (simp add: filter_map comp_def one [symmetric])
    moreover have "filter (\<lambda>s. \<not> (ss_name s = n \<and> ss_endpoint s = eid)) (map (set_stack (ss_id s0) c envj) (ps_stacks ps)) =
        filter (\<lambda>s. \<not> (ss_name s = n \<and> ss_endpoint s = eid)) (ps_stacks ps)"
    proof (rule filter_map_keep)
      fix s assume "s \<in> set (ps_stacks ps)" "\<not> (ss_name s = n \<and> ss_endpoint s = eid)"
      with s0 True ids have "ss_id s \<noteq> ss_id s0" by (auto dest: inj_onD simp: distinct_map)
      then show "set_stack (ss_id s0) c envj s = s" by (simp add: set_stack_def)
    qed simp
    ultimately show ?thesis using Some True
      by (simp add: deploy_outcome_def deployed_def set_stack_def)
  next
    case False
    have "\<not> (\<exists>s\<in>set (ps_stacks ps). ss_name s = n \<and> ss_endpoint s = eid)"
    proof
      assume "\<exists>s\<in>set (ps_stacks ps). ss_name s = n \<and> ss_endpoint s = eid"
      then obtain s where "s \<in> set (ps_stacks ps)" "ss_name s = n" "ss_endpoint s = eid" by blast
      with s0 have "s = s0" by (intro name_unique [OF assms(2)]) simp_all
      with False \<open>ss_endpoint s = eid\<close> show False by simp
    qed
    with Some False show ?thesis
      by (simp add: deploy_outcome_def create_outcome_def deployed_def new_stack_def filter_empty_conv)
  qed
qed

lemma deploy_outcome_keeps:
  "ps_base (snd (deploy_outcome ps eid sw n c envj)) = ps_base ps \<and>
   ps_user (snd (deploy_outcome ps eid sw n c envj)) = ps_user ps \<and>
   ps_pass (snd (deploy_outcome ps eid sw n c envj)) = ps_pass ps \<and>
   ps_endpoints (snd (deploy_outcome ps eid sw n c envj)) = ps_endpoints ps"
  by (simp add: deploy_outcome_def create_outcome_def split: option.splits)

lemma create_outcome_wf:
  assumes "ps_wf ps" "ps_next ps < go_int_max" "in_go_int eid"
  shows "ps_wf (snd (create_outcome ps eid sw n c envj))"
proof -
  have "in_go_int (ps_next ps + 1)" using assms(1,2) by (simp add: ps_wf_def in_go_int_def)
  moreover have "ps_next ps \<notin> ss_id ` set (ps_stacks ps)" using assms(1) by (auto simp: ps_wf_def)
  ultimately show ?thesis using assms
    by (auto simp: create_outcome_def ps_wf_def new_stack_def image_iff)
qed

lemma deploy_outcome_wf:
  assumes "ps_wf ps" "ps_next ps < go_int_max" "in_go_int eid"
  shows "ps_wf (snd (deploy_outcome ps eid sw n c envj))"
  using assms create_outcome_wf [OF assms]
  by (auto simp: deploy_outcome_def ps_wf_def comp_def split: option.splits)

lemma serves_outcome:
  "serves S pl ps \<Longrightarrow> ps_next ps < go_int_max \<Longrightarrow> in_go_int eid \<Longrightarrow>
   serves S pl (snd (deploy_outcome ps eid sw n c envj))"
  using deploy_outcome_keeps [of ps eid sw n c envj] deploy_outcome_wf [of ps eid sw n c envj]
  by (simp add: serves_def split: sum.splits)

lemma set_stack_idem [simp]: "set_stack i c e (set_stack i c e s) = set_stack i c e s"
  by (simp add: set_stack_def)

lemma find_append_None:
  "List.find P xs = None \<Longrightarrow> List.find P (xs @ ys) = List.find P ys"
  by (induction xs) auto

lemma find_append_Some:
  "List.find P xs = Some x \<Longrightarrow> List.find P (xs @ ys) = Some x"
  by (induction xs) auto

lemma find_map_keys:
  "(\<And>s. P (f s) = P s) \<Longrightarrow> List.find P (map f xs) = map_option f (List.find P xs)"
  by (induction xs) auto

text \<open>A second deployment with the same input changes nothing when no stack of
  the name lies on another endpoint.\<close>

lemma deploy_outcome_idem:
  assumes wf: "ps_wf ps" and here: "\<forall>s\<in>set (ps_stacks ps). ss_name s = n \<longrightarrow> ss_endpoint s = eid"
  shows "fst (deploy_outcome ps eid sw n c envj) = Inr () \<and>
    deploy_outcome (snd (deploy_outcome ps eid sw n c envj)) eid sw n c envj =
    (Inr (), snd (deploy_outcome ps eid sw n c envj))"
proof (cases "List.find (\<lambda>s. ss_name s = n) (ps_stacks ps)")
  case None
  then have none: "\<forall>s\<in>set (ps_stacks ps). ss_name s \<noteq> n" by (simp add: find_None_iff)
  let ?new = "new_stack ps eid n sw c envj"
  have old: "\<forall>s\<in>set (ps_stacks ps). set_stack (ps_next ps) c envj s = s"
    using wf by (auto simp: ps_wf_def set_stack_def)
  have "List.find (\<lambda>s. ss_name s = n) (ps_stacks ps @ [?new]) = Some ?new"
    by (simp only: find_append_None [OF None]) (simp add: new_stack_def)
  moreover have "set_stack (ps_next ps) c envj ?new = ?new" "ss_endpoint ?new = eid" "ss_id ?new = ps_next ps"
    by (simp_all add: set_stack_def new_stack_def)
  moreover have "map (set_stack (ps_next ps) c envj) (ps_stacks ps) = ps_stacks ps"
    using old by (simp add: map_idI)
  ultimately show ?thesis using None none
    by (simp add: deploy_outcome_def create_outcome_def)
next
  case (Some s0)
  from find_Some_set [OF Some] here have e: "ss_endpoint s0 = eid" by simp
  have "List.find (\<lambda>s. ss_name s = n) (map (set_stack (ss_id s0) c envj) (ps_stacks ps)) =
      Some (set_stack (ss_id s0) c envj s0)"
    by (simp add: find_map_keys Some)
  with Some e show ?thesis by (simp add: deploy_outcome_def comp_def)
qed

text \<open>When the first stack of the name lies on another endpoint and the target holds
  none, the first deployment creates one on the target, and a second is refused.\<close>

lemma deploy_outcome_shadowed:
  assumes first: "List.find (\<lambda>s. ss_name s = n) (ps_stacks ps) = Some s0" "ss_endpoint s0 \<noteq> eid"
    and none: "\<forall>s\<in>set (ps_stacks ps). ss_name s = n \<longrightarrow> ss_endpoint s \<noteq> eid"
  shows "fst (deploy_outcome ps eid sw n c envj) = Inr () \<and>
    deploy_outcome (snd (deploy_outcome ps eid sw n c envj)) eid sw n c envj =
      (Inl (Err_Api POST (ps_base ps @ ''/api/stacks?type=1&method=string&endpointId='' @ go_itoa eid) 409),
       snd (deploy_outcome ps eid sw n c envj))"
proof -
  have nc: "\<not> (\<exists>s\<in>set (ps_stacks ps). ss_name s = n \<and> ss_endpoint s = eid)" using none by blast
  let ?ps1 = "ps\<lparr>ps_stacks := ps_stacks ps @ [new_stack ps eid n sw c envj], ps_next := ps_next ps + 1\<rparr>"
  have o1: "deploy_outcome ps eid sw n c envj = (Inr (), ?ps1)"
    using first nc by (simp add: deploy_outcome_def create_outcome_def)
  have "ps_stacks ?ps1 = ps_stacks ps @ [new_stack ps eid n sw c envj]" by simp
  then have "List.find (\<lambda>s. ss_name s = n) (ps_stacks ?ps1) = Some s0"
    by (simp only: find_append_Some [OF first(1)])
  moreover have "\<exists>s\<in>set (ps_stacks ?ps1). ss_name s = n \<and> ss_endpoint s = eid"
    by (simp add: new_stack_def)
  ultimately show ?thesis using first(2)
    unfolding o1 by (simp add: deploy_outcome_def create_outcome_def)
qed

lemma serves_endpoint_range:
  "serves S pl ps \<Longrightarrow> List.find (\<lambda>e. se_name e = m) (ps_endpoints ps) = Some x \<Longrightarrow> in_go_int (se_id x)"
  by (auto simp: serves_def ps_wf_def dest!: find_Some_set)

subsection \<open>Properties of runs against the server\<close>

text \<open>From the server before the first deployment and from the server after it,
  a run succeeds and ends in the server after the first deployment.\<close>

lemma exec_outcome_fixed:
  assumes "serves S pl ps"
    and x: "List.find (\<lambda>e. se_name e = cfg_endpoint (cfg_portainer (plugin_config pl))) (ps_endpoints ps) = Some x"
    and n: "stk_name (cfg_stack (plugin_config pl)) \<noteq> []"
    and env: "parse_env (stk_environment (cfg_stack (plugin_config pl))) = Inr envs"
    and cfg: "join_config (stk_config (cfg_stack (plugin_config pl))) \<noteq> []"
    and here: "\<forall>s\<in>set (ps_stacks ps). ss_name s = stk_name (cfg_stack (plugin_config pl)) \<longrightarrow> ss_endpoint s = se_id x"
    and next_free: "ps_next ps < go_int_max"
    and w: "srv_state w = ps \<or> srv_state w = snd (deploy_outcome ps (se_id x) (se_swarm x) (stk_name (cfg_stack (plugin_config pl)))
      (join_config (stk_config (cfg_stack (plugin_config pl)))) (enc_slice enc_env envs))"
  shows "fst (exec S pl w) = Inr () \<and> srv_state (snd (exec S pl w)) = snd (deploy_outcome ps (se_id x) (se_swarm x)
      (stk_name (cfg_stack (plugin_config pl))) (join_config (stk_config (cfg_stack (plugin_config pl)))) (enc_slice enc_env envs))"
proof -
  let ?O = "deploy_outcome ps (se_id x) (se_swarm x) (stk_name (cfg_stack (plugin_config pl)))
      (join_config (stk_config (cfg_stack (plugin_config pl)))) (enc_slice enc_env envs)"
  have ps_wf: "ps_wf ps" using assms(1) by (simp add: serves_def)
  note idem = deploy_outcome_idem [OF ps_wf here]
  from w show ?thesis
  proof
    assume "srv_state w = ps"
    from exec_outcome [OF assms(1) this x n env cfg] idem show ?thesis by simp
  next
    assume w1: "srv_state w = snd ?O"
    have s1: "serves S pl (snd ?O)"
      by (rule serves_outcome [OF assms(1) next_free serves_endpoint_range [OF assms(1) x]])
    have x1: "List.find (\<lambda>e. se_name e = cfg_endpoint (cfg_portainer (plugin_config pl))) (ps_endpoints (snd ?O)) = Some x"
      using deploy_outcome_keeps x by simp
    from exec_outcome [OF s1 w1 x1 n env cfg] idem show ?thesis by simp
  qed
qed

text \<open>
  C18.  Liveness: against a server that holds the configured endpoint and account,
  and whose stack names are unique (the uniqueness the specification assumes), a
  run of \<^verbatim>\<open>Exec\<close> with a stack name, an inline configuration and a well-formed
  environment succeeds.
\<close>

theorem exec_succeeds_on_server:
  assumes "serves S pl ps" and "srv_state w = ps"
    and "List.find (\<lambda>e. se_name e = cfg_endpoint (cfg_portainer (plugin_config pl))) (ps_endpoints ps) \<noteq> None"
    and "stk_name (cfg_stack (plugin_config pl)) \<noteq> []"
    and "parse_env (stk_environment (cfg_stack (plugin_config pl))) = Inr envs"
    and "join_config (stk_config (cfg_stack (plugin_config pl))) \<noteq> []"
    and "distinct (map ss_name (ps_stacks ps))"
  shows "fst (exec S pl w) = Inr ()"
proof -
  from assms(3) obtain x where x: "List.find (\<lambda>e. se_name e = cfg_endpoint (cfg_portainer (plugin_config pl))) (ps_endpoints ps) = Some x"
    by blast
  from exec_outcome [OF assms(1,2) x assms(4-6)] deploy_outcome_Inr [OF assms(7)] show ?thesis by simp
qed

text \<open>
  C19.  Refinement of the specification's contract: under the same conditions, after
  the run the resolved endpoint holds exactly one stack of the configured name, with
  the joined inline configuration and the encoded environment, and no other stack
  and no endpoint of the server has changed.
\<close>

theorem exec_deploys_on_server:
  assumes "serves S pl ps" and "srv_state w = ps"
    and "List.find (\<lambda>e. se_name e = cfg_endpoint (cfg_portainer (plugin_config pl))) (ps_endpoints ps) = Some x"
    and "stk_name (cfg_stack (plugin_config pl)) \<noteq> []"
    and "parse_env (stk_environment (cfg_stack (plugin_config pl))) = Inr envs"
    and "join_config (stk_config (cfg_stack (plugin_config pl))) \<noteq> []"
    and "distinct (map ss_name (ps_stacks ps))"
  shows "deployed ps (srv_state (snd (exec S pl w))) (se_id x) (stk_name (cfg_stack (plugin_config pl)))
    (join_config (stk_config (cfg_stack (plugin_config pl)))) (enc_slice enc_env envs)"
proof -
  have "ps_wf ps" using assms(1) by (simp add: serves_def)
  with exec_outcome [OF assms(1-6)] deploy_outcome_deployed [OF _ assms(7)] show ?thesis by simp
qed

text \<open>
  C20.  Redeployment is idempotent: when no stack of the configured name lies on
  another endpoint (and the server has a free stack id), running \<^verbatim>\<open>Exec\<close> twice
  succeeds both times and the second run leaves the server as the first left it.
\<close>

theorem exec_redeploy_idempotent:
  assumes "serves S pl ps" and "srv_state w = ps"
    and x: "List.find (\<lambda>e. se_name e = cfg_endpoint (cfg_portainer (plugin_config pl))) (ps_endpoints ps) = Some x"
    and n: "stk_name (cfg_stack (plugin_config pl)) \<noteq> []"
    and env: "parse_env (stk_environment (cfg_stack (plugin_config pl))) = Inr envs"
    and cfg: "join_config (stk_config (cfg_stack (plugin_config pl))) \<noteq> []"
    and here: "\<forall>s\<in>set (ps_stacks ps). ss_name s = stk_name (cfg_stack (plugin_config pl)) \<longrightarrow> ss_endpoint s = se_id x"
    and next_free: "ps_next ps < go_int_max"
  shows "fst (exec S pl w) = Inr () \<and> fst (exec S pl (snd (exec S pl w))) = Inr () \<and>
    srv_state (snd (exec S pl (snd (exec S pl w)))) = srv_state (snd (exec S pl w))"
proof -
  let ?O = "deploy_outcome ps (se_id x) (se_swarm x) (stk_name (cfg_stack (plugin_config pl)))
      (join_config (stk_config (cfg_stack (plugin_config pl)))) (enc_slice enc_env envs)"
  have ps_wf: "ps_wf ps" using assms(1) by (simp add: serves_def)
  note r1 = exec_outcome [OF assms(1,2) x n env cfg]
  have s1: "serves S pl (snd ?O)"
    by (rule serves_outcome [OF assms(1) next_free serves_endpoint_range [OF assms(1) x]])
  have x1: "List.find (\<lambda>e. se_name e = cfg_endpoint (cfg_portainer (plugin_config pl))) (ps_endpoints (snd ?O)) = Some x"
    using deploy_outcome_keeps x by simp
  have w1: "srv_state (snd (exec S pl w)) = snd ?O" using r1 by simp
  note r2 = exec_outcome [OF s1 w1 x1 n env cfg]
  from r1 r2 deploy_outcome_idem [OF ps_wf here] show ?thesis by simp
qed

text \<open>
  C22.  Redeployment under a shadowing stack fails: when the first stack listed
  under the configured name lies on another endpoint and the resolved endpoint
  holds none, the first run creates the stack there, and a second run with the same
  configuration creates it again, which the server refuses: the second run fails
  with the API error 409 of the create request and leaves the server unchanged.
\<close>

theorem exec_redeploy_conflict:
  assumes "serves S pl ps" and "srv_state w = ps"
    and x: "List.find (\<lambda>e. se_name e = cfg_endpoint (cfg_portainer (plugin_config pl))) (ps_endpoints ps) = Some x"
    and n: "stk_name (cfg_stack (plugin_config pl)) \<noteq> []"
    and env: "parse_env (stk_environment (cfg_stack (plugin_config pl))) = Inr envs"
    and cfg: "join_config (stk_config (cfg_stack (plugin_config pl))) \<noteq> []"
    and first: "List.find (\<lambda>s. ss_name s = stk_name (cfg_stack (plugin_config pl))) (ps_stacks ps) = Some s0"
      "ss_endpoint s0 \<noteq> se_id x"
    and none: "\<forall>s\<in>set (ps_stacks ps). ss_name s = stk_name (cfg_stack (plugin_config pl)) \<longrightarrow> ss_endpoint s \<noteq> se_id x"
    and next_free: "ps_next ps < go_int_max"
  shows "fst (exec S pl w) = Inr () \<and>
    fst (exec S pl (snd (exec S pl w))) =
      Inl (Err_Api POST (ps_base ps @ ''/api/stacks?type=1&method=string&endpointId='' @ go_itoa (se_id x)) 409) \<and>
    srv_state (snd (exec S pl (snd (exec S pl w)))) = srv_state (snd (exec S pl w))"
proof -
  let ?O = "deploy_outcome ps (se_id x) (se_swarm x) (stk_name (cfg_stack (plugin_config pl)))
      (join_config (stk_config (cfg_stack (plugin_config pl)))) (enc_slice enc_env envs)"
  note r1 = exec_outcome [OF assms(1,2) x n env cfg]
  have s1: "serves S pl (snd ?O)"
    by (rule serves_outcome [OF assms(1) next_free serves_endpoint_range [OF assms(1) x]])
  have x1: "List.find (\<lambda>e. se_name e = cfg_endpoint (cfg_portainer (plugin_config pl))) (ps_endpoints (snd ?O)) = Some x"
    using deploy_outcome_keeps x by simp
  have w1: "srv_state (snd (exec S pl w)) = snd ?O" using r1 by simp
  note r2 = exec_outcome [OF s1 w1 x1 n env cfg]
  from r1 r2 deploy_outcome_shadowed [OF first none] show ?thesis by simp
qed

text \<open>
  C25.  Error path: a client that has not logged in (its token is not the one the
  server issued) asking for the endpoint list or the stack list gets the API error
  of the refused request, status 401, and the server is unchanged; the call
  returns an error rather than crashing (specification section 8).
\<close>

theorem listing_without_token:
  assumes srv: "server S = ps_handle" and p: "p_address p = ps_base ps" "p_auth p \<noteq> ps_token ps" and m: "m \<noteq> []"
  shows "srv_runs (get_endpoint_by_name S p n) ps (Inl (Err_Api GET (ps_base ps @ ''/api/endpoints'') 401)) ps \<and>
    srv_runs (get_stack_by_name S p m) ps (Inl (Err_Api GET (ps_base ps @ ''/api/stacks'') 401)) ps"
proof
  show "srv_runs (get_endpoint_by_name S p n) ps (Inl (Err_Api GET (ps_base ps @ ''/api/endpoints'') 401)) ps"
    unfolding get_endpoint_by_name_def
    by (rule srv_runs_bindE_Inl, rule srv_runs_api_json_refused [where st = 401]) (simp_all add: srv ps_answer_endpoints_unauth [OF p], simp add: endpoints_request_def p)
  show "srv_runs (get_stack_by_name S p m) ps (Inl (Err_Api GET (ps_base ps @ ''/api/stacks'') 401)) ps"
    unfolding get_stack_by_name_def if_not_P [OF m]
    by (rule srv_runs_bindE_Inl, rule srv_runs_api_json_refused [where st = 401]) (simp_all add: srv ps_answer_stacks_unauth [OF p], simp add: stacks_request_def p)
qed

text \<open>
  C23.  Error path: when the configured credentials are not the server's account,
  \<^verbatim>\<open>Exec\<close> stops at the login with the API error of \<^verbatim>\<open>POST /api/auth\<close>, status
  422, and the server is unchanged: nothing is listed or written.
\<close>

theorem exec_bad_credentials:
  assumes srv: "server S = ps_handle"
    and np: "new_portainer S (cfg_address (cfg_portainer (plugin_config pl))) (cfg_insecure (cfg_portainer (plugin_config pl))) = Inr p"
    and base: "p_address p = ps_base ps"
    and bad: "cfg_username (cfg_portainer (plugin_config pl)) \<noteq> ps_user ps \<or> cfg_password (cfg_portainer (plugin_config pl)) \<noteq> ps_pass ps"
  shows "srv_runs (exec S pl) ps (Inl (Err_Api POST (ps_base ps @ ''/api/auth'') 422)) ps"
proof -
  have c: "srv_runs (phase (connect S p)) ps (Inr ()) ps"
    by (rule srv_runs_phase [OF srv_runs_connect [OF srv base]])
  have a: "srv_runs (phase (auth S p (cfg_username (cfg_portainer (plugin_config pl))) (cfg_password (cfg_portainer (plugin_config pl)))))
      ps (Inl (Err_Api POST (ps_base ps @ ''/api/auth'') 422)) ps"
    using bad by (blast intro: srv_runs_phase srv_runs_auth_refused [OF srv base])
  show ?thesis
    unfolding exec_def Let_def np bindE_liftE_Inr
    by (rule srv_runs_bindE_Inr [OF srv_runs_printf] srv_runs_bindE_Inr [OF c] srv_runs_bindE_Inl [OF a])+
qed

text \<open>
  C24.  Error path: when the server has no endpoint of the configured name,
  \<^verbatim>\<open>Exec\<close> fails with the endpoint-not-found error for that name, and the
  server is unchanged.
\<close>

theorem exec_endpoint_missing:
  assumes "serves S pl ps"
    and x: "List.find (\<lambda>e. se_name e = cfg_endpoint (cfg_portainer (plugin_config pl))) (ps_endpoints ps) = None"
  shows "srv_runs (exec S pl) ps (Inl (Err_Endpoint_Not_Found (cfg_endpoint (cfg_portainer (plugin_config pl))))) ps"
proof -
  obtain p where np: "new_portainer S (cfg_address (cfg_portainer (plugin_config pl))) (cfg_insecure (cfg_portainer (plugin_config pl))) = Inr p"
    and base: "p_address p = ps_base ps"
    using assms(1) by (auto simp: serves_def split: sum.splits)
  from assms(1) have srv: "server S = ps_handle" and cred: "cfg_username (cfg_portainer (plugin_config pl)) = ps_user ps"
    "cfg_password (cfg_portainer (plugin_config pl)) = ps_pass ps" and wf: "ps_wf ps"
    by (simp_all add: serves_def)
  have p': "p_address (p\<lparr>p_auth := ps_token ps\<rparr>) = ps_base ps" "p_auth (p\<lparr>p_auth := ps_token ps\<rparr>) = ps_token ps"
    by (simp_all add: base)
  have c: "srv_runs (phase (connect S p)) ps (Inr ()) ps"
    by (rule srv_runs_phase [OF srv_runs_connect [OF srv base]])
  have a: "srv_runs (phase (auth S p (cfg_username (cfg_portainer (plugin_config pl))) (cfg_password (cfg_portainer (plugin_config pl)))))
      ps (Inr (p\<lparr>p_auth := ps_token ps\<rparr>)) ps"
    unfolding cred by (rule srv_runs_phase [OF srv_runs_auth [OF srv base]])
  have g: "srv_runs (phase (get_endpoint_by_name S (p\<lparr>p_auth := ps_token ps\<rparr>) (cfg_endpoint (cfg_portainer (plugin_config pl))))) ps
      (Inl (Err_Endpoint_Not_Found (cfg_endpoint (cfg_portainer (plugin_config pl))))) ps"
    by (rule srv_runs_phase [OF srv_runs_get_endpoint_by_name_missing [OF srv p' wf x]])
  show ?thesis
    unfolding exec_def Let_def np bindE_liftE_Inr select_and_deploy_def
    by (rule srv_runs_bindE_Inr [OF srv_runs_printf] srv_runs_bindE_Inr [OF c] srv_runs_bindE_Inr [OF a] srv_runs_bindE_Inl [OF g])+
qed

text \<open>
  C21.  Invariant of a pipeline that deploys again and again: when no stack of the
  configured name lies on another endpoint, then however many runs of
  \<^verbatim>\<open>Exec\<close> with the same settings the server has already seen, the next run
  succeeds and leaves the server exactly as the first deployment left it.
  Proved by rule induction over the runs: the server is always either the
  initial one or the one after the first deployment.
\<close>

theorem redeploys_stable:
  assumes "serves S pl ps"
    and x: "List.find (\<lambda>e. se_name e = cfg_endpoint (cfg_portainer (plugin_config pl))) (ps_endpoints ps) = Some x"
    and n: "stk_name (cfg_stack (plugin_config pl)) \<noteq> []"
    and env: "parse_env (stk_environment (cfg_stack (plugin_config pl))) = Inr envs"
    and cfg: "join_config (stk_config (cfg_stack (plugin_config pl))) \<noteq> []"
    and here: "\<forall>s\<in>set (ps_stacks ps). ss_name s = stk_name (cfg_stack (plugin_config pl)) \<longrightarrow> ss_endpoint s = se_id x"
    and next_free: "ps_next ps < go_int_max"
    and runs: "redeploys S pl ps ps'" and w: "srv_state w = ps'"
  shows "fst (exec S pl w) = Inr () \<and> srv_state (snd (exec S pl w)) = snd (deploy_outcome ps (se_id x) (se_swarm x)
      (stk_name (cfg_stack (plugin_config pl))) (join_config (stk_config (cfg_stack (plugin_config pl)))) (enc_slice enc_env envs))"
proof -
  note fixed = exec_outcome_fixed [OF assms(1) x n env cfg here next_free]
  from runs have "ps' = ps \<or> ps' = snd (deploy_outcome ps (se_id x) (se_swarm x) (stk_name (cfg_stack (plugin_config pl)))
      (join_config (stk_config (cfg_stack (plugin_config pl)))) (enc_slice enc_env envs))"
  proof (induction rule: redeploys.induct)
    case (redeploys_step ps1 w1)
    then show ?case using fixed [of w1] by simp
  qed simp
  with w show ?thesis by (intro fixed) simp
qed

end
