(* ===== verification/Spec2Isabelle.thy ===== *)
theory Spec2Isabelle
  imports Cli_Main Protocol Server_Runs
begin

text \<open>
  \<^bold>\<open>drone-portainer, verified model.\<close>
  The repository is a Drone CI plugin that deploys a compose stack to a Portainer
  server.  Its parts, and the theories that model them:
  \<^item> \<^verbatim>\<open>src/lib/portainer/portainer.go\<close>, the API client: the data
    \<^verbatim>\<open>Env\<close>/\<^verbatim>\<open>Stack\<close>/\<^verbatim>\<open>Endpoint\<close> and the request and response bodies in
    \<open>Portainer_Types\<close>; the client object and its methods \<^verbatim>\<open>NewPortainer\<close>,
    \<^verbatim>\<open>Connect\<close>, \<^verbatim>\<open>Auth\<close>, \<^verbatim>\<open>GetEndpointByName\<close>, \<^verbatim>\<open>GetStackByName\<close>,
    \<^verbatim>\<open>DeployStackFromGit/String/File\<close>, \<^verbatim>\<open>UpdateStackFromString/File\<close> in
    \<open>Portainer_Client\<close>, one definition each (\<open>new_portainer\<close>, \<open>connect\<close>,
    \<open>auth\<close>, \<open>get_endpoint_by_name\<close>, ...).
  \<^item> \<^verbatim>\<open>src/plugin.go\<close>, the orchestrator \<^verbatim>\<open>Plugin.Exec\<close>: \<open>Plugin_Exec\<close>
    (\<open>exec\<close>, split after authentication into \<open>select_and_deploy\<close>, with the
    helpers \<open>phase\<close>, \<open>search_stack\<close>, \<open>parse_env\<close>, \<open>join_config\<close>,
    \<open>deploy_or_update\<close>, \<open>update_branch\<close>, \<open>deploy_branch\<close>).
  \<^item> \<^verbatim>\<open>src/main.go\<close>, the command-line wiring: \<open>Cli_Main\<close> (the flag table
    \<open>flags\<close> as data, \<^verbatim>\<open>run\<close>'s construction of the \<^verbatim>\<open>Plugin\<close> value as
    \<open>run\<close>, the exit status of \<^verbatim>\<open>main\<close> as \<open>main_exit\<close>, and the
    \<^verbatim>\<open>codegangsta/cli\<close> library's resolution of a flag from its environment
    variables as \<open>c_string\<close>, \<open>c_bool\<close>, \<open>c_int\<close>, \<open>c_string_slice\<close>).
  The libraries the code calls are modelled where a property depends on them:
  \<open>Go_Strings\<close> (\<^verbatim>\<open>strings.SplitN\<close>, \<^verbatim>\<open>strings.Join\<close>, \<^verbatim>\<open>%d\<close>, ASCII folding),
  \<open>Go_Json\<close> (\<^verbatim>\<open>encoding/json\<close>'s decoding into an existing value), and
  \<open>Http_Model\<close>, which makes the server, the file system, \<^verbatim>\<open>urlx\<close> and the clock
  parameters (\<open>'s sys\<close>) and the server state, the log of requests and standard
  output the world every operation threads (\<open>'s world\<close>).  \<open>Go_Prelude\<close> holds
  the error-and-state combinators (\<open>bindE\<close>, \<open>handleE\<close>, ...); \<open>Http_Model\<close>'s
  \<open>catch_err\<close> is Go's \<^verbatim>\<open>if err != nil\<close>, which a run-time panic (\<open>is_panic\<close>)
  passes.
  \<open>Request_Traces\<close> reads a log of requests as a path of a labelled automaton
  (\<open>req_path\<close>) and gives a Hoare-style triple \<open>walks\<close> for operations with rules
  along the combinators; \<open>Protocol\<close> defines the automaton of the exchange
  \<^verbatim>\<open>Exec\<close> conducts with the server (\<open>proto_step\<close>) and proves, rule by rule
  for the client's methods and \<open>exec\<close>'s steps, that every run follows it.
  \<open>Portainer_Server\<close> models the other side, not code of the repository: a
  Portainer server written from the specification's list of API routes (state
  \<open>pserver\<close>, one definition per route, dispatcher \<open>ps_handle\<close>), an instance of
  the \<open>server\<close> parameter.  \<open>Server_Runs\<close> runs the plugin against it: a
  big-step relation \<open>srv_runs\<close> projected to the server state, with rules along the
  combinators and one lemma per method, gives the outcome of a whole run of
  \<open>exec\<close> in closed form (\<open>exec_outcome\<close>, \<open>deploy_outcome\<close>).

  How the parts interact: \<open>exec\<close> calls the client's methods in the fixed order
  connect, authenticate, resolve the endpoint, look the stack up, then create or
  update; each call is one or two HTTP exchanges with \<open>server\<close>; every error
  aborts the run except a failed stack lookup, which is printed and treated as
  absent; a run-time panic (an index out of range in the environment parse, a nil
  dereference in a list scan) is no error value, passes every error check and
  ends the process with status 2.

  What the theorems show (claim ids C1--C35, each stated in a text block before
  its theorem):
  \<^item> whole runs (this theory, C1--C4): a successful update run sends exactly the
    six requests in order and prints the six progress lines; a stack of the same
    name listed first on another endpoint leads to a second creation; a failed
    lookup is ignored and leads to creation; a failed connection stops the run
    after one request;
  \<^item> safety of the run (\<open>Plugin_Exec\<close>, C5--C13): no stack is created or updated
    when an environment entry lacks \<^verbatim>\<open>=\<close> (the run panics) or when no stack
    source is configured; every request after the login carries the token the
    server's login reply holds (\<open>exec_login\<close> splits a run at the login); the
    environment parse splits at the first \<^verbatim>\<open>=\<close> or panics; under the
    specification's assumption of unique stack names the update-or-create decision
    refines the specification's; a run sends at most one write, whatever the
    server does; an error of the stack search is printed and taken as absence,
    while a panic of the scan passes the error check and ends the run; a stack
    file holding the joined inline configuration gives the same run as the
    inline configuration (an equivalence of the two sources);
  \<^item> the protocol (\<open>Protocol\<close>, C14--C17): every run of \<open>exec\<close>, against any
    server, sends a path of the protocol automaton (a refinement); every request
    after the login carries one token; a successful run begins with connect,
    login, endpoint list and swarm inspection with the login's token, and ends
    with exactly one write;
  \<^item> runs against the server model (\<open>Server_Runs\<close>, C18--C25): with the
    configured endpoint and account present and unique stack names, a run
    succeeds (liveness) and leaves exactly one stack of the name on the endpoint
    with the configured definition, nothing else changed (refinement of the
    specification's contract); a second identical run is a no-op when no stack of
    the name lies on another endpoint, and by rule induction over the runs of a
    pipeline (\<open>redeploys\<close>) every later run succeeds and leaves the server as the
    first one did; a second run fails with 409 when a same-named stack on
    another endpoint lies first; the error paths against the same server: wrong
    credentials stop the run at the login with the 422 API error, a missing
    endpoint fails it with the not-found error, a listing without the issued
    token gets the 401 API error, and in each case the server is unchanged;
  \<^item> the whole process (this theory, C26): \<open>main\<close>, reading its settings from the
    environment through the flag table, run against the server model exits with
    status 0 and leaves the configured stack deployed as the contract says;
  \<^item> the process boundary (\<open>Cli_Main\<close>, C27--C30): the configuration read from
    the environment with its aliases and defaults, \<^verbatim>\<open>Commit.Ref\<close> taken from
    the commit hash, list settings cut at commas, a non-zero exit without any write
    on a malformed environment;
  \<^item> the client (\<open>Portainer_Client\<close>, C31--C35): the connection check on
    each branch, the one extra round trip of endpoint resolution, panics on
    \<open>null\<close> list elements, the token-less login accepted, the ids the update
    URL reads back as.
  Facts kept as lemmas of the library rather than as claims: the automaton's own
  invariant (\<open>proto_one_write\<close>), the termination and length of the comma split
  (\<open>c_string_slice_split\<close>), distinct flag names (\<open>flags_distinct\<close>), creation
  from a file as creation from its contents (\<open>deploy_stack_from_file_eq\<close>), the
  scheme \<open>new_portainer\<close> sets (\<open>new_portainer_scheme\<close>), the JSON round trip of
  \<^verbatim>\<open>Env\<close> lists (\<open>stack_env_roundtrip\<close>), decoded integers in Go's range
  (\<open>decoded_lists_wf\<close>) and the split of the joined configuration
  (\<open>join_config_roundtrip\<close>).
  The proofs are carried by the library: \<open>act_simps\<close> and \<open>run_defs\<close> run the
  combinators symbolically, the \<open>sends\<close> introduction rules describe the requests
  of a composition by those of its parts, the \<open>walks\<close> rules do the same for
  the protocol, the \<open>srv_runs\<close> rules compute runs against the server
  model, and \<open>run_reads\<close> evaluates the flag table (declared in the
  five sections of \<^verbatim>\<open>main.go\<close>: repository, commit, build, previous build and
  plugin settings).
  No loop of the program is unbounded (every loop ranges over a finite list), so
  no fuel is needed; every definition is a total function, and
  \<open>strings_split\<close> (the comma split of list settings) is a \<open>function\<close> with a
  measure whose domain is shown to be everything (\<open>c_string_slice_split\<close>).  The server model's well-formedness \<open>ps_wf\<close> (ids in Go's
  \<^verbatim>\<open>int\<close> range and unique, one stack of a name per endpoint) is kept by a
  deployment when the next stack id is below the largest \<^verbatim>\<open>int\<close>.
  Not modelled: the byte level of HTTP and JSON, TLS, time, \<^verbatim>\<open>urlx\<close>'s
  parsing rules (a parameter: its documentation says \<^verbatim>\<open>Parse\<close> defaults a
  missing scheme to \<^verbatim>\<open>http\<close>, under which \<^verbatim>\<open>NewPortainer\<close>'s scheme branch never
  runs; no theorem depends on either behaviour), resource release (\<^verbatim>\<open>defer\<close>), command-line
  arguments (the plugin is configured through environment variables), the
  \<^verbatim>\<open>.env\<close> file that the blank import of \<^verbatim>\<open>godotenv/autoload\<close> (\<^verbatim>\<open>main.go\<close>
  line 8) copies into the environment before \<^verbatim>\<open>main\<close> runs (the environment
  \<open>g\<close> of \<open>run\<close> is the one after that load), the text a
  panic prints on standard error, and \<^verbatim>\<open>DeployStackFromGit\<close>'s use by
  \<^verbatim>\<open>Exec\<close> (it has none: the method is modelled but never called).

  The definitions below, before the theorems, are fixed concrete inputs
  (a scripted server, a state of the server model, and a configuration) at which
  the theorems are instantiated.
\<close>

section \<open>Concrete inputs\<close>

definition demo_url :: url where
  "demo_url = \<lparr>url_scheme = ''https'', url_host = ''portainer'', url_port = [], url_path = []\<rparr>"

text \<open>A scripted server: endpoint \<open>local\<close> with id 3 and swarm \<open>sw1\<close>; the stack
  list and its status are parameters; every other request succeeds.\<close>

definition demo_server :: "int \<Rightarrow> json \<Rightarrow> unit \<Rightarrow> request \<Rightarrow> response \<times> unit" where
  "demo_server stacks_status stacks s rq =
     (if req_url rq = ''https://portainer/api/auth''
      then Response 200 (Body_Json (JObj [(''jwt'', JStr ''tok'')]))
      else if req_url rq = ''https://portainer/api/endpoints''
      then Response 200 (Body_Json (JArr [JObj [(''Id'', JNum 3), (''Name'', JStr ''local'')]]))
      else if req_url rq = ''https://portainer/api/endpoints/3/docker/swarm''
      then Response 200 (Body_Json (JObj [(''ID'', JStr ''sw1'')]))
      else if req_url rq = ''https://portainer/api/stacks''
      then Response stacks_status (Body_Json stacks)
      else Response 200 (Body_Json JNull), s)"

definition demo_sys :: "int \<Rightarrow> json \<Rightarrow> unit sys" where
  "demo_sys st stacks =
     \<lparr>server = demo_server st stacks, files = (\<lambda>path. if path = ''docker-compose.yml'' then Some ''a: 1'' else None),
      parse_url = (\<lambda>_. Some demo_url), normalize_url = (\<lambda>_. Some ''https://portainer''),
      elapsed = ''1s''\<rparr>"

definition demo_stack_json :: "int \<Rightarrow> json" where
  "demo_stack_json ep = JObj [(''Id'', JNum 1), (''Name'', JStr ''stack''), (''EndpointID'', JNum ep)]"

definition demo_plugin :: "string list \<Rightarrow> string list \<Rightarrow> plugin" where
  "demo_plugin cfg env =
     \<lparr>plugin_repo = \<lparr>repo_owner = [], repo_name = [], repo_link = [], repo_avatar = [], repo_branch = [],
                     repo_private = False, repo_trusted = False\<rparr>,
      plugin_build = \<lparr>build_number = 0, build_event = ''push'', build_status = ''success'', build_deploy = [],
                      build_created = 0, build_started = 0, build_finished = 0, build_link = []\<rparr>,
      plugin_commit = \<lparr>commit_remote = [], commit_sha = [], commit_ref = [], commit_link = [],
                       commit_branch = ''master'', commit_message = [],
                       commit_author = \<lparr>author_name = [], author_email = [], author_avatar = []\<rparr>\<rparr>,
      plugin_config = \<lparr>cfg_portainer = \<lparr>cfg_address = ''portainer'', cfg_username = ''admin'',
                                        cfg_password = ''secret'', cfg_endpoint = ''local'', cfg_insecure = False\<rparr>,
                       cfg_stack = \<lparr>stk_name = ''stack'', stk_path = ''docker-compose.yml'',
                                    stk_config = cfg, stk_environment = env\<rparr>,
                       cfg_secrets = [], cfg_debug = False\<rparr>\<rparr>"

definition demo_world :: "unit world" where
  "demo_world = \<lparr>srv_state = (), sent = [], stdout = []\<rparr>"

text \<open>A server that cannot be reached.\<close>

definition demo_down :: "unit sys" where
  "demo_down = (demo_sys 200 JNull)\<lparr>server := (\<lambda>s rq. (Transport_Failure, s))\<rparr>"

text \<open>The client before and after login, the endpoint and stack the scripted server
  describes, and three servers that misbehave in one respect each: a login reply
  without \<^verbatim>\<open>jwt\<close>, an endpoint list with a \<open>null\<close> ahead of the match, and an
  address without scheme on port 9000.\<close>

definition demo_client0 :: portainer where
  "demo_client0 = \<lparr>p_insecure = False, p_address = ''https://portainer'', p_auth = []\<rparr>"

definition demo_client :: portainer where
  "demo_client = \<lparr>p_insecure = False, p_address = ''https://portainer'', p_auth = ''tok''\<rparr>"

definition demo_ep :: endpoint where
  "demo_ep = zero_endpoint\<lparr>endpoint_id := 3, endpoint_name := ''local''\<rparr>"

definition demo_stk :: "int \<Rightarrow> stack" where
  "demo_stk ep = zero_stack\<lparr>stack_id := 1, stack_name := ''stack'', stack_endpoint_id := ep\<rparr>"

definition demo_tokenless :: "unit sys" where
  "demo_tokenless = (demo_sys 200 JNull)\<lparr>server := (\<lambda>s rq. (Response 200 (Body_Json (JObj [(''token'', JStr ''x'')])), s))\<rparr>"

definition demo_null_eps :: "unit sys" where
  "demo_null_eps = (demo_sys 200 JNull)\<lparr>server :=
     (\<lambda>s rq. (Response 200 (Body_Json (JArr [JNull, JObj [(''Id'', JNum 3), (''Name'', JStr ''local'')]])), s))\<rparr>"

definition demo_portless :: "unit sys" where
  "demo_portless = (demo_sys 200 JNull)\<lparr>parse_url := (\<lambda>_. Some (demo_url\<lparr>url_scheme := [], url_port := ''9000''\<rparr>)),
     normalize_url := (\<lambda>u. Some (url_scheme u @ url_host u))\<rparr>"

text \<open>The environment Drone gives the plugin for a pipeline step with address,
  credentials, an inline configuration \<^verbatim>\<open>ports: [80, 443]\<close> and the environment
  entry \<^verbatim>\<open>FOO=a,b\<close>.\<close>

definition demo_env :: "string \<Rightarrow> string" where
  "demo_env v =
     (if v = ''PLUGIN_PORTAINER_ADDRESS'' then ''portainer''
      else if v = ''PLUGIN_USERNAME'' then ''admin''
      else if v = ''PLUGIN_PASSWORD'' then ''secret''
      else if v = ''PLUGIN_CONFIG'' then ''ports: [80, 443]''
      else if v = ''PLUGIN_ENVIRONMENT'' then ''FOO=a,b''
      else [])"

text \<open>A Portainer server of the model of \<open>Portainer_Server\<close>, at the address the
  demo configuration resolves to, with the demo account, the endpoints \<^verbatim>\<open>local\<close>
  (id 3) and \<^verbatim>\<open>remote\<close> (id 7), and the given stacks.\<close>

definition demo_sstack :: "int \<Rightarrow> sstack" where
  "demo_sstack ep = \<lparr>ss_id = 1, ss_name = ''stack'', ss_endpoint = ep, ss_swarm = [], ss_content = ''old'', ss_env = JNull\<rparr>"

definition demo_sep :: sendpoint where
  "demo_sep = \<lparr>se_id = 3, se_name = ''local'', se_swarm = ''sw1''\<rparr>"

definition demo_ps :: "sstack list \<Rightarrow> pserver" where
  "demo_ps ss = \<lparr>ps_base = ''https://portainer'', ps_user = ''admin'', ps_pass = ''secret'', ps_token = ''tok'',
     ps_endpoints = [demo_sep, \<lparr>se_id = 7, se_name = ''remote'', se_swarm = ''sw2''\<rparr>], ps_stacks = ss, ps_next = 10\<rparr>"

definition demo_psys :: "pserver sys" where
  "demo_psys = \<lparr>server = ps_handle, files = (\<lambda>_. None), parse_url = (\<lambda>_. Some demo_url),
     normalize_url = (\<lambda>_. Some ''https://portainer''), elapsed = ''1s''\<rparr>"

definition demo_pworld :: "sstack list \<Rightarrow> pserver world" where
  "demo_pworld ss = \<lparr>srv_state = demo_ps ss, sent = [], stdout = []\<rparr>"

definition demo_srv_env :: "string \<Rightarrow> string" where
  "demo_srv_env v =
     (if v = ''PLUGIN_PORTAINER_ADDRESS'' then ''portainer''
      else if v = ''PLUGIN_USERNAME'' then ''admin''
      else if v = ''PLUGIN_PASSWORD'' then ''secret''
      else if v = ''PLUGIN_CONFIG'' then ''a: 1''
      else [])"

lemmas demo_defs = demo_env_def demo_client0_def demo_client_def demo_ep_def demo_stk_def demo_tokenless_def
  demo_null_eps_def demo_portless_def demo_down_def demo_url_def demo_server_def demo_sys_def demo_stack_json_def demo_plugin_def demo_world_def

lemmas demo_eval = demo_defs new_portainer_def connect_request_def auth_request_def mk_request_def
     endpoints_request_def swarm_request_def stacks_request_def update_request_def string_deploy_request_def bearer_def
     dec_auth_reply_def jwt_fields_def find_field_def field_def dec_endpoints_def dec_endpoint_def
     endpoint_fields_def zero_endpoint_def dec_swarm_reply_def swarm_fields_def dec_stacks_def dec_stack_def
     stack_fields_def zero_stack_def join_config_def nl_def go_itoa_def nat_digits.simps
     in_go_int_def go_int_min_def go_int_max_def strings_splitn2_def Let_def

section \<open>Whole runs of \<^verbatim>\<open>Exec\<close>\<close>

text \<open>
  C1.  A run in which the server accepts every step and holds a stack of the
  configured name on the resolved endpoint updates that stack: \<open>exec\<close> succeeds,
  sends exactly connect, login, endpoint list, swarm inspection, stack list and the
  update \<^verbatim>\<open>PUT\<close>, in this order, with the inline configuration and
  \<^verbatim>\<open>Prune = true\<close>, and prints the six progress messages.
\<close>

theorem exec_update_run:
  assumes pc: "cfg_portainer (plugin_config pl) = pc" and sc: "cfg_stack (plugin_config pl) = sc"
    and np: "new_portainer S (cfg_address pc) (cfg_insecure pc) = Inr p"
    and c: "server S (srv_state w) (connect_request p) = (Response st0 b0, s1)" "st0 < 400"
    and a: "server S s1 (auth_request p (cfg_username pc) (cfg_password pc)) = (Response st1 (Body_Json j1), s2)"
      "st1 \<le> 200" "dec_auth_reply j1 = Some jwt"
    and e: "server S s2 (endpoints_request (p\<lparr>p_auth := jwt\<rparr>)) = (Response st2 (Body_Json j2), s3)"
      "st2 \<le> 200" "dec_endpoints j2 = Some eps" "find_endpoint (cfg_endpoint pc) eps = Inr ep"
    and sw: "server S s3 (swarm_request (p\<lparr>p_auth := jwt\<rparr>) ep) = (Response st3 (Body_Json j3), s4)"
      "st3 \<le> 200" "dec_swarm_reply j3 = Some sid"
    and st: "stk_name sc \<noteq> []"
      "server S s4 (stacks_request (p\<lparr>p_auth := jwt\<rparr>)) = (Response st4 (Body_Json j4), s5)"
      "st4 \<le> 200" "dec_stacks j4 = Some ss" "find_stack (stk_name sc) ss = Inr (Some stk)"
      "stack_endpoint_id stk = endpoint_id ep"
    and env: "parse_env (stk_environment sc) = Inr envs"
    and cfg: "join_config (stk_config sc) \<noteq> []"
    and u: "server S s5 (update_request (p\<lparr>p_auth := jwt\<rparr>) stk (join_config (stk_config sc)) True envs)
              = (Response st5 b5, s6)" "st5 \<le> 200"
  shows \<open>exec S pl w =
     (Inr (),
      w\<lparr>srv_state := s6,
        sent := sent w @
          [connect_request p, auth_request p (cfg_username pc) (cfg_password pc),
           endpoints_request (p\<lparr>p_auth := jwt\<rparr>), swarm_request (p\<lparr>p_auth := jwt\<rparr>) ep,
           stacks_request (p\<lparr>p_auth := jwt\<rparr>),
           update_request (p\<lparr>p_auth := jwt\<rparr>) stk (join_config (stk_config sc)) True envs],
        stdout := stdout w @ ''Connecting to portainer server...'' @ ok_msg @ ''Autentication...'' @ ok_msg
          @ ''Selecting endpoint "'' @ cfg_endpoint pc @ ''"...'' @ ok_msg
          @ ''Search stack "'' @ stk_name sc @ ''"...'' @ ok_msg
          @ ''Updating stack "'' @ stack_name stk @ ''"...'' @ ok_msg
          @ ''Update stack "'' @ stk_name sc @ ''" finished in '' @ elapsed S @ nl\<rparr>)\<close>
  using assms by (simp add: run_defs Let_def)

theorem exec_update_run_witness:
  "fst (exec (demo_sys 200 (JArr [demo_stack_json 3])) (demo_plugin [''a: 1''] [''FOO=bar'']) demo_world) = Inr () \<and>
   map req_method (sent (snd (exec (demo_sys 200 (JArr [demo_stack_json 3])) (demo_plugin [''a: 1''] [''FOO=bar'']) demo_world)))
     = [HEAD, POST, GET, GET, GET, PUT]"
proof -
  let ?S = "demo_sys 200 (JArr [demo_stack_json 3])" and ?pl = "demo_plugin [''a: 1''] [''FOO=bar'']"
  let ?p = "\<lparr>p_insecure = False, p_address = ''https://portainer'', p_auth = []\<rparr>"
  let ?p' = "?p\<lparr>p_auth := ''tok''\<rparr>"
  let ?ep = "zero_endpoint\<lparr>endpoint_id := 3, endpoint_name := ''local''\<rparr>"
  let ?stk = "zero_stack\<lparr>stack_id := 1, stack_name := ''stack'', stack_endpoint_id := 3\<rparr>"
  let ?env = "[\<lparr>env_name = ''FOO'', env_value = ''bar''\<rparr>]"
  have np: "new_portainer ?S (cfg_address (cfg_portainer (plugin_config ?pl))) (cfg_insecure (cfg_portainer (plugin_config ?pl))) = Inr ?p"
    by (simp add: demo_eval)
  have c: "server ?S (srv_state demo_world) (connect_request ?p) = (Response 200 (Body_Json JNull), ())"
    by (simp add: demo_eval)
  have a: "server ?S () (auth_request ?p (cfg_username (cfg_portainer (plugin_config ?pl))) (cfg_password (cfg_portainer (plugin_config ?pl))))
      = (Response 200 (Body_Json (JObj [(''jwt'', JStr ''tok'')])), ())" "dec_auth_reply (JObj [(''jwt'', JStr ''tok'')]) = Some ''tok''"
    by (simp_all add: demo_eval)
  have e: "server ?S () (endpoints_request ?p') = (Response 200 (Body_Json (JArr [JObj [(''Id'', JNum 3), (''Name'', JStr ''local'')]])), ())"
    "dec_endpoints (JArr [JObj [(''Id'', JNum 3), (''Name'', JStr ''local'')]]) = Some [Some ?ep]"
    "find_endpoint (cfg_endpoint (cfg_portainer (plugin_config ?pl))) [Some ?ep] = Inr ?ep"
    by (simp_all add: demo_eval)
  have sw: "server ?S () (swarm_request ?p' ?ep) = (Response 200 (Body_Json (JObj [(''ID'', JStr ''sw1'')])), ())"
    "dec_swarm_reply (JObj [(''ID'', JStr ''sw1'')]) = Some ''sw1''"
    by (simp_all add: demo_eval)
  have st: "server ?S () (stacks_request ?p') = (Response 200 (Body_Json (JArr [demo_stack_json 3])), ())"
    "dec_stacks (JArr [demo_stack_json 3]) = Some [Some ?stk]"
    "find_stack (stk_name (cfg_stack (plugin_config ?pl))) [Some ?stk] = Inr (Some ?stk)"
    by (simp_all add: demo_eval)
  have env: "parse_env (stk_environment (cfg_stack (plugin_config ?pl))) = Inr ?env"
    by (simp add: demo_eval)
  have u: "server ?S () (update_request ?p' ?stk (join_config (stk_config (cfg_stack (plugin_config ?pl)))) True ?env)
      = (Response 200 (Body_Json JNull), ())"
    by (simp add: demo_eval)
  have lt: "(200::int) < 400" and le: "(200::int) \<le> 200" by simp_all
  have ne: "stk_name (cfg_stack (plugin_config ?pl)) \<noteq> []" and eq: "stack_endpoint_id ?stk = endpoint_id ?ep"
    and cf: "join_config (stk_config (cfg_stack (plugin_config ?pl))) \<noteq> []"
    by (simp_all add: demo_eval)
  note run = exec_update_run [OF refl refl np c lt a(1) le a(2) e(1) le e(2,3) sw(1) le sw(2)
    ne st(1) le st(2,3) eq env cf u le]
  show ?thesis unfolding run by (simp add: demo_eval)
qed
text \<open>
  C2.  When the first stack listed under the configured name belongs to another
  endpoint, the run creates the stack on the resolved endpoint: after the endpoint
  list, the swarm inspection and the stack list it sends the create \<^verbatim>\<open>POST\<close>
  with the inline configuration and the endpoint's swarm id, and no update, even
  when a later entry of the list is the stack on the resolved endpoint.
\<close>

theorem select_and_deploy_other_endpoint:
  assumes e: "server S (srv_state w) (endpoints_request p) = (Response st2 (Body_Json j2), s3)"
      "st2 \<le> 200" "dec_endpoints j2 = Some eps" "find_endpoint (cfg_endpoint pc) eps = Inr ep"
    and sw: "server S s3 (swarm_request p ep) = (Response st3 (Body_Json j3), s4)"
      "st3 \<le> 200" "dec_swarm_reply j3 = Some sid"
    and st: "stk_name sc \<noteq> []"
      "server S s4 (stacks_request p) = (Response st4 (Body_Json j4), s5)"
      "st4 \<le> 200" "dec_stacks j4 = Some ss" "find_stack (stk_name sc) ss = Inr (Some stk)"
      "stack_endpoint_id stk \<noteq> endpoint_id ep"
    and env: "parse_env (stk_environment sc) = Inr envs"
    and cfg: "join_config (stk_config sc) \<noteq> []"
    and d: "server S s5 (string_deploy_request p (ep\<lparr>endpoint_swarm_id := sid\<rparr>) (stk_name sc)
              (join_config (stk_config sc)) envs) = (Response st5 b5, s6)" "st5 \<le> 200"
  shows \<open>select_and_deploy S p pc sc w =
     (Inr (),
      w\<lparr>srv_state := s6,
        sent := sent w @
          [endpoints_request p, swarm_request p ep, stacks_request p,
           string_deploy_request p (ep\<lparr>endpoint_swarm_id := sid\<rparr>) (stk_name sc) (join_config (stk_config sc)) envs],
        stdout := stdout w @ ''Selecting endpoint "'' @ cfg_endpoint pc @ ''"...'' @ ok_msg
          @ ''Search stack "'' @ stk_name sc @ ''"...'' @ ok_msg
          @ ''Depploy stack "'' @ stk_name sc @ ''"...'' @ ok_msg
          @ ''Deploy stack '' @ stk_name sc @ '' finished in '' @ elapsed S @ nl\<rparr>)\<close>
  using assms by (simp add: run_defs select_and_deploy_def)

theorem select_and_deploy_other_endpoint_witness:
  "dec_stacks (JArr [demo_stack_json 7, demo_stack_json 3]) =
     Some [Some (zero_stack\<lparr>stack_id := 1, stack_name := ''stack'', stack_endpoint_id := 7\<rparr>),
           Some (zero_stack\<lparr>stack_id := 1, stack_name := ''stack'', stack_endpoint_id := 3\<rparr>)] \<and>
   fst (select_and_deploy (demo_sys 200 (JArr [demo_stack_json 7, demo_stack_json 3]))
     \<lparr>p_insecure = False, p_address = ''https://portainer'', p_auth = ''tok''\<rparr>
     (cfg_portainer (plugin_config (demo_plugin [''a: 1''] [''FOO=bar''])))
     (cfg_stack (plugin_config (demo_plugin [''a: 1''] [''FOO=bar'']))) demo_world) = Inr () \<and>
   map req_method (sent (snd (select_and_deploy (demo_sys 200 (JArr [demo_stack_json 7, demo_stack_json 3]))
     \<lparr>p_insecure = False, p_address = ''https://portainer'', p_auth = ''tok''\<rparr>
     (cfg_portainer (plugin_config (demo_plugin [''a: 1''] [''FOO=bar''])))
     (cfg_stack (plugin_config (demo_plugin [''a: 1''] [''FOO=bar'']))) demo_world))) = [GET, GET, GET, POST]"
proof -
  let ?J = "JArr [demo_stack_json 7, demo_stack_json 3]"
  let ?S = "demo_sys 200 ?J" and ?pl = "demo_plugin [''a: 1''] [''FOO=bar'']"
  let ?p = "\<lparr>p_insecure = False, p_address = ''https://portainer'', p_auth = ''tok''\<rparr>"
  let ?ep = "zero_endpoint\<lparr>endpoint_id := 3, endpoint_name := ''local''\<rparr>"
  let ?s7 = "zero_stack\<lparr>stack_id := 1, stack_name := ''stack'', stack_endpoint_id := 7\<rparr>"
  let ?s3 = "zero_stack\<lparr>stack_id := 1, stack_name := ''stack'', stack_endpoint_id := 3\<rparr>"
  let ?env = "[\<lparr>env_name = ''FOO'', env_value = ''bar''\<rparr>]"
  have e: "server ?S (srv_state demo_world) (endpoints_request ?p) = (Response 200 (Body_Json (JArr [JObj [(''Id'', JNum 3), (''Name'', JStr ''local'')]])), ())"
    "dec_endpoints (JArr [JObj [(''Id'', JNum 3), (''Name'', JStr ''local'')]]) = Some [Some ?ep]"
    "find_endpoint (cfg_endpoint (cfg_portainer (plugin_config ?pl))) [Some ?ep] = Inr ?ep"
    by (simp_all add: demo_eval)
  have sw: "server ?S () (swarm_request ?p ?ep) = (Response 200 (Body_Json (JObj [(''ID'', JStr ''sw1'')])), ())"
    "dec_swarm_reply (JObj [(''ID'', JStr ''sw1'')]) = Some ''sw1''"
    by (simp_all add: demo_eval)
  have st: "stk_name (cfg_stack (plugin_config ?pl)) \<noteq> []"
    "server ?S () (stacks_request ?p) = (Response 200 (Body_Json ?J), ())"
    "dec_stacks ?J = Some [Some ?s7, Some ?s3]"
    "find_stack (stk_name (cfg_stack (plugin_config ?pl))) [Some ?s7, Some ?s3] = Inr (Some ?s7)"
    "stack_endpoint_id ?s7 \<noteq> endpoint_id ?ep"
    by (simp_all add: demo_eval)
  have env: "parse_env (stk_environment (cfg_stack (plugin_config ?pl))) = Inr ?env"
    and cf: "join_config (stk_config (cfg_stack (plugin_config ?pl))) \<noteq> []"
    by (simp_all add: demo_eval)
  have d: "server ?S () (string_deploy_request ?p (?ep\<lparr>endpoint_swarm_id := ''sw1''\<rparr>) (stk_name (cfg_stack (plugin_config ?pl)))
      (join_config (stk_config (cfg_stack (plugin_config ?pl)))) ?env) = (Response 200 (Body_Json JNull), ())"
    by (simp add: demo_eval)
  have le: "(200::int) \<le> 200" by simp
  note run = select_and_deploy_other_endpoint [OF e(1) le e(2,3) sw(1) le sw(2) st(1,2) le st(3,4,5) env cf d le]
  show ?thesis unfolding run using st(3) by (simp add: demo_eval)
qed

text \<open>
  C3.  A failed stack lookup (here a status above 200 on the stack list) is
  printed as \<^verbatim>\<open>FAIL\<close> and otherwise ignored: the run goes on to create the stack
  as if none existed, and succeeds.
\<close>

theorem select_and_deploy_lookup_failure:
  assumes e: "server S (srv_state w) (endpoints_request p) = (Response st2 (Body_Json j2), s3)"
      "st2 \<le> 200" "dec_endpoints j2 = Some eps" "find_endpoint (cfg_endpoint pc) eps = Inr ep"
    and sw: "server S s3 (swarm_request p ep) = (Response st3 (Body_Json j3), s4)"
      "st3 \<le> 200" "dec_swarm_reply j3 = Some sid"
    and st: "stk_name sc \<noteq> []" "server S s4 (stacks_request p) = (Response st4 b4, s5)" "200 < st4"
    and env: "parse_env (stk_environment sc) = Inr envs"
    and cfg: "join_config (stk_config sc) \<noteq> []"
    and d: "server S s5 (string_deploy_request p (ep\<lparr>endpoint_swarm_id := sid\<rparr>) (stk_name sc)
              (join_config (stk_config sc)) envs) = (Response st5 b5, s6)" "st5 \<le> 200"
  shows \<open>select_and_deploy S p pc sc w =
     (Inr (),
      w\<lparr>srv_state := s6,
        sent := sent w @
          [endpoints_request p, swarm_request p ep, stacks_request p,
           string_deploy_request p (ep\<lparr>endpoint_swarm_id := sid\<rparr>) (stk_name sc) (join_config (stk_config sc)) envs],
        stdout := stdout w @ ''Selecting endpoint "'' @ cfg_endpoint pc @ ''"...'' @ ok_msg
          @ ''Search stack "'' @ stk_name sc @ ''"...'' @ fail_msg
          @ ''Depploy stack "'' @ stk_name sc @ ''"...'' @ ok_msg
          @ ''Deploy stack '' @ stk_name sc @ '' finished in '' @ elapsed S @ nl\<rparr>)\<close>
  using assms by (simp add: run_defs select_and_deploy_def)

theorem select_and_deploy_lookup_failure_witness:
  "fst (select_and_deploy (demo_sys 500 JNull)
     \<lparr>p_insecure = False, p_address = ''https://portainer'', p_auth = ''tok''\<rparr>
     (cfg_portainer (plugin_config (demo_plugin [''a: 1''] [])))
     (cfg_stack (plugin_config (demo_plugin [''a: 1''] []))) demo_world) = Inr () \<and>
   map req_method (sent (snd (select_and_deploy (demo_sys 500 JNull)
     \<lparr>p_insecure = False, p_address = ''https://portainer'', p_auth = ''tok''\<rparr>
     (cfg_portainer (plugin_config (demo_plugin [''a: 1''] [])))
     (cfg_stack (plugin_config (demo_plugin [''a: 1''] []))) demo_world))) = [GET, GET, GET, POST]"
proof -
  let ?S = "demo_sys 500 JNull" and ?pl = "demo_plugin [''a: 1''] []"
  let ?p = "\<lparr>p_insecure = False, p_address = ''https://portainer'', p_auth = ''tok''\<rparr>"
  let ?ep = "zero_endpoint\<lparr>endpoint_id := 3, endpoint_name := ''local''\<rparr>"
  have e: "server ?S (srv_state demo_world) (endpoints_request ?p) = (Response 200 (Body_Json (JArr [JObj [(''Id'', JNum 3), (''Name'', JStr ''local'')]])), ())"
    "dec_endpoints (JArr [JObj [(''Id'', JNum 3), (''Name'', JStr ''local'')]]) = Some [Some ?ep]"
    "find_endpoint (cfg_endpoint (cfg_portainer (plugin_config ?pl))) [Some ?ep] = Inr ?ep"
    by (simp_all add: demo_eval)
  have sw: "server ?S () (swarm_request ?p ?ep) = (Response 200 (Body_Json (JObj [(''ID'', JStr ''sw1'')])), ())"
    "dec_swarm_reply (JObj [(''ID'', JStr ''sw1'')]) = Some ''sw1''"
    by (simp_all add: demo_eval)
  have st: "stk_name (cfg_stack (plugin_config ?pl)) \<noteq> []"
    "server ?S () (stacks_request ?p) = (Response 500 (Body_Json JNull), ())" "(200::int) < 500"
    by (simp_all add: demo_eval)
  have env: "parse_env (stk_environment (cfg_stack (plugin_config ?pl))) = Inr []"
    and cf: "join_config (stk_config (cfg_stack (plugin_config ?pl))) \<noteq> []"
    by (simp_all add: demo_eval)
  have d: "server ?S () (string_deploy_request ?p (?ep\<lparr>endpoint_swarm_id := ''sw1''\<rparr>) (stk_name (cfg_stack (plugin_config ?pl)))
      (join_config (stk_config (cfg_stack (plugin_config ?pl)))) []) = (Response 200 (Body_Json JNull), ())"
    by (simp add: demo_eval)
  have le: "(200::int) \<le> 200" by simp
  note run = select_and_deploy_lookup_failure [OF e(1) le e(2,3) sw(1) le sw(2) st env cf d le]
  show ?thesis unfolding run by (simp add: demo_world_def)
qed

text \<open>
  C4.  A failed connection (transport error or a status of 400 or more) stops the
  run after the single \<^verbatim>\<open>HEAD\<close>: the run fails, nothing else is sent, and the
  output is the connection label followed by \<^verbatim>\<open>FAIL\<close>.
\<close>

theorem exec_connect_failure:
  assumes np: "new_portainer S (cfg_address (cfg_portainer (plugin_config pl))) (cfg_insecure (cfg_portainer (plugin_config pl))) = Inr p"
    and c: "server S (srv_state w) (connect_request p) = (r, s1)"
      "case r of Transport_Failure \<Rightarrow> True | Response st b \<Rightarrow> 400 \<le> st"
  shows "isl (fst (exec S pl w)) \<and>
    snd (exec S pl w) = w\<lparr>srv_state := s1, sent := sent w @ [connect_request p],
      stdout := stdout w @ ''Connecting to portainer server...'' @ fail_msg\<rparr>"
  using assms by (cases r) (simp_all add: run_defs exec_def Let_def)

theorem exec_connect_failure_witness:
  "isl (fst (exec demo_down (demo_plugin [''a: 1''] []) demo_world)) \<and>
   sent (snd (exec demo_down (demo_plugin [''a: 1''] []) demo_world)) =
     [connect_request \<lparr>p_insecure = False, p_address = ''https://portainer'', p_auth = []\<rparr>] \<and>
   stdout (snd (exec demo_down (demo_plugin [''a: 1''] []) demo_world)) = ''Connecting to portainer server...'' @ fail_msg"
proof -
  let ?p = "\<lparr>p_insecure = False, p_address = ''https://portainer'', p_auth = []\<rparr>"
  have np: "new_portainer demo_down (cfg_address (cfg_portainer (plugin_config (demo_plugin [''a: 1''] []))))
      (cfg_insecure (cfg_portainer (plugin_config (demo_plugin [''a: 1''] [])))) = Inr ?p"
    by (simp add: demo_eval)
  have c: "server demo_down (srv_state demo_world) (connect_request ?p) = (Transport_Failure, ())"
    by (simp add: demo_defs)
  have r: "case Transport_Failure of Transport_Failure \<Rightarrow> True | Response st b \<Rightarrow> 400 \<le> st" by simp
  note run = exec_connect_failure [OF np c r]
  show ?thesis using run by (simp add: demo_world_def)
qed
section \<open>The component properties at the concrete inputs\<close>

theorem select_and_deploy_env_error_witness:
  "sends (\<lambda>rq. req_method rq = GET)
     (select_and_deploy (demo_sys 200 JNull) demo_client (cfg_portainer (plugin_config (demo_plugin [''a: 1''] [''FOO=1'', ''BAR''])))
        (cfg_stack (plugin_config (demo_plugin [''a: 1''] [''FOO=1'', ''BAR''])))) \<and>
   isl (fst (select_and_deploy (demo_sys 200 JNull) demo_client (cfg_portainer (plugin_config (demo_plugin [''a: 1''] [''FOO=1'', ''BAR''])))
        (cfg_stack (plugin_config (demo_plugin [''a: 1''] [''FOO=1'', ''BAR'']))) demo_world))"
proof -
  have h: "parse_env (stk_environment (cfg_stack (plugin_config (demo_plugin [''a: 1''] [''FOO=1'', ''BAR''])))) = Inl Panic_Index_Out_Of_Range"
    by (simp add: demo_eval)
  show ?thesis by (rule Plugin_Exec.select_and_deploy_env_error [OF h])
qed

theorem select_and_deploy_no_source_witness:
  "sends (\<lambda>rq. req_method rq = GET)
     (select_and_deploy (demo_sys 200 JNull) demo_client (cfg_portainer (plugin_config (demo_plugin [[]] [])))
        ((cfg_stack (plugin_config (demo_plugin [[]] [])))\<lparr>stk_path := []\<rparr>)) \<and>
   isl (fst (select_and_deploy (demo_sys 200 JNull) demo_client (cfg_portainer (plugin_config (demo_plugin [[]] [])))
        ((cfg_stack (plugin_config (demo_plugin [[]] [])))\<lparr>stk_path := []\<rparr>) demo_world))"
proof -
  have h: "join_config (stk_config ((cfg_stack (plugin_config (demo_plugin [[]] [])))\<lparr>stk_path := []\<rparr>)) = []"
    "stk_path ((cfg_stack (plugin_config (demo_plugin [[]] [])))\<lparr>stk_path := []\<rparr>) = []"
    "files (demo_sys 200 JNull) [] = None"
    by (simp_all add: demo_eval)
  show ?thesis by (rule Plugin_Exec.select_and_deploy_no_source [OF h])
qed

theorem deploy_or_update_refines_witness:
  "deploy_or_update (demo_sys 200 JNull) demo_client demo_ep (Some (demo_stk 3))
     (cfg_stack (plugin_config (demo_plugin [''a: 1''] []))) [] ''a: 1'' =
   update_branch (demo_sys 200 JNull) demo_client (demo_stk 3) (cfg_stack (plugin_config (demo_plugin [''a: 1''] []))) [] ''a: 1''"
proof -
  have h: "None \<notin> set [Some (demo_stk 3)]" "distinct (map (\<lambda>x. stack_name (the x)) [Some (demo_stk 3)])"
    "find_stack (stk_name (cfg_stack (plugin_config (demo_plugin [''a: 1''] [])))) [Some (demo_stk 3)] = Inr (Some (demo_stk 3))"
    by (simp_all add: demo_eval demo_stk_def)
  show ?thesis
    by (rule trans [OF Plugin_Exec.deploy_or_update_refines [OF h]]) (simp add: demo_defs)
qed

theorem exec_one_write_witness:
  "sends_le mutating 1 (exec (demo_sys 200 (JArr [demo_stack_json 7, demo_stack_json 3])) (demo_plugin [''a: 1''] []))"
  by (rule Plugin_Exec.exec_one_write)

theorem parse_env_ok_witness:
  "\<exists>es. parse_env [''FOO=bar=baz''] = Inr es \<and> map (\<lambda>e. env_name e @ CHR ''='' # env_value e) es = [''FOO=bar=baz''] \<and>
        (\<forall>e\<in>set es. CHR ''='' \<notin> set (env_name e))"
  by (rule Plugin_Exec.parse_env_ok) simp

theorem parse_env_panic_witness:
  "parse_env [''A=1'', ''B''] = Inl Panic_Index_Out_Of_Range"
  by (rule Plugin_Exec.parse_env_panic) simp

theorem get_endpoint_by_name_found_witness:
  "get_endpoint_by_name (demo_sys 200 JNull) demo_client ''local'' demo_world =
     (Inr (demo_ep\<lparr>endpoint_swarm_id := ''sw1''\<rparr>),
      demo_world\<lparr>sent := [endpoints_request demo_client, swarm_request demo_client demo_ep]\<rparr>)"
proof -
  have e: "server (demo_sys 200 JNull) (srv_state demo_world) (endpoints_request demo_client)
      = (Response 200 (Body_Json (JArr [JObj [(''Id'', JNum 3), (''Name'', JStr ''local'')]])), ())"
    "dec_endpoints (JArr [JObj [(''Id'', JNum 3), (''Name'', JStr ''local'')]]) = Some (map Some [] @ Some demo_ep # [])"
    "\<forall>x\<in>set []. endpoint_name x \<noteq> ''local''" "endpoint_name demo_ep = ''local''"
    by (simp_all add: demo_eval)
  have sw: "server (demo_sys 200 JNull) () (swarm_request demo_client demo_ep) = (Response 200 (Body_Json (JObj [(''ID'', JStr ''sw1'')])), ())"
    "dec_swarm_reply (JObj [(''ID'', JStr ''sw1'')]) = Some ''sw1''"
    by (simp_all add: demo_eval)
  have le: "(200::int) \<le> 200" by simp
  show ?thesis using Portainer_Client.get_endpoint_by_name_found [OF e(1) le e(2-4) sw(1) le sw(2)]
    by (simp add: demo_world_def)
qed

theorem connect_run_witness:
  "fst (connect demo_down demo_client0 demo_world) = Inl Err_Transport"
proof -
  have h: "server demo_down (srv_state demo_world) (connect_request demo_client0) = (Transport_Failure, ())"
    by (simp add: demo_defs)
  show ?thesis using Portainer_Client.connect_run [OF h] by simp
qed

theorem auth_without_token_witness:
  "fst (auth demo_tokenless demo_client0 ''admin'' ''secret'' demo_world) = Inr demo_client0"
proof -
  have h: "server demo_tokenless (srv_state demo_world) (auth_request demo_client0 ''admin'' ''secret'')
      = (Response 200 (Body_Json (JObj [(''token'', JStr ''x'')])), ())" "(200::int) \<le> 200"
    "\<forall>m\<in>set [(''token'', JStr ''x'')]. \<not> equal_fold (fst m) ''jwt''"
    by (simp_all add: demo_defs equal_fold_def ascii_lower_def)
  show ?thesis using Portainer_Client.auth_without_token [OF h] by (simp add: demo_client0_def)
qed

theorem get_endpoint_by_name_null_panics_witness:
  "fst (get_endpoint_by_name demo_null_eps demo_client ''local'' demo_world) = Inl Panic_Nil_Dereference"
proof -
  have h: "server demo_null_eps (srv_state demo_world) (endpoints_request demo_client)
      = (Response 200 (Body_Json (JArr [JNull, JObj [(''Id'', JNum 3), (''Name'', JStr ''local'')]])), ())" "(200::int) \<le> 200"
    "dec_endpoints (JArr [JNull, JObj [(''Id'', JNum 3), (''Name'', JStr ''local'')]]) = Some (map Some [] @ None # [Some demo_ep])"
    "\<forall>x\<in>set []. endpoint_name x \<noteq> ''local''"
    by (simp_all add: demo_eval)
  show ?thesis using Portainer_Client.get_endpoint_by_name_null_panics [OF h] by simp
qed

theorem search_stack_outcome_witness:
  "fst (search_stack (demo_sys 200 (JArr [JNull])) demo_client ''stack'' demo_world) = Inl Panic_Nil_Dereference \<and>
   fst (search_stack (demo_sys 500 JNull) demo_client ''stack'' demo_world) = Inr None"
proof -
  have "fst (get_stack_by_name (demo_sys 200 (JArr [JNull])) demo_client ''stack'' demo_world) = Inl Panic_Nil_Dereference"
    by (simp add: run_defs demo_eval)
  then obtain w1 where h1: "get_stack_by_name (demo_sys 200 (JArr [JNull])) demo_client ''stack'' demo_world = (Inl Panic_Nil_Dereference, w1)"
    by (cases "get_stack_by_name (demo_sys 200 (JArr [JNull])) demo_client ''stack'' demo_world") auto
  have "fst (get_stack_by_name (demo_sys 500 JNull) demo_client ''stack'' demo_world) = Inl (Err_Api GET ''https://portainer/api/stacks'' 500)"
    by (simp add: run_defs demo_eval)
  then obtain w2 where h2: "get_stack_by_name (demo_sys 500 JNull) demo_client ''stack'' demo_world = (Inl (Err_Api GET ''https://portainer/api/stacks'' 500), w2)"
    by (cases "get_stack_by_name (demo_sys 500 JNull) demo_client ''stack'' demo_world") auto
  show ?thesis using Plugin_Exec.search_stack_outcome [OF h1] Plugin_Exec.search_stack_outcome [OF h2] by simp
qed
theorem run_list_settings_witness:
  "join_config (stk_config (cfg_stack (plugin_config (run demo_env)))) = ''ports: [80'' @ nl @ ''443]'' \<and>
   stk_environment (cfg_stack (plugin_config (run demo_env))) = [''FOO=a'', ''b'']"
proof -
  have f: "first_env demo_env [''PLUGIN_STACK_CONFIG'', ''PLUGIN_CONFIG'', ''STACK_CONFIG''] = Some ''ports: [80, 443]''"
    "first_env demo_env [''PLUGIN_STACK_ENVIRONMENT'', ''PLUGIN_STACK_ENV'', ''PLUGIN_ENVIRONMENT'', ''PLUGIN_ENV'',
                 ''STACK_ENVIRONMENT'', ''STACK_ENV''] = Some ''FOO=a,b''"
    by (simp_all add: demo_env_def)
  have v: "strings_join (map trim_space (strings_split (CHR '','') ''ports: [80, 443]'')) nl = ''ports: [80'' @ nl @ ''443]''"
    "map trim_space (strings_split (CHR '','') ''FOO=a,b'') = [''FOO=a'', ''b'']"
    by code_simp+
  show ?thesis using Cli_Main.run_list_settings [of demo_env "''ports: [80, 443]''" "''FOO=a,b''"] f v by simp
qed

theorem main_env_panic_witness:
  "fst (main_exit (\<lambda>_. []) (demo_sys 200 JNull) demo_env demo_world) \<noteq> 0 \<and>
   (\<exists>new. sent (snd (main_exit (\<lambda>_. []) (demo_sys 200 JNull) demo_env demo_world)) = sent demo_world @ new \<and>
          (\<forall>rq\<in>set new. \<not> mutating rq))"
proof -
  have h: "parse_env (stk_environment (cfg_stack (plugin_config (run demo_env)))) = Inl Panic_Index_Out_Of_Range"
    by code_simp
  show ?thesis by (rule Cli_Main.main_env_panic [OF h])
qed

section \<open>The protocol at the concrete inputs\<close>

text \<open>The scripted server of C1 lets the run succeed; the client it builds, and the
  protocol path the run takes, written out.\<close>

lemma demo_run_ok:
  "fst (exec (demo_sys 200 (JArr [demo_stack_json 3])) (demo_plugin [''a: 1''] [''FOO=bar'']) demo_world) = Inr ()"
  by (simp add: run_defs demo_eval exec_def select_and_deploy_def update_request_def)

lemma demo_np:
  "new_portainer (demo_sys 200 (JArr [demo_stack_json 3])) (cfg_address (cfg_portainer (plugin_config (demo_plugin [''a: 1''] [''FOO=bar'']))))
     (cfg_insecure (cfg_portainer (plugin_config (demo_plugin [''a: 1''] [''FOO=bar''])))) = Inr demo_client0"
  by (simp add: demo_eval)

theorem exec_follows_protocol_witness:
  "new_portainer (demo_sys 200 (JArr [demo_stack_json 3])) (cfg_address (cfg_portainer (plugin_config (demo_plugin [''a: 1''] [''FOO=bar'']))))
     (cfg_insecure (cfg_portainer (plugin_config (demo_plugin [''a: 1''] [''FOO=bar''])))) = Inr demo_client0 \<and>
   fst (exec (demo_sys 200 (JArr [demo_stack_json 3])) (demo_plugin [''a: 1''] [''FOO=bar'']) demo_world) = Inr () \<and>
   (\<exists>new q. sent (snd (exec (demo_sys 200 (JArr [demo_stack_json 3])) (demo_plugin [''a: 1''] [''FOO=bar'']) demo_world)) = sent demo_world @ new \<and>
      req_path (proto_step demo_client0 (cfg_username (cfg_portainer (plugin_config (demo_plugin [''a: 1''] [''FOO=bar'']))))
        (cfg_password (cfg_portainer (plugin_config (demo_plugin [''a: 1''] [''FOO=bar'']))))
        (stk_name (cfg_stack (plugin_config (demo_plugin [''a: 1''] [''FOO=bar'']))))) A_Start new q \<and>
      (fst (exec (demo_sys 200 (JArr [demo_stack_json 3])) (demo_plugin [''a: 1''] [''FOO=bar'']) demo_world) = Inr () \<longrightarrow> q = A_Write))"
  by (intro conjI demo_np demo_run_ok Protocol.exec_follows_protocol [OF demo_np])

theorem exec_token_witness:
  "\<exists>new t. sent (snd (exec (demo_sys 200 (JArr [demo_stack_json 3])) (demo_plugin [''a: 1''] [''FOO=bar'']) demo_world)) = sent demo_world @ new \<and>
     (\<forall>rq\<in>set (drop 2 new). req_auth rq = Some (''Bearer '' @ t))"
  by (rule Protocol.exec_token)

lemma demo_login:
  "server (demo_sys 200 (JArr [demo_stack_json 3])) (srv_state demo_world) (connect_request demo_client0) = (Response 200 (Body_Json JNull), ())"
  "server (demo_sys 200 (JArr [demo_stack_json 3])) () (auth_request demo_client0
     (cfg_username (cfg_portainer (plugin_config (demo_plugin [''a: 1''] [''FOO=bar''])))) (cfg_password (cfg_portainer (plugin_config (demo_plugin [''a: 1''] [''FOO=bar''])))))
     = (Response 200 (Body_Json (JObj [(''jwt'', JStr ''tok'')])), ())"
  "dec_auth_reply (JObj [(''jwt'', JStr ''tok'')]) = Some ''tok''"
  by (simp_all add: demo_eval)

theorem exec_token_from_login_witness:
  "\<exists>rest. sent (snd (exec (demo_sys 200 (JArr [demo_stack_json 3])) (demo_plugin [''a: 1''] [''FOO=bar'']) demo_world)) =
     sent demo_world @ connect_request demo_client0 # auth_request demo_client0 ''admin'' ''secret'' # rest \<and>
   (\<forall>rq\<in>set rest. req_auth rq = Some ''Bearer tok'')"
proof -
  have le: "(200::int) < 400" "(200::int) \<le> 200" by simp_all
  from Plugin_Exec.exec_token_from_login [OF demo_np demo_login(1) le(1) demo_login(2) le(2) demo_login(3)]
  show ?thesis by (simp add: demo_plugin_def)
qed

theorem exec_write_order_witness:
  "\<exists>e rest. sent (snd (exec (demo_sys 200 (JArr [demo_stack_json 3])) (demo_plugin [''a: 1''] [''FOO=bar'']) demo_world)) =
     sent demo_world @ connect_request demo_client0 # auth_request demo_client0 ''admin'' ''secret''
     # endpoints_request (demo_client0\<lparr>p_auth := ''tok''\<rparr>) # swarm_request (demo_client0\<lparr>p_auth := ''tok''\<rparr>) e # rest \<and>
   rest \<noteq> [] \<and> mutating (last rest)"
proof -
  have le: "(200::int) < 400" "(200::int) \<le> 200" by simp_all
  from Protocol.exec_write_order [OF demo_np demo_login(1) le(1) demo_login(2) le(2) demo_login(3) demo_run_ok]
  show ?thesis by (simp add: demo_plugin_def)
qed

theorem exec_success_one_write_witness:
  "fst (exec (demo_sys 200 (JArr [demo_stack_json 3])) (demo_plugin [''a: 1''] [''FOO=bar'']) demo_world) = Inr () \<and>
   (\<exists>new. sent (snd (exec (demo_sys 200 (JArr [demo_stack_json 3])) (demo_plugin [''a: 1''] [''FOO=bar'']) demo_world)) = sent demo_world @ new \<and>
     length (filter mutating new) = 1 \<and> mutating (last new))"
  by (intro conjI demo_run_ok Protocol.exec_success_one_write [OF demo_run_ok])

section \<open>Runs against the server model\<close>

lemmas demo_server_defs = demo_sstack_def demo_sep_def demo_ps_def demo_psys_def demo_pworld_def

lemma demo_serves: "serves demo_psys (demo_plugin [''a: 1''] [''FOO=bar'']) (demo_ps ss) =
    ((\<forall>s\<in>set ss. in_go_int (ss_id s) \<and> in_go_int (ss_endpoint s) \<and> ss_id s < 10) \<and>
     distinct (map ss_id ss) \<and> distinct (map (\<lambda>s. (ss_name s, ss_endpoint s)) ss))"
  by (simp add: serves_def ps_wf_def demo_server_defs demo_eval in_go_int_def go_int_min_def go_int_max_def)

lemma demo_inputs:
  "List.find (\<lambda>e. se_name e = cfg_endpoint (cfg_portainer (plugin_config (demo_plugin [''a: 1''] [''FOO=bar''])))) (ps_endpoints (demo_ps ss)) = Some demo_sep"
  "stk_name (cfg_stack (plugin_config (demo_plugin [''a: 1''] [''FOO=bar'']))) \<noteq> []"
  "parse_env (stk_environment (cfg_stack (plugin_config (demo_plugin [''a: 1''] [''FOO=bar''])))) = Inr [\<lparr>env_name = ''FOO'', env_value = ''bar''\<rparr>]"
  "join_config (stk_config (cfg_stack (plugin_config (demo_plugin [''a: 1''] [''FOO=bar''])))) \<noteq> []"
  "srv_state (demo_pworld ss) = demo_ps ss"
  by (simp_all add: demo_server_defs demo_eval)

theorem exec_succeeds_on_server_witness:
  "fst (exec demo_psys (demo_plugin [''a: 1''] [''FOO=bar'']) (demo_pworld [demo_sstack 3])) = Inr ()"
proof -
  have s: "serves demo_psys (demo_plugin [''a: 1''] [''FOO=bar'']) (demo_ps [demo_sstack 3])"
    by (simp add: demo_serves demo_sstack_def in_go_int_def go_int_min_def go_int_max_def)
  have d: "distinct (map ss_name (ps_stacks (demo_ps [demo_sstack 3])))" by (simp add: demo_ps_def)
  show ?thesis by (rule Server_Runs.exec_succeeds_on_server [OF s demo_inputs(5) _ demo_inputs(2,3,4) d]) (simp add: demo_inputs(1))
qed

theorem exec_deploys_on_server_witness:
  "deployed (demo_ps [demo_sstack 3]) (srv_state (snd (exec demo_psys (demo_plugin [''a: 1''] [''FOO=bar'']) (demo_pworld [demo_sstack 3]))))
     3 ''stack'' ''a: 1'' (enc_slice enc_env [\<lparr>env_name = ''FOO'', env_value = ''bar''\<rparr>])"
proof -
  have s: "serves demo_psys (demo_plugin [''a: 1''] [''FOO=bar'']) (demo_ps [demo_sstack 3])"
    by (simp add: demo_serves demo_sstack_def in_go_int_def go_int_min_def go_int_max_def)
  have d: "distinct (map ss_name (ps_stacks (demo_ps [demo_sstack 3])))" by (simp add: demo_ps_def)
  from Server_Runs.exec_deploys_on_server [OF s demo_inputs(5,1,2,3,4) d] show ?thesis
    by (simp add: demo_sep_def demo_eval)
qed

theorem exec_redeploy_idempotent_witness:
  "fst (exec demo_psys (demo_plugin [''a: 1''] [''FOO=bar'']) (demo_pworld [])) = Inr () \<and>
   fst (exec demo_psys (demo_plugin [''a: 1''] [''FOO=bar'']) (snd (exec demo_psys (demo_plugin [''a: 1''] [''FOO=bar'']) (demo_pworld [])))) = Inr () \<and>
   srv_state (snd (exec demo_psys (demo_plugin [''a: 1''] [''FOO=bar''])
       (snd (exec demo_psys (demo_plugin [''a: 1''] [''FOO=bar'']) (demo_pworld []))))) =
   srv_state (snd (exec demo_psys (demo_plugin [''a: 1''] [''FOO=bar'']) (demo_pworld [])))"
proof -
  have s: "serves demo_psys (demo_plugin [''a: 1''] [''FOO=bar'']) (demo_ps [])" by (simp add: demo_serves)
  have h: "\<forall>s\<in>set (ps_stacks (demo_ps [])). ss_name s = stk_name (cfg_stack (plugin_config (demo_plugin [''a: 1''] [''FOO=bar'']))) \<longrightarrow> ss_endpoint s = se_id demo_sep"
    by (simp add: demo_ps_def)
  have nx: "ps_next (demo_ps []) < go_int_max" by (simp add: demo_ps_def go_int_max_def)
  show ?thesis by (rule Server_Runs.exec_redeploy_idempotent [OF s demo_inputs(5,1,2,3,4) h nx])
qed

theorem exec_redeploy_conflict_witness:
  "fst (exec demo_psys (demo_plugin [''a: 1''] [''FOO=bar'']) (demo_pworld [demo_sstack 7])) = Inr () \<and>
   fst (exec demo_psys (demo_plugin [''a: 1''] [''FOO=bar'']) (snd (exec demo_psys (demo_plugin [''a: 1''] [''FOO=bar'']) (demo_pworld [demo_sstack 7])))) =
     Inl (Err_Api POST (''https://portainer'' @ ''/api/stacks?type=1&method=string&endpointId='' @ ''3'') 409)"
proof -
  have s: "serves demo_psys (demo_plugin [''a: 1''] [''FOO=bar'']) (demo_ps [demo_sstack 7])"
    by (simp add: demo_serves demo_sstack_def in_go_int_def go_int_min_def go_int_max_def)
  have f: "List.find (\<lambda>s. ss_name s = stk_name (cfg_stack (plugin_config (demo_plugin [''a: 1''] [''FOO=bar''])))) (ps_stacks (demo_ps [demo_sstack 7])) = Some (demo_sstack 7)"
    "ss_endpoint (demo_sstack 7) \<noteq> se_id demo_sep"
    "\<forall>s\<in>set (ps_stacks (demo_ps [demo_sstack 7])). ss_name s = stk_name (cfg_stack (plugin_config (demo_plugin [''a: 1''] [''FOO=bar'']))) \<longrightarrow> ss_endpoint s \<noteq> se_id demo_sep"
    by (simp_all add: demo_server_defs demo_eval)
  have nx: "ps_next (demo_ps [demo_sstack 7]) < go_int_max" by (simp add: demo_ps_def go_int_max_def)
  from Server_Runs.exec_redeploy_conflict [OF s demo_inputs(5,1,2,3,4) f nx] show ?thesis
    by (simp add: demo_ps_def demo_sep_def go_itoa_def nat_digits.simps)
qed

theorem listing_without_token_witness:
  "srv_runs (get_endpoint_by_name demo_psys demo_client0 ''local'') (demo_ps [])
     (Inl (Err_Api GET (''https://portainer'' @ ''/api/endpoints'') 401)) (demo_ps []) \<and>
   srv_runs (get_stack_by_name demo_psys demo_client0 ''stack'') (demo_ps [])
     (Inl (Err_Api GET (''https://portainer'' @ ''/api/stacks'') 401)) (demo_ps [])"
  using Server_Runs.listing_without_token [of demo_psys demo_client0 "demo_ps []" "''stack''" "''local''"]
  by (simp add: demo_psys_def demo_client0_def demo_ps_def)

theorem exec_bad_credentials_witness:
  "srv_runs (exec demo_psys (demo_plugin [''a: 1''] [''FOO=bar''])) ((demo_ps [])\<lparr>ps_pass := ''other''\<rparr>)
     (Inl (Err_Api POST (''https://portainer'' @ ''/api/auth'') 422)) ((demo_ps [])\<lparr>ps_pass := ''other''\<rparr>)"
  using Server_Runs.exec_bad_credentials [of demo_psys "demo_plugin [''a: 1''] [''FOO=bar'']"
      "\<lparr>p_insecure = False, p_address = ''https://portainer'', p_auth = []\<rparr>" "(demo_ps [])\<lparr>ps_pass := ''other''\<rparr>"]
  by (simp add: demo_server_defs demo_eval)

theorem exec_endpoint_missing_witness:
  "srv_runs (exec demo_psys (demo_plugin [''a: 1''] [''FOO=bar''])) ((demo_ps [])\<lparr>ps_endpoints := [demo_sep\<lparr>se_name := ''remote''\<rparr>]\<rparr>)
     (Inl (Err_Endpoint_Not_Found ''local'')) ((demo_ps [])\<lparr>ps_endpoints := [demo_sep\<lparr>se_name := ''remote''\<rparr>]\<rparr>)"
  using Server_Runs.exec_endpoint_missing [of demo_psys "demo_plugin [''a: 1''] [''FOO=bar'']"
      "(demo_ps [])\<lparr>ps_endpoints := [demo_sep\<lparr>se_name := ''remote''\<rparr>]\<rparr>"]
  by (simp add: serves_def ps_wf_def demo_server_defs demo_eval in_go_int_def go_int_min_def go_int_max_def)

text \<open>
  C26.  The whole process against the server model: when the environment
  variables name the server's address and account, an endpoint the server holds,
  a stack name, an inline configuration and a well-formed environment, and the
  server's stack names are unique, \<^verbatim>\<open>main\<close> exits with status 0 and the
  endpoint holds exactly one stack of that name with that configuration and
  environment, nothing else on the server changed.
\<close>

theorem main_deploys_on_server:
  assumes s: "serves S (run g) ps" and w: "srv_state w = ps"
    and x: "List.find (\<lambda>e. se_name e = c_string g ''portainer.endpoint'') (ps_endpoints ps) = Some x"
    and n: "c_string g ''stack.name'' \<noteq> []"
    and env: "parse_env (c_string_slice g ''stack.environment'') = Inr envs"
    and cfg: "join_config (c_string_slice g ''stack.config'') \<noteq> []"
    and d: "distinct (map ss_name (ps_stacks ps))"
  shows "fst (main_exit lib S g w) = 0 \<and>
    deployed ps (srv_state (snd (main_exit lib S g w))) (se_id x) (c_string g ''stack.name'')
      (join_config (c_string_slice g ''stack.config'')) (enc_slice enc_env envs)"
proof -
  have wf: "ps_wf ps" using s by (simp add: serves_def)
  note out = exec_outcome [OF s w, unfolded run_def, simplified, OF x n env cfg]
  have ok: "fst (exec S (run g) w) = Inr ()"
    using out deploy_outcome_Inr [OF d] by (simp add: run_def)
  have dep: "deployed ps (srv_state (snd (exec S (run g) w))) (se_id x) (c_string g ''stack.name'')
      (join_config (c_string_slice g ''stack.config'')) (enc_slice enc_env envs)"
    using out deploy_outcome_deployed [OF wf d] by (simp add: run_def)
  from dep show ?thesis by (simp add: main_exit_ok [OF ok])
qed

theorem main_deploys_on_server_witness:
  "fst (main_exit (\<lambda>_. []) demo_psys demo_srv_env (demo_pworld [demo_sstack 3])) = 0 \<and>
   deployed (demo_ps [demo_sstack 3]) (srv_state (snd (main_exit (\<lambda>_. []) demo_psys demo_srv_env (demo_pworld [demo_sstack 3]))))
     3 ''stack'' ''a: 1'' (enc_slice enc_env [])"
proof -
  have r: "c_string demo_srv_env ''portainer.address'' = ''portainer''"
    "c_string demo_srv_env ''portainer.username'' = ''admin''"
    "c_string demo_srv_env ''portainer.password'' = ''secret''"
    "c_string demo_srv_env ''portainer.endpoint'' = ''local''"
    "c_bool demo_srv_env ''portainer.insecure'' = False"
    "c_string demo_srv_env ''stack.name'' = ''stack''"
    "c_string_slice demo_srv_env ''stack.environment'' = []"
    by (simp_all add: run_reads env_or_def demo_srv_env_def)
  have c: "c_string_slice demo_srv_env ''stack.config'' = [''a: 1'']"
    by (simp add: run_reads demo_srv_env_def) code_simp
  have s: "serves demo_psys (run demo_srv_env) (demo_ps [demo_sstack 3])"
    by (simp add: serves_def run_def r ps_wf_def demo_server_defs demo_eval in_go_int_def go_int_min_def go_int_max_def)
  have h: "List.find (\<lambda>e. se_name e = c_string demo_srv_env ''portainer.endpoint'') (ps_endpoints (demo_ps [demo_sstack 3])) = Some demo_sep"
    "c_string demo_srv_env ''stack.name'' \<noteq> []"
    "parse_env (c_string_slice demo_srv_env ''stack.environment'') = Inr []"
    "join_config (c_string_slice demo_srv_env ''stack.config'') \<noteq> []"
    "distinct (map ss_name (ps_stacks (demo_ps [demo_sstack 3])))"
    "srv_state (demo_pworld [demo_sstack 3]) = demo_ps [demo_sstack 3]"
    by (simp_all add: r c demo_server_defs demo_eval)
  from main_deploys_on_server [OF s h(6,1,2,3,4,5)] show ?thesis
    by (simp add: r c demo_sep_def demo_eval)
qed

theorem redeploys_stable_witness:
  "fst (exec demo_psys (demo_plugin [''a: 1''] [''FOO=bar''])
      (snd (exec demo_psys (demo_plugin [''a: 1''] [''FOO=bar'']) (snd (exec demo_psys (demo_plugin [''a: 1''] [''FOO=bar'']) (demo_pworld [])))))) = Inr () \<and>
   srv_state (snd (exec demo_psys (demo_plugin [''a: 1''] [''FOO=bar''])
      (snd (exec demo_psys (demo_plugin [''a: 1''] [''FOO=bar'']) (snd (exec demo_psys (demo_plugin [''a: 1''] [''FOO=bar'']) (demo_pworld []))))))) =
   snd (deploy_outcome (demo_ps []) 3 ''sw1'' ''stack'' ''a: 1'' (enc_slice enc_env [\<lparr>env_name = ''FOO'', env_value = ''bar''\<rparr>]))"
proof -
  let ?S = demo_psys and ?pl = "demo_plugin [''a: 1''] [''FOO=bar'']"
  let ?w1 = "snd (exec ?S ?pl (demo_pworld []))"
  let ?w2 = "snd (exec ?S ?pl ?w1)"
  have s: "serves ?S ?pl (demo_ps [])" by (simp add: demo_serves)
  have h: "\<forall>s\<in>set (ps_stacks (demo_ps [])). ss_name s = stk_name (cfg_stack (plugin_config ?pl)) \<longrightarrow> ss_endpoint s = se_id demo_sep"
    by (simp add: demo_ps_def)
  have nx: "ps_next (demo_ps []) < go_int_max" by (simp add: demo_ps_def go_int_max_def)
  have r1: "redeploys ?S ?pl (demo_ps []) (srv_state ?w1)"
    by (rule redeploys_step [OF redeploys_refl demo_inputs(5)])
  have r2: "redeploys ?S ?pl (demo_ps []) (srv_state ?w2)"
    by (rule redeploys_step [OF r1 refl])
  from Server_Runs.redeploys_stable [OF s demo_inputs(1,2,3,4) h nx r2 refl]
  show ?thesis by (simp add: demo_sep_def demo_eval)
qed

theorem exec_inline_file_equiv_witness:
  "exec (demo_sys 200 (JArr [demo_stack_json 3])) (demo_plugin [] [''FOO=bar'']) =
   exec (demo_sys 200 (JArr [demo_stack_json 3])) (demo_plugin [''a: 1''] [''FOO=bar''])"
proof -
  have h: "stk_path (cfg_stack (plugin_config (demo_plugin [''a: 1''] [''FOO=bar'']))) \<noteq> []"
    "files (demo_sys 200 (JArr [demo_stack_json 3])) (stk_path (cfg_stack (plugin_config (demo_plugin [''a: 1''] [''FOO=bar'']))))
       = Some (join_config (stk_config (cfg_stack (plugin_config (demo_plugin [''a: 1''] [''FOO=bar''])))))"
    "join_config (stk_config (cfg_stack (plugin_config (demo_plugin [''a: 1''] [''FOO=bar''])))) \<noteq> []"
    by (simp_all add: demo_eval)
  from Plugin_Exec.exec_inline_file_equiv [OF h] show ?thesis by (simp add: demo_plugin_def)
qed

end
